theory Spec2Isabelle
  imports Complex_Main "HOL-Library.Char_ord" "HOL-Library.List_Lexorder"
begin


section \<open>JavaScript values used by the handlers\<close>

text \<open>
  A JavaScript number is a double: a finite value, one of the two infinities, or NaN.
  Comparisons of a double against a literal are exact, so a finite double is modelled by
  the real number it denotes. An object field that is \<open>undefined\<close> or \<open>null\<close> is
  \<open>None\<close>.
\<close>

datatype jsnum = NaN | NegInf | Fin real | PosInf

text \<open>Truthiness of a number (\<open>0\<close> and \<open>NaN\<close> are falsy) and of a string (\<open>''\<close> is falsy).\<close>

fun truthy_num :: "jsnum \<Rightarrow> bool" where
  "truthy_num NaN = False"
| "truthy_num (Fin x) = (x \<noteq> 0)"
| "truthy_num NegInf = True"
| "truthy_num PosInf = True"

fun truthy_str :: "string option \<Rightarrow> bool" where
  "truthy_str None = False"
| "truthy_str (Some s) = (s \<noteq> [])"

text \<open>\<open>x || 0\<close> on a number, and \<open>s || d\<close> on an optional string.\<close>

definition or_zero :: "jsnum \<Rightarrow> jsnum" where
  "or_zero x = (if truthy_num x then x else Fin 0)"

definition or_str :: "string option \<Rightarrow> string \<Rightarrow> string" where
  "or_str s d = (if truthy_str s then the s else d)"

text \<open>\<open>x >= c\<close> for a numeric literal \<open>c\<close>: false on NaN.\<close>

fun num_ge :: "jsnum \<Rightarrow> real \<Rightarrow> bool" where
  "num_ge NaN c = False"
| "num_ge NegInf c = False"
| "num_ge (Fin x) c = (c \<le> x)"
| "num_ge PosInf c = True"

text \<open>
  A field read from a JSON payload whose declared type is \<open>any\<close> and that the code
  passes to \<open>parseFloat\<close> or \<open>parseInt\<close>: absent or null, a boolean, a number or a
  string.
\<close>

datatype jsfield = Absent | Boolean bool | Number jsnum | Text string

fun truthy_field :: "jsfield \<Rightarrow> bool" where
  "truthy_field Absent = False"
| "truthy_field (Boolean b) = b"
| "truthy_field (Number n) = truthy_num n"
| "truthy_field (Text s) = (s \<noteq> [])"

text \<open>\<open>a || b\<close> on two such fields.\<close>

definition or_field :: "jsfield \<Rightarrow> jsfield \<Rightarrow> jsfield" where
  "or_field a b = (if truthy_field a then a else b)"

text \<open>
  The built-ins \<open>parseFloat\<close> and \<open>parseInt\<close> first convert their argument to a string.
  Their reading of a non-empty string is a parameter of the model (the record
  \<open>builtins\<close>): it is the language's, not the repository's. What is fixed here is
  what the language guarantees for the other arguments: \<open>undefined\<close>, \<open>null\<close>,
  booleans and the empty string give NaN, and \<open>parseFloat\<close> of a number gives that
  number back. \<open>parseInt\<close> of a number parses the decimal notation of the number and
  is left to the parameter too.
  \<open>JSON.parse\<close> is used on one field only, a list of image URLs: \<open>None\<close> is a
  SyntaxError. \<open>Date_toISOString d\<close> is \<open>new Date(d).toISOString()\<close>: \<open>None\<close> is
  the RangeError of an invalid date.
\<close>

record builtins =
  parseFloat_string :: "string \<Rightarrow> jsnum"
  parseInt_string :: "string \<Rightarrow> jsnum"
  parseInt_number :: "jsnum \<Rightarrow> jsnum"
  JSON_parse :: "string \<Rightarrow> string list option"
  Date_toISOString :: "string \<Rightarrow> string option"

fun parseFloat :: "builtins \<Rightarrow> jsfield \<Rightarrow> jsnum" where
  "parseFloat env Absent = NaN"
| "parseFloat env (Boolean b) = NaN"
| "parseFloat env (Number n) = n"
| "parseFloat env (Text s) = (if s = [] then NaN else parseFloat_string env s)"

fun parseInt :: "builtins \<Rightarrow> jsfield \<Rightarrow> jsnum" where
  "parseInt env Absent = NaN"
| "parseInt env (Boolean b) = NaN"
| "parseInt env (Number n) = parseInt_number env n"
| "parseInt env (Text s) = (if s = [] then NaN else parseInt_string env s)"

text \<open>\<open>String.prototype.toLowerCase\<close> on the ASCII letters (a \<open>char\<close> is a byte).\<close>

definition lower_char :: "char \<Rightarrow> char" where
  "lower_char c =
     (case map_of (zip ''ABCDEFGHIJKLMNOPQRSTUVWXYZ'' ''abcdefghijklmnopqrstuvwxyz'') c of
        Some l \<Rightarrow> l
      | None \<Rightarrow> c)"

definition toLowerCase :: "string \<Rightarrow> string" where
  "toLowerCase s = map lower_char s"

text \<open>
  \<open>String.prototype.trim\<close> and \<open>split\<close> on a one-character separator. Whitespace is
  the ASCII white space and line terminators.
\<close>

definition is_space :: "char \<Rightarrow> bool" where
  "is_space c = (c \<in> set [CHR '' '', CHR 0x09, CHR 0x0A, CHR 0x0B, CHR 0x0C, CHR 0x0D])"

definition trim :: "string \<Rightarrow> string" where
  "trim s = rev (dropWhile is_space (rev (dropWhile is_space s)))"

fun split_on :: "char \<Rightarrow> string \<Rightarrow> string list" where
  "split_on sep [] = [[]]"
| "split_on sep (c # cs) =
     (if c = sep then [] # split_on sep cs
      else (case split_on sep cs of [] \<Rightarrow> [[c]] | w # ws \<Rightarrow> (c # w) # ws))"

definition split_comma :: "string \<Rightarrow> string list" where
  "split_comma s = split_on (CHR '','') s"

text \<open>\<open>Array.prototype.join\<close>.\<close>

fun join :: "string \<Rightarrow> string list \<Rightarrow> string" where
  "join sep [] = []"
| "join sep [x] = x"
| "join sep (x # y # ys) = x @ sep @ join sep (y # ys)"

text \<open>\<open>String.prototype.includes\<close>.\<close>

definition str_includes :: "string \<Rightarrow> string \<Rightarrow> bool" where
  "str_includes s sub = list_ex (\<lambda>i. take (length sub) (drop i s) = sub) [0 ..< Suc (length s)]"

section \<open>The relational store (\<open>supabase/schema.sql\<close>)\<close>

text \<open>
  The columns of the table \<open>properties\<close> that a client writes (\<open>payload\<close>), and a
  stored row: the payload and the primary key \<open>id\<close>, which the database generates.
  Every written column can hold SQL NULL (\<open>None\<close>); the NOT NULL and CHECK constraints
  of the schema are checked when a row is written. Values are stored as they are sent:
  the rounding of a DECIMAL column is not modelled. Timestamps are kept in the ISO
  notation the API exchanges.
\<close>

record payload =
  c_name :: "string option"
  c_address :: "string option"
  c_city :: "string option"
  c_state :: "string option"
  c_zip_code :: "string option"
  c_price :: "jsnum option"
  c_bedrooms :: "jsnum option"
  c_bathrooms :: "jsnum option"
  c_square_footage :: "jsnum option"
  c_lot_size :: "jsnum option"
  c_year_built :: "jsnum option"
  c_property_type :: "string option"
  c_description :: "string option"
  c_status :: "string option"
  c_images :: "string list option"
  c_tier :: "string option"
  c_salesforce_id :: "string option"
  c_created_at :: "string option"
  c_updated_at :: "string option"
  c_last_synced_at :: "string option"
  c_lead_source :: "string option"
  c_investment_path :: "string option"
  c_actual_profit :: "jsnum option"
  c_projected_profit :: "jsnum option"
  c_sales_date :: "string option"
  c_salesforce_status :: "string option"

record row = payload +
  c_id :: string

definition stored :: "string \<Rightarrow> payload \<Rightarrow> row" where
  "stored uuid pl = payload.extend pl (row.fields uuid)"

text \<open>
  The store: the rows of \<open>properties\<close>, the \<open>last_sync_at\<close> of the single row of
  \<open>sync_status\<close> (\<open>None\<close> when the row is missing), and whether the service answers:
  \<open>unavailable = Some msg\<close> makes every request return the error \<open>msg\<close>. The two
  flags say whether the environment holds the URL with the anonymous key, and with the
  service role key: without them \<open>getSupabase()\<close> and \<open>getSupabaseAdmin()\<close> throw.
\<close>

record database =
  properties :: "row list"
  sync_status :: "string option"
  unavailable :: "string option"
  anon_configured :: bool
  admin_configured :: bool

datatype pg_error =
    Unavailable string
  | Not_null_violation string
  | Check_violation string
  | Affects_row_twice

text \<open>
  A value caught by a \<open>catch\<close>: an \<open>Error\<close> with its message, or the error object of a
  failed database statement. The handlers report the message text of what they caught;
  the model keeps the value.
\<close>

datatype thrown = Error string | Postgrest pg_error

text \<open>The filters of the query builder, on a nullable column: NULL satisfies only \<open>is.null\<close>.\<close>

definition pg_eq :: "string option \<Rightarrow> string \<Rightarrow> bool" where
  "pg_eq col v = (case col of None \<Rightarrow> False | Some c \<Rightarrow> c = v)"

definition pg_neq :: "string option \<Rightarrow> string \<Rightarrow> bool" where
  "pg_neq col v = (case col of None \<Rightarrow> False | Some c \<Rightarrow> c \<noteq> v)"

definition pg_in :: "string option \<Rightarrow> string list \<Rightarrow> bool" where
  "pg_in col vs = (case col of None \<Rightarrow> False | Some c \<Rightarrow> c \<in> set vs)"

definition pg_is_null :: "string option \<Rightarrow> bool" where
  "pg_is_null col = (col = None)"

text \<open>
  \<open>ORDER BY updated_at DESC\<close>: NULLs first, then the later timestamp first
  (timestamps in one notation compare as strings). Rows with equal timestamps keep their
  table order (the database leaves that order open).
\<close>

definition sorts_before :: "string option \<Rightarrow> string option \<Rightarrow> bool" where
  "sorts_before a b =
     (case a of None \<Rightarrow> True
      | Some x \<Rightarrow> (case b of None \<Rightarrow> False | Some y \<Rightarrow> y \<le> x))"

fun insert_desc :: "row \<Rightarrow> row list \<Rightarrow> row list" where
  "insert_desc r [] = [r]"
| "insert_desc r (x # xs) =
     (if sorts_before (c_updated_at r) (c_updated_at x) then r # x # xs
      else x # insert_desc r xs)"

definition order_updated_at_desc :: "row list \<Rightarrow> row list" where
  "order_updated_at_desc rs = foldr insert_desc rs []"

section \<open>\<open>src/lib/database.ts\<close>\<close>

text \<open>
  The interface \<open>Property\<close> of \<open>database.ts\<close>. The declared types are erased at run
  time: a field read from a row can be null and a field built by a caller can be
  undefined, so every field is optional here.
\<close>

record DbProperty =
  p_id :: "string option"
  p_name :: "string option"
  p_address :: "string option"
  p_city :: "string option"
  p_state :: "string option"
  p_zipCode :: "string option"
  p_price :: "jsnum option"
  p_bedrooms :: "jsnum option"
  p_bathrooms :: "jsnum option"
  p_squareFootage :: "jsnum option"
  p_lotSize :: "jsnum option"
  p_yearBuilt :: "jsnum option"
  p_propertyType :: "string option"
  p_description :: "string option"
  p_status :: "string option"
  p_images :: "string list option"
  p_tier :: "string option"
  p_salesforceId :: "string option"
  p_createdAt :: "string option"
  p_updatedAt :: "string option"
  p_lastSyncedAt :: "string option"
  p_leadSource :: "string option"
  p_investmentPath :: "string option"
  p_actualProfit :: "jsnum option"
  p_projectedProfit :: "jsnum option"
  p_salesDate :: "string option"
  p_salesforceStatus :: "string option"

text \<open>The snake case to camel case mapping at the end of \<open>getProperties\<close>.\<close>

definition row_to_property :: "row \<Rightarrow> DbProperty" where
  "row_to_property r = \<lparr>
     p_id = Some (c_id r),
     p_name = c_name r,
     p_address = c_address r,
     p_city = c_city r,
     p_state = c_state r,
     p_zipCode = c_zip_code r,
     p_price = c_price r,
     p_bedrooms = c_bedrooms r,
     p_bathrooms = c_bathrooms r,
     p_squareFootage = c_square_footage r,
     p_lotSize = c_lot_size r,
     p_yearBuilt = c_year_built r,
     p_propertyType = c_property_type r,
     p_description = c_description r,
     p_status = c_status r,
     p_images = c_images r,
     p_tier = c_tier r,
     p_salesforceId = c_salesforce_id r,
     p_createdAt = c_created_at r,
     p_updatedAt = c_updated_at r,
     p_lastSyncedAt = c_last_synced_at r,
     p_leadSource = c_lead_source r,
     p_investmentPath = c_investment_path r,
     p_actualProfit = c_actual_profit r,
     p_projectedProfit = c_projected_profit r,
     p_salesDate = c_sales_date r,
     p_salesforceStatus = c_salesforce_status r \<rparr>"

text \<open>
  The tier filter of \<open>getProperties\<close>: \<open>tier && tier !== 'public'\<close> selects
  \<open>.in('tier', allowedTiers)\<close>, anything else \<open>.eq('tier', 'public')\<close>.
\<close>

definition allowedTiers :: "string option \<Rightarrow> string list" where
  "allowedTiers tier =
     (if tier = Some ''vip'' then [''public'', ''registered'', ''vip'']
      else [''public'', ''registered''])"

definition tier_filter :: "string option \<Rightarrow> row \<Rightarrow> bool" where
  "tier_filter tier r =
     (if truthy_str tier \<and> tier \<noteq> Some ''public''
      then pg_in (c_tier r) (allowedTiers tier)
      else pg_eq (c_tier r) ''public'')"

definition base_filter :: "row \<Rightarrow> bool" where
  "base_filter r =
     (pg_eq (c_status r) ''Active'' \<and>
      (pg_neq (c_investment_path r) ''Contract Cancelled/Lost'' \<or>
       pg_is_null (c_investment_path r)))"

text \<open>
  The query of \<open>getProperties\<close> as the server answers it: \<open>{ data, error }\<close>.
\<close>

definition select_properties :: "database \<Rightarrow> string option \<Rightarrow> nat \<Rightarrow> pg_error + row list" where
  "select_properties db tier limit =
     (case unavailable db of
        Some err \<Rightarrow> Inl (Unavailable err)
      | None \<Rightarrow>
          Inr (take limit
                (order_updated_at_desc
                  (filter (\<lambda>r. base_filter r \<and> tier_filter tier r) (properties db)))))"

text \<open>
  \<open>PropertyDatabase.getProperties(tier?, limit = 50)\<close>. A query error is logged and
  the empty list returned; only a missing configuration throws (\<open>Inl\<close>).
\<close>

definition getProperties :: "database \<Rightarrow> string option \<Rightarrow> nat option \<Rightarrow> thrown + DbProperty list" where
  "getProperties db tier limit_arg =
     (if \<not> anon_configured db
      then Inl (Error ''Supabase environment variables not configured'')
      else (let limit = (case limit_arg of None \<Rightarrow> 50 | Some n \<Rightarrow> n)
            in case select_properties db tier limit of
                 Inl error \<Rightarrow> Inr []
               | Inr data \<Rightarrow> Inr (map row_to_property data)))"

text \<open>\<open>PropertyDatabase.getLastSyncTime\<close>: \<open>data?.last_sync_at || null\<close>.\<close>

definition getLastSyncTime :: "database \<Rightarrow> thrown + string option" where
  "getLastSyncTime db =
     (if \<not> anon_configured db
      then Inl (Error ''Supabase environment variables not configured'')
      else (case unavailable db of
              Some err \<Rightarrow> Inr None
            | None \<Rightarrow> Inr (if truthy_str (sync_status db) then sync_status db else None)))"

text \<open>
  \<open>PropertyDatabase.updateSyncStatus\<close>: upserts the row \<open>id = 1\<close> with the current time;
  an error of the statement is logged and not thrown.
\<close>

definition updateSyncStatus :: "string \<Rightarrow> database \<Rightarrow> thrown + database" where
  "updateSyncStatus now db =
     (if \<not> admin_configured db
      then Inl (Error ''Supabase admin environment variables not configured'')
      else (case unavailable db of
              Some err \<Rightarrow> Inr db
            | None \<Rightarrow> Inr (db\<lparr>sync_status := Some now\<rparr>)))"

text \<open>
  What one statement reads from the database server: \<open>NOW()\<close>, and the values
  \<open>gen_random_uuid()\<close> gives to the rows it inserts, in order.
\<close>

record pg_session =
  NOW :: string
  gen_random_uuid :: "nat \<Rightarrow> string"

text \<open>The camel case to snake case mapping at the start of \<open>syncProperties\<close> (no \<open>id\<close>).\<close>

definition to_payload :: "DbProperty \<Rightarrow> payload" where
  "to_payload prop = \<lparr>
     c_name = p_name prop,
     c_address = p_address prop,
     c_city = p_city prop,
     c_state = p_state prop,
     c_zip_code = p_zipCode prop,
     c_price = p_price prop,
     c_bedrooms = p_bedrooms prop,
     c_bathrooms = p_bathrooms prop,
     c_square_footage = p_squareFootage prop,
     c_lot_size = p_lotSize prop,
     c_year_built = p_yearBuilt prop,
     c_property_type = p_propertyType prop,
     c_description = p_description prop,
     c_status = p_status prop,
     c_images = p_images prop,
     c_tier = p_tier prop,
     c_salesforce_id = p_salesforceId prop,
     c_created_at = p_createdAt prop,
     c_updated_at = p_updatedAt prop,
     c_last_synced_at = p_lastSyncedAt prop,
     c_lead_source = p_leadSource prop,
     c_investment_path = p_investmentPath prop,
     c_actual_profit = p_actualProfit prop,
     c_projected_profit = p_projectedProfit prop,
     c_sales_date = p_salesDate prop,
     c_salesforce_status = p_salesforceStatus prop \<rparr>"

text \<open>
  The constraints of \<open>schema.sql\<close> on a written row: \<open>name\<close>, \<open>address\<close>, \<open>city\<close>,
  \<open>state\<close> and \<open>salesforce_id\<close> are NOT NULL, and
  \<open>CHECK (tier IN ('public', 'registered', 'vip'))\<close>, which NULL passes.
\<close>

definition tier_check :: "string option \<Rightarrow> bool" where
  "tier_check t =
     (case t of None \<Rightarrow> True
      | Some v \<Rightarrow> v \<in> set [''public'', ''registered'', ''vip''])"

definition violation :: "payload \<Rightarrow> pg_error option" where
  "violation pl =
     (if c_name pl = None then Some (Not_null_violation ''name'')
      else if c_address pl = None then Some (Not_null_violation ''address'')
      else if c_city pl = None then Some (Not_null_violation ''city'')
      else if c_state pl = None then Some (Not_null_violation ''state'')
      else if c_salesforce_id pl = None then Some (Not_null_violation ''salesforce_id'')
      else if \<not> tier_check (c_tier pl) then Some (Check_violation ''properties_tier_check'')
      else None)"

fun first_violation :: "payload list \<Rightarrow> pg_error option" where
  "first_violation [] = None"
| "first_violation (pl # pls) =
     (case violation pl of Some e \<Rightarrow> Some e | None \<Rightarrow> first_violation pls)"

text \<open>
  \<open>INSERT ... ON CONFLICT (salesforce_id) DO UPDATE\<close> of one payload: a row with the same
  \<open>salesforce_id\<close> keeps its \<open>id\<close> and takes every written column from the payload, and
  the trigger \<open>update_properties_updated_at\<close> (\<open>BEFORE UPDATE\<close>) then sets its
  \<open>updated_at\<close> to \<open>NOW()\<close>; without such a row the payload is inserted under a new
  \<open>id\<close>. With \<open>salesforce_id\<close> UNIQUE there is at most one row to update.
\<close>

fun upsert_row :: "string \<Rightarrow> string \<Rightarrow> payload \<Rightarrow> row list \<Rightarrow> row list" where
  "upsert_row now uuid pl [] = [stored uuid pl]"
| "upsert_row now uuid pl (r # rs) =
     (if c_salesforce_id r = c_salesforce_id pl
      then (stored (c_id r) pl)\<lparr>c_updated_at := Some now\<rparr> # rs
      else r # upsert_row now uuid pl rs)"

fun upsert_rows :: "pg_session \<Rightarrow> nat \<Rightarrow> payload list \<Rightarrow> row list \<Rightarrow> row list" where
  "upsert_rows s k [] rs = rs"
| "upsert_rows s k (pl # pls) rs =
     upsert_rows s (Suc k) pls (upsert_row (NOW s) (gen_random_uuid s k) pl rs)"

text \<open>
  The whole statement is atomic: a constraint violation, or two payloads with the same
  \<open>salesforce_id\<close> (``ON CONFLICT DO UPDATE command cannot affect row a second time''),
  fails it and nothing is written.
\<close>

definition pg_upsert :: "pg_session \<Rightarrow> payload list \<Rightarrow> database \<Rightarrow> pg_error + database" where
  "pg_upsert s pls db =
     (case unavailable db of
        Some err \<Rightarrow> Inl (Unavailable err)
      | None \<Rightarrow>
          (case first_violation pls of
             Some e \<Rightarrow> Inl e
           | None \<Rightarrow>
               if \<not> distinct (map c_salesforce_id pls) then Inl Affects_row_twice
               else Inr (db\<lparr>properties := upsert_rows s 0 pls (properties db)\<rparr>)))"

text \<open>
  \<open>PropertyDatabase.syncProperties\<close>: maps the properties to payloads, upserts them
  with \<open>onConflict: 'salesforce_id'\<close>, and throws the error of the statement (\<open>Inl\<close>).
\<close>

definition syncProperties :: "pg_session \<Rightarrow> database \<Rightarrow> DbProperty list \<Rightarrow> thrown + database" where
  "syncProperties s db props =
     (let dbProperties = map to_payload props
      in if \<not> admin_configured db
         then Inl (Error ''Supabase admin environment variables not configured'')
         else (case pg_upsert s dbProperties db of
                 Inl error \<Rightarrow> Inl (Postgrest error)
               | Inr db' \<Rightarrow> Inr db'))"

section \<open>External calls\<close>

text \<open>
  \<open>SalesforceLeadPayload\<close> of \<open>src/types/user.ts\<close>, the argument of
  \<open>salesforceClient.createLead\<close>.
\<close>

record SalesforceLeadPayload =
  FirstName :: string
  LastName :: string
  Email :: string
  Phone :: "string option"
  Company :: "string option"
  LeadSource :: string
  Status :: string
  Investor_Type__c :: "string option"
  Interests__c :: "string option"
  Website_User_ID__c :: string

text \<open>
  \<open>ext_call\<close> names the operations of the external services (Clerk, Salesforce,
  Cloudinary, the database) with their arguments; a handler returns the list of the
  calls it awaited, in order.
\<close>

datatype ext_call =
    Clerk_auth
  | SF_getTransaction string
  | SF_createLead SalesforceLeadPayload
  | SF_fetch_query
  | Cloudinary_getPropertyImages string
  | DB_getProperties "string option"
  | DB_getLastSyncTime
  | DB_syncProperties
  | DB_updateSyncStatus

section \<open>\<open>src/lib/sync-salesforce.ts\<close> (\<open>SalesforceSync\<close>)\<close>

text \<open>
  A record of the Salesforce object \<open>Property__c\<close> as the SOQL query returns it. The
  fields given to \<open>parseFloat\<close> and \<open>parseInt\<close> are \<open>jsfield\<close>s, the others are
  strings or null.
\<close>

record Property__c =
  pr_Id :: "string option"
  pr_Name :: "string option"
  pr_Address__c :: "string option"
  pr_City__c :: "string option"
  pr_State__c :: "string option"
  pr_Zip_Code__c :: "string option"
  pr_Price__c :: jsfield
  pr_Bedrooms__c :: jsfield
  pr_Bathrooms__c :: jsfield
  pr_Square_Footage__c :: jsfield
  pr_Lot_Size__c :: jsfield
  pr_Year_Built__c :: jsfield
  pr_Property_Type__c :: "string option"
  pr_Description__c :: "string option"
  pr_Status__c :: "string option"
  pr_Image_URLs__c :: "string option"
  pr_Tier__c :: "string option"
  pr_CreatedDate :: "string option"
  pr_LastModifiedDate :: "string option"

text \<open>\<open>s.split(',').map(url => url.trim()).filter(Boolean)\<close>.\<close>

definition split_urls :: "string \<Rightarrow> string list" where
  "split_urls s = filter (\<lambda>url. url \<noteq> []) (map trim (split_comma s))"

text \<open>
  The body of the \<open>map\<close> in \<open>transformProperties\<close>. \<open>now\<close> is
  \<open>new Date().toISOString()\<close>, read once for the request.
\<close>

definition transformProperty :: "builtins \<Rightarrow> string \<Rightarrow> Property__c \<Rightarrow> DbProperty" where
  "transformProperty env now record =
     (let images =
            (if truthy_str (pr_Image_URLs__c record)
             then (case JSON_parse env (the (pr_Image_URLs__c record)) of
                     Some urls \<Rightarrow> urls
                   | None \<Rightarrow> split_urls (the (pr_Image_URLs__c record)))
             else []);
          tier =
            (if truthy_str (pr_Tier__c record)
             then toLowerCase (the (pr_Tier__c record))
             else (let price = or_zero (parseFloat env (pr_Price__c record))
                   in if num_ge price 1000000 then ''vip''
                      else if num_ge price 300000 then ''registered''
                      else ''public''))
      in \<lparr>
        p_id = pr_Id record,
        p_name = Some (or_str (pr_Name record) ''Unnamed Property''),
        p_address = Some (or_str (pr_Address__c record) []),
        p_city = Some (or_str (pr_City__c record) []),
        p_state = Some (or_str (pr_State__c record) []),
        p_zipCode = Some (or_str (pr_Zip_Code__c record) []),
        p_price = Some (or_zero (parseFloat env (pr_Price__c record))),
        p_bedrooms = Some (or_zero (parseInt env (pr_Bedrooms__c record))),
        p_bathrooms = Some (or_zero (parseFloat env (pr_Bathrooms__c record))),
        p_squareFootage = Some (or_zero (parseInt env (pr_Square_Footage__c record))),
        p_lotSize = Some (or_zero (parseFloat env (pr_Lot_Size__c record))),
        p_yearBuilt = Some (or_zero (parseInt env (pr_Year_Built__c record))),
        p_propertyType = Some (or_str (pr_Property_Type__c record) ''Unknown''),
        p_description = Some (or_str (pr_Description__c record) []),
        p_status = Some (or_str (pr_Status__c record) ''Active''),
        p_images = Some images,
        p_tier = Some tier,
        p_salesforceId = pr_Id record,
        p_createdAt = pr_CreatedDate record,
        p_updatedAt = pr_LastModifiedDate record,
        p_lastSyncedAt = Some now,
        p_leadSource = None,
        p_investmentPath = None,
        p_actualProfit = None,
        p_projectedProfit = None,
        p_salesDate = None,
        p_salesforceStatus = None \<rparr>)"

definition transformProperties :: "builtins \<Rightarrow> string \<Rightarrow> Property__c list \<Rightarrow> DbProperty list" where
  "transformProperties env now salesforceRecords =
     map (transformProperty env now) salesforceRecords"

text \<open>
  \<open>SalesforceSync\<close> holds a \<open>SalesforceClient\<close> of \<open>salesforce.ts\<close>. That class
  declares \<open>queryTransactions\<close>, \<open>getTransaction\<close>, \<open>createLead\<close> and \<open>updateLead\<close>
  (and, private, \<open>authenticate\<close>, \<open>ensureAuthenticated\<close> and \<open>makeRequest\<close>); it has
  no \<open>authenticateWithCredentials\<close> and no \<open>query\<close>. Calling either of the two
  throws a \<open>TypeError\<close>, which is an \<open>Error\<close>, before any request is sent; the text
  of its message is the one Node.js gives.
\<close>

definition not_a_function :: "string \<Rightarrow> thrown" where
  "not_a_function callee = Error (callee @ '' is not a function'')"

text \<open>
  \<open>authenticateService\<close>: \<open>credentials_set\<close> says whether \<open>SALESFORCE_USERNAME\<close> and
  \<open>SALESFORCE_PASSWORD\<close> are both set in the environment. It never returns.
\<close>

definition authenticateService :: "bool \<Rightarrow> thrown + unit" where
  "authenticateService credentials_set =
     (if \<not> credentials_set
      then Inl (Error ''SALESFORCE_USERNAME and SALESFORCE_PASSWORD must be set for sync operations'')
      else Inl (not_a_function ''this.salesforceClient.authenticateWithCredentials''))"

text \<open>\<open>fetchSalesforceProperties\<close>: the call of \<open>query\<close> throws.\<close>

definition fetchSalesforceProperties :: "thrown + Property__c list" where
  "fetchSalesforceProperties = Inl (not_a_function ''this.salesforceClient.query'')"

record sync_result =
  success :: bool
  count :: nat
  errors :: "thrown list"

definition sync_failed :: "thrown \<Rightarrow> sync_result" where
  "sync_failed e = \<lparr>success = False, count = 0, errors = [e]\<rparr>"

text \<open>
  \<open>SalesforceSync.syncProperties\<close>: the result, the external calls awaited, and the
  store afterwards. Every exception is caught and reported in \<open>errors\<close>.
\<close>

definition SalesforceSync_syncProperties ::
  "builtins \<Rightarrow> string \<Rightarrow> pg_session \<Rightarrow> bool \<Rightarrow> database
     \<Rightarrow> sync_result \<times> ext_call list \<times> database" where
  "SalesforceSync_syncProperties env now s credentials_set db =
     (case authenticateService credentials_set of
        Inl e \<Rightarrow> (sync_failed e, [], db)
      | Inr authenticated \<Rightarrow>
         (case fetchSalesforceProperties of
            Inl e \<Rightarrow> (sync_failed e, [], db)
          | Inr salesforceProperties \<Rightarrow>
              if length salesforceProperties = 0
              then (\<lparr>success = True, count = 0,
                      errors = [Error ''No properties found in Salesforce'']\<rparr>,
                    [], db)
              else
                (let transformedProperties = transformProperties env now salesforceProperties
                 in case syncProperties s db transformedProperties of
                      Inl e \<Rightarrow> (sync_failed e, [DB_syncProperties], db)
                    | Inr db' \<Rightarrow>
                        (case updateSyncStatus now db' of
                           Inl e \<Rightarrow>
                             (sync_failed e, [DB_syncProperties, DB_updateSyncStatus], db')
                         | Inr db'' \<Rightarrow>
                             (\<lparr>success = True, count = length transformedProperties,
                               errors = []\<rparr>,
                              [DB_syncProperties, DB_updateSyncStatus],
                              db'')))))"

section \<open>\<open>src/app/api/properties-db/upsert/route.ts\<close>\<close>

text \<open>
  One property object of the request body, with the fields the handler reads. Textual
  fields are strings or absent, the fields given to \<open>parseFloat\<close> and \<open>parseInt\<close> are
  \<open>jsfield\<close>s, and \<open>images\<close> is an array of strings, a string, or anything else.
\<close>

datatype images_field = Images_array "string list" | Images_string string | Images_other

record upsert_prop =
  u_tier :: "string option"
  u_price :: jsfield
  u_name :: "string option"
  u_address :: "string option"
  u_city :: "string option"
  u_state :: "string option"
  u_zip_code :: "string option"
  u_zipCode :: "string option"
  u_bedrooms :: jsfield
  u_bathrooms :: jsfield
  u_square_footage :: jsfield
  u_squareFootage :: jsfield
  u_lot_size :: jsfield
  u_lotSize :: jsfield
  u_year_built :: jsfield
  u_yearBuilt :: jsfield
  u_property_type :: "string option"
  u_propertyType :: "string option"
  u_description :: "string option"
  u_status :: "string option"
  u_images :: images_field
  u_salesforce_id :: "string option"
  u_id :: "string option"
  u_created_at :: "string option"
  u_created_date :: "string option"
  u_createdAt :: "string option"
  u_updated_at :: "string option"
  u_last_modified_date :: "string option"
  u_updatedAt :: "string option"
  u_lead_source :: "string option"
  u_investment_path :: "string option"
  u_actual_profit :: jsfield
  u_projected_profit :: jsfield
  u_sales_date :: "string option"
  u_salesforce_status :: "string option"

text \<open>\<open>a || b\<close> where \<open>b\<close> may itself be undefined, and \<open>a || undefined\<close>.\<close>

definition or_opt :: "string option \<Rightarrow> string option \<Rightarrow> string option" where
  "or_opt a b = (if truthy_str a then a else b)"

definition or_undefined :: "string option \<Rightarrow> string option" where
  "or_undefined a = (if truthy_str a then a else None)"

text \<open>The body of the \<open>map\<close> in \<open>POST\<close>: ``transform and validate each property''.\<close>

definition upsert_transform :: "builtins \<Rightarrow> string \<Rightarrow> upsert_prop \<Rightarrow> DbProperty" where
  "upsert_transform env now prop =
     (let tier0 = or_str (u_tier prop) ''public'';
          tier =
            (if \<not> truthy_str (u_tier prop) \<and> truthy_field (u_price prop)
             then (let price = or_zero (parseFloat env (u_price prop))
                   in if num_ge price 1000000 then ''vip''
                      else if num_ge price 300000 then ''registered''
                      else ''public'')
             else tier0)
      in \<lparr>
        p_id = None,
        p_name = Some (or_str (u_name prop) ''Unnamed Property''),
        p_address = Some (or_str (u_address prop) []),
        p_city = Some (or_str (u_city prop) []),
        p_state = Some (or_str (u_state prop) []),
        p_zipCode = Some (or_str (or_opt (u_zip_code prop) (u_zipCode prop)) []),
        p_price = Some (or_zero (parseFloat env (u_price prop))),
        p_bedrooms = Some (or_zero (parseInt env (u_bedrooms prop))),
        p_bathrooms = Some (or_zero (parseFloat env (u_bathrooms prop))),
        p_squareFootage =
          Some (or_zero (parseInt env (or_field (u_square_footage prop) (u_squareFootage prop)))),
        p_lotSize = Some (or_zero (parseFloat env (or_field (u_lot_size prop) (u_lotSize prop)))),
        p_yearBuilt =
          Some (or_zero (parseInt env (or_field (u_year_built prop) (u_yearBuilt prop)))),
        p_propertyType =
          Some (or_str (or_opt (u_property_type prop) (u_propertyType prop)) ''Unknown''),
        p_description = Some (or_str (u_description prop) []),
        p_status = Some (or_str (u_status prop) ''Active''),
        p_images =
          Some (case u_images prop of
                  Images_array urls \<Rightarrow> urls
                | Images_string s \<Rightarrow> split_urls s
                | Images_other \<Rightarrow> []),
        p_tier = Some tier,
        p_salesforceId = or_opt (u_salesforce_id prop) (u_id prop),
        p_createdAt =
          Some (or_str (or_opt (u_created_at prop)
                         (or_opt (u_created_date prop) (u_createdAt prop))) now),
        p_updatedAt =
          Some (or_str (or_opt (u_updated_at prop)
                         (or_opt (u_last_modified_date prop) (u_updatedAt prop))) now),
        p_lastSyncedAt = Some now,
        p_leadSource = or_undefined (u_lead_source prop),
        p_investmentPath = or_undefined (u_investment_path prop),
        p_actualProfit =
          (if truthy_field (u_actual_profit prop)
           then Some (parseFloat env (u_actual_profit prop)) else None),
        p_projectedProfit =
          (if truthy_field (u_projected_profit prop)
           then Some (parseFloat env (u_projected_profit prop)) else None),
        p_salesDate = or_undefined (u_sales_date prop),
        p_salesforceStatus = or_undefined (u_salesforce_status prop) \<rparr>)"

text \<open>
  The request: the \<open>authorization\<close> header, and the body as \<open>request.json()\<close> reads
  it. \<open>request.json()\<close> rejects when the body is not JSON (\<open>Body_unreadable\<close>, with
  the message). A body that is an array is taken as the list of properties, any other
  value is wrapped in a one-element list. An element is \<open>null\<close>, an object with the
  fields above, or a value with none of them: a string, a number, a boolean or an array
  (\<open>Item_other\<close>). \<open>apiKey\<close> is \<open>process.env.SYNC_API_KEY\<close>.
\<close>

datatype upsert_item = Item_null | Item_other | Item_object upsert_prop

datatype upsert_body =
    Body_unreadable string
  | Body_value upsert_item
  | Body_array "upsert_item list"

record upsert_request =
  authorization :: "string option"
  body :: upsert_body

text \<open>An element none of whose fields is defined.\<close>

definition no_fields :: upsert_prop where
  "no_fields = \<lparr>
     u_tier = None, u_price = Absent, u_name = None, u_address = None, u_city = None,
     u_state = None, u_zip_code = None, u_zipCode = None, u_bedrooms = Absent,
     u_bathrooms = Absent, u_square_footage = Absent, u_squareFootage = Absent,
     u_lot_size = Absent, u_lotSize = Absent, u_year_built = Absent, u_yearBuilt = Absent,
     u_property_type = None, u_propertyType = None, u_description = None, u_status = None,
     u_images = Images_other, u_salesforce_id = None, u_id = None, u_created_at = None,
     u_created_date = None, u_createdAt = None, u_updated_at = None,
     u_last_modified_date = None, u_updatedAt = None, u_lead_source = None,
     u_investment_path = None, u_actual_profit = Absent, u_projected_profit = Absent,
     u_sales_date = None, u_salesforce_status = None \<rparr>"

text \<open>
  \<open>properties.map(prop => ...)\<close>: reading \<open>prop.tier\<close> of \<open>null\<close> throws a
  \<open>TypeError\<close> (with the message of Node.js), which ends the \<open>map\<close>.
\<close>

definition cannot_read_null :: "string \<Rightarrow> thrown" where
  "cannot_read_null field =
     Error (''Cannot read properties of null (reading '' @ [CHR 0x27] @ field @ [CHR 0x27] @ '')'')"

fun transform_item :: "builtins \<Rightarrow> string \<Rightarrow> upsert_item \<Rightarrow> thrown + DbProperty" where
  "transform_item env now Item_null = Inl (cannot_read_null ''tier'')"
| "transform_item env now Item_other = Inr (upsert_transform env now no_fields)"
| "transform_item env now (Item_object prop) = Inr (upsert_transform env now prop)"

fun transform_items :: "builtins \<Rightarrow> string \<Rightarrow> upsert_item list \<Rightarrow> thrown + DbProperty list" where
  "transform_items env now [] = Inr []"
| "transform_items env now (item # items) =
     (case transform_item env now item of
        Inl e \<Rightarrow> Inl e
      | Inr p \<Rightarrow>
          (case transform_items env now items of
             Inl e \<Rightarrow> Inl e
           | Inr ps \<Rightarrow> Inr (p # ps)))"

datatype upsert_response =
    Upsert_unauthorized
  | Upsert_ok nat
  | Upsert_failed thrown

fun upsert_status :: "upsert_response \<Rightarrow> nat" where
  "upsert_status Upsert_unauthorized = 401"
| "upsert_status (Upsert_ok n) = 200"
| "upsert_status (Upsert_failed e) = 500"

text \<open>
  \<open>await request.json()\<close> followed by \<open>Array.isArray(body) ? body : [body]\<close>.
\<close>

fun read_body :: "upsert_body \<Rightarrow> thrown + upsert_item list" where
  "read_body (Body_unreadable msg) = Inl (Error msg)"
| "read_body (Body_value item) = Inr [item]"
| "read_body (Body_array items) = Inr items"

text \<open>\<open>POST\<close>: the response, the external calls awaited, and the store afterwards.\<close>

definition upsert_POST ::
  "builtins \<Rightarrow> string \<Rightarrow> pg_session \<Rightarrow> string option \<Rightarrow> upsert_request \<Rightarrow> database
     \<Rightarrow> upsert_response \<times> ext_call list \<times> database" where
  "upsert_POST env now s apiKey request db =
     (if truthy_str apiKey \<and> authorization request \<noteq> Some (''Bearer '' @ the apiKey)
      then (Upsert_unauthorized, [], db)
      else (case read_body (body request) of
        Inl e \<Rightarrow> (Upsert_failed e, [], db)
      | Inr props \<Rightarrow>
         (case transform_items env now props of
            Inl e \<Rightarrow> (Upsert_failed e, [], db)
          | Inr transformedProperties \<Rightarrow>
             (case syncProperties s db transformedProperties of
                Inl e \<Rightarrow> (Upsert_failed e, [DB_syncProperties], db)
              | Inr db' \<Rightarrow>
                  (case updateSyncStatus now db' of
                     Inl e \<Rightarrow> (Upsert_failed e, [DB_syncProperties, DB_updateSyncStatus], db')
                   | Inr db'' \<Rightarrow>
                       (Upsert_ok (length transformedProperties),
                        [DB_syncProperties, DB_updateSyncStatus],
                        db''))))))"

section \<open>\<open>src/types/property.ts\<close>\<close>

text \<open>
  The interfaces as declared: a field marked \<open>?\<close> is optional, the others are not. The
  union types \<open>DealType\<close>, \<open>Market\<close>, \<open>AccessTier\<close> and \<open>PropertyStatus\<close> are strings
  at run time, and the code compares them with \<open>===\<close>. A number that comes from JSON is
  finite.
\<close>

record PropertyImage =
  img_id :: string
  img_url :: string
  img_altText :: "string option"
  img_order :: real

record FlipMetrics =
  fm_arv :: real
  fm_rehabEstimate :: real
  fm_spread :: real
  fm_roi :: real

record RentalMetrics =
  rm_grossYield :: real
  rm_capRate :: real
  rm_monthlyRent :: "real option"

record Address =
  a_street :: string
  a_city :: string
  a_state :: string
  a_zipCode :: string
  a_parish :: string

record Property =
  t_id :: string
  t_title :: string
  t_description :: string
  t_address :: Address
  t_bedrooms :: real
  t_bathrooms :: real
  t_squareFeet :: real
  t_lotSize :: "real option"
  t_yearBuilt :: "real option"
  t_propertyType :: string
  t_dealType :: string
  t_market :: string
  t_listPrice :: real
  t_purchasePrice :: "real option"
  t_status :: string
  t_accessTier :: string
  t_isOffMarket :: bool
  t_images :: "PropertyImage list"
  t_thumbnailUrl :: string
  t_flipMetrics :: "FlipMetrics option"
  t_rentalMetrics :: "RentalMetrics option"
  t_createdDate :: string
  t_updatedDate :: string
  t_ownerId :: string
  t_tags :: "string list option"
  t_notes :: "string option"
  t_showingInstructions :: "string option"

record SalesforceTransaction =
  Id :: string
  Name :: string
  Description__c :: "string option"
  Street_Address__c :: string
  City__c :: string
  State__c :: string
  Zip_Code__c :: string
  Parish__c :: string
  Bedrooms__c :: real
  Bathrooms__c :: real
  Square_Feet__c :: real
  Lot_Size__c :: "real option"
  Year_Built__c :: "real option"
  Property_Type__c :: string
  Deal_Type__c :: string
  Market__c :: string
  List_Price__c :: real
  Purchase_Price__c :: "real option"
  Status__c :: string
  Access_Tier__c :: string
  Is_Off_Market__c :: bool
  ARV__c :: "real option"
  Rehab_Estimate__c :: "real option"
  Spread__c :: "real option"
  ROI__c :: "real option"
  Gross_Yield__c :: "real option"
  Cap_Rate__c :: "real option"
  Monthly_Rent__c :: "real option"
  CreatedDate :: string
  LastModifiedDate :: string
  OwnerId :: string
  Tags__c :: "string option"
  Notes__c :: "string option"
  Showing_Instructions__c :: "string option"

section \<open>\<open>src/lib/salesforce.ts\<close>\<close>

text \<open>\<open>x || 0\<close> on an optional finite number.\<close>

definition num_or_zero :: "real option \<Rightarrow> real" where
  "num_or_zero x = (case x of None \<Rightarrow> 0 | Some v \<Rightarrow> v)"

text \<open>
  \<open>transformSalesforceTransaction(transaction, images = [])\<close>: an omitted image list
  (\<open>None\<close>) is the empty list.
\<close>

definition transformSalesforceTransaction ::
  "SalesforceTransaction \<Rightarrow> PropertyImage list option \<Rightarrow> Property" where
  "transformSalesforceTransaction transaction images_arg =
     (let images = (case images_arg of None \<Rightarrow> [] | Some imgs \<Rightarrow> imgs)
      in \<lparr>
        t_id = Id transaction,
        t_title = Name transaction,
        t_description = or_str (Description__c transaction) [],
        t_address = \<lparr>
          a_street = Street_Address__c transaction,
          a_city = City__c transaction,
          a_state = State__c transaction,
          a_zipCode = Zip_Code__c transaction,
          a_parish = Parish__c transaction \<rparr>,
        t_bedrooms = Bedrooms__c transaction,
        t_bathrooms = Bathrooms__c transaction,
        t_squareFeet = Square_Feet__c transaction,
        t_lotSize = Lot_Size__c transaction,
        t_yearBuilt = Year_Built__c transaction,
        t_propertyType = Property_Type__c transaction,
        t_dealType = Deal_Type__c transaction,
        t_market = Market__c transaction,
        t_listPrice = List_Price__c transaction,
        t_purchasePrice = Purchase_Price__c transaction,
        t_status = Status__c transaction,
        t_accessTier = Access_Tier__c transaction,
        t_isOffMarket = (Is_Off_Market__c transaction \<or> False),
        t_images = images,
        t_thumbnailUrl =
          (if length images > 0 then img_url (images ! 0) else ''/placeholder-house.jpg''),
        t_flipMetrics =
          (if Deal_Type__c transaction = ''Fix & Flip''
           then Some \<lparr>
             fm_arv = num_or_zero (ARV__c transaction),
             fm_rehabEstimate = num_or_zero (Rehab_Estimate__c transaction),
             fm_spread = num_or_zero (Spread__c transaction),
             fm_roi = num_or_zero (ROI__c transaction) \<rparr>
           else None),
        t_rentalMetrics =
          (if Deal_Type__c transaction = ''Rental''
           then Some \<lparr>
             rm_grossYield = num_or_zero (Gross_Yield__c transaction),
             rm_capRate = num_or_zero (Cap_Rate__c transaction),
             rm_monthlyRent = Monthly_Rent__c transaction \<rparr>
           else None),
        t_createdDate = CreatedDate transaction,
        t_updatedDate = LastModifiedDate transaction,
        t_ownerId = OwnerId transaction,
        t_tags =
          (if truthy_str (Tags__c transaction)
           then Some (map trim (split_comma (the (Tags__c transaction))))
           else None),
        t_notes = Notes__c transaction,
        t_showingInstructions = Showing_Instructions__c transaction \<rparr>)"

section \<open>\<open>src/app/api/properties/[id]/route.ts\<close> (property detail)\<close>

text \<open>
  What the handler meets outside: Clerk's \<open>auth()\<close> (\<open>Inl msg\<close>: it throws; else the
  \<open>userId\<close>, \<open>None\<close> when nobody is signed in), \<open>salesforceClient.getTransaction\<close>
  (\<open>Inl msg\<close>: it throws an \<open>Error\<close> with that message) and
  \<open>cloudinaryClient.getPropertyImages\<close>, which catches its own errors and always
  returns a list.
\<close>

record detail_world =
  auth_result :: "string + string option"
  getTransaction_result :: "string \<Rightarrow> string + SalesforceTransaction"
  getPropertyImages_result :: "string \<Rightarrow> PropertyImage list"

datatype detail_response =
    Detail_ok Property
  | Detail_access_denied
  | Detail_registration_required
  | Detail_not_found
  | Detail_failed string

fun detail_status :: "detail_response \<Rightarrow> nat" where
  "detail_status (Detail_ok p) = 200"
| "detail_status Detail_access_denied = 403"
| "detail_status Detail_registration_required = 401"
| "detail_status Detail_not_found = 404"
| "detail_status (Detail_failed msg) = 500"

text \<open>The \<open>catch\<close> of the handler.\<close>

definition detail_catch :: "string \<Rightarrow> detail_response" where
  "detail_catch msg = (if str_includes msg ''NOT_FOUND'' then Detail_not_found else Detail_failed msg)"

text \<open>The access tier of the viewer: \<open>isVip\<close> is the constant \<open>false\<close>.\<close>

definition viewer_tier :: "string option \<Rightarrow> string" where
  "viewer_tier userId =
     (if truthy_str userId
      then (let isVip = False in if isVip then ''vip'' else ''registered'')
      else ''public'')"

text \<open>``Apply access tier filtering'': the object spread of lines 63 to 81.\<close>

definition redact :: "string \<Rightarrow> Property \<Rightarrow> Property" where
  "redact accessTier property =
     (if accessTier = ''public''
      then property\<lparr>
        t_address := (t_address property)\<lparr>a_street := ''Address available after registration''\<rparr>,
        t_showingInstructions := None,
        t_notes := None,
        t_flipMetrics :=
          (case t_flipMetrics property of
             Some fm \<Rightarrow> Some (fm\<lparr>fm_spread := 0\<rparr>)
           | None \<Rightarrow> None),
        t_rentalMetrics :=
          (case t_rentalMetrics property of
             Some rm \<Rightarrow> Some (rm\<lparr>rm_monthlyRent := None\<rparr>)
           | None \<Rightarrow> None) \<rparr>
      else property)"

text \<open>\<open>GET\<close>: the response and the external calls awaited.\<close>

definition detail_GET :: "detail_world \<Rightarrow> string \<Rightarrow> detail_response \<times> ext_call list" where
  "detail_GET w propertyId =
     (case auth_result w of
        Inl msg \<Rightarrow> (detail_catch msg, [Clerk_auth])
      | Inr userId \<Rightarrow>
          (let accessTier = viewer_tier userId
           in case getTransaction_result w propertyId of
                Inl msg \<Rightarrow> (detail_catch msg, [Clerk_auth, SF_getTransaction propertyId])
              | Inr transaction \<Rightarrow>
                  if Access_Tier__c transaction = ''vip'' \<and> accessTier \<noteq> ''vip''
                  then (Detail_access_denied, [Clerk_auth, SF_getTransaction propertyId])
                  else if Access_Tier__c transaction = ''registered'' \<and> accessTier = ''public''
                  then (Detail_registration_required, [Clerk_auth, SF_getTransaction propertyId])
                  else
                    (let images = getPropertyImages_result w propertyId;
                         property = transformSalesforceTransaction transaction (Some images)
                     in (Detail_ok (redact accessTier property),
                         [Clerk_auth, SF_getTransaction propertyId,
                          Cloudinary_getPropertyImages propertyId]))))"

section \<open>\<open>src/app/api/properties/route.ts\<close> (Salesforce-backed listing)\<close>

text \<open>
  A record of \<open>Left_Main__Transactions__c\<close> as the query returns it, and the object
  \<open>transformSalesforceRecord\<close> builds from it (which has fields of its own, beside
  those of the interface \<open>Property\<close>).
\<close>

record Transactions_record =
  lm_Id :: string
  lm_Name :: "string option"
  lm_Street_Address__c :: "string option"
  lm_City__c :: "string option"
  lm_State__c :: "string option"
  lm_Zipcode__c :: "string option"
  lm_Dispo_Status__c :: "string option"
  lm_Contract_Purchase_Price__c :: "real option"
  lm_CreatedDate :: "string option"
  lm_LastModifiedDate :: "string option"

record listing_image =
  li_id :: string
  li_url :: string
  li_alt :: string
  li_order :: real

record listing_flip =
  lf_purchasePrice :: real
  lf_estimatedRehabCost :: real
  lf_afterRepairValue :: real
  lf_spread :: real
  lf_estimatedTimeline :: real

record listing_rental =
  lr_monthlyRent :: real
  lr_annualRent :: real
  lr_capRate :: real
  lr_cashFlow :: real
  lr_insurance :: real
  lr_taxes :: real
  lr_maintenance :: real

record listing_property =
  l_id :: string
  l_title :: string
  l_dealType :: string
  l_market :: string
  l_listPrice :: real
  l_address :: Address
  l_bedrooms :: real
  l_bathrooms :: real
  l_squareFeet :: real
  l_lotSize :: real
  l_yearBuilt :: real
  l_description :: string
  l_images :: "listing_image list"
  l_flipMetrics :: "listing_flip option"
  l_rentalMetrics :: "listing_rental option"
  l_isActive :: bool
  l_isOffMarket :: bool
  l_accessTier :: string
  l_postedDate :: string
  l_updatedDate :: string

text \<open>
  The two city tables, read as \<open>table[city.toLowerCase()] || 'Lafayette'\<close>. Only the
  own keys of the object literal are modelled.
\<close>

definition getParishFromCity :: "string \<Rightarrow> string" where
  "getParishFromCity city =
     (let cityParishMap = map_of
        [(''lafayette'', ''Lafayette''),
         (''baton rouge'', ''East Baton Rouge''),
         (''new orleans'', ''Orleans''),
         (''shreveport'', ''Caddo''),
         (''lake charles'', ''Calcasieu''),
         (''monroe'', ''Ouachita''),
         (''alexandria'', ''Rapides'')]
      in or_str (cityParishMap (toLowerCase city)) ''Lafayette'')"

definition getMarketFromCity :: "string \<Rightarrow> string" where
  "getMarketFromCity city =
     (let cityMarketMap = map_of
        [(''lafayette'', ''lafayette''),
         (''baton rouge'', ''baton-rouge''),
         (''new orleans'', ''new-orleans''),
         (''shreveport'', ''shreveport''),
         (''lake charles'', ''lake-charles''),
         (''monroe'', ''monroe''),
         (''alexandria'', ''alexandria'')]
      in or_str (cityMarketMap (toLowerCase city)) ''lafayette'')"

text \<open>
  \<open>d ? new Date(d).toISOString().split('T')[0] : new Date().toISOString().split('T')[0]\<close>;
  \<open>None\<close> when \<open>toISOString\<close> throws.
\<close>

definition date_part :: "builtins \<Rightarrow> string \<Rightarrow> string option \<Rightarrow> string option" where
  "date_part env now d =
     (if truthy_str d
      then map_option (\<lambda>iso. hd (split_on (CHR ''T'') iso)) (Date_toISOString env (the d))
      else Some (hd (split_on (CHR ''T'') now)))"

text \<open>\<open>transformSalesforceRecord\<close>; \<open>None\<close> when a date makes it throw.\<close>

definition transformSalesforceRecord ::
  "builtins \<Rightarrow> string \<Rightarrow> Transactions_record \<Rightarrow> listing_property option" where
  "transformSalesforceRecord env now record =
     (let dealType = ''Wholesale'';
          street = or_str (lm_Street_Address__c record) ''Address Not Available'';
          city = or_str (lm_City__c record) ''City Not Available'';
          state = or_str (lm_State__c record) ''LA'';
          zipCode = or_str (lm_Zipcode__c record) []
      in case date_part env now (lm_CreatedDate record) of
           None \<Rightarrow> None
         | Some postedDate \<Rightarrow>
        (case date_part env now (lm_LastModifiedDate record) of
           None \<Rightarrow> None
         | Some updatedDate \<Rightarrow>
             Some \<lparr>
               l_id = lm_Id record,
               l_title = or_str (or_opt (lm_Name record) (Some (street @ '', '' @ city)))
                           ''Property Listing'',
               l_dealType = dealType,
               l_market = getMarketFromCity city,
               l_listPrice = 0,
               l_address = \<lparr>
                 a_street = street,
                 a_city = city,
                 a_state = state,
                 a_zipCode = zipCode,
                 a_parish = getParishFromCity city \<rparr>,
               l_bedrooms = 3,
               l_bathrooms = 2,
               l_squareFeet = 1200,
               l_lotSize = 0.25,
               l_yearBuilt = 1990,
               l_description =
                 ''Investment property in '' @ city @ ''. '' @
                 (if truthy_str (lm_Dispo_Status__c record)
                  then ''Status: '' @ the (lm_Dispo_Status__c record) else []),
               l_images =
                 [\<lparr>li_id = lm_Id record @ ''-1'',
                   li_url = ''https://images.unsplash.com/photo-1568605114967-8130f3a36994?w=800'',
                   li_alt = ''Property photo'',
                   li_order = 1\<rparr>],
               l_flipMetrics =
                 (if dealType = ''flip''
                  then Some \<lparr>lf_purchasePrice = 50000, lf_estimatedRehabCost = 15000,
                              lf_afterRepairValue = 95000, lf_spread = 5000,
                              lf_estimatedTimeline = 90\<rparr>
                  else None),
               l_rentalMetrics =
                 (if dealType = ''rental''
                  then Some \<lparr>lr_monthlyRent = 1200, lr_annualRent = 14400, lr_capRate = 8.5,
                              lr_cashFlow = 400, lr_insurance = 100, lr_taxes = 200,
                              lr_maintenance = 200\<rparr>
                  else None),
               l_isActive = True,
               l_isOffMarket = (lm_Dispo_Status__c record = Some ''Closed/Won''),
               l_accessTier = ''registered'',
               l_postedDate = postedDate,
               l_updatedDate = updatedDate \<rparr>))"

text \<open>
  The request: the query parameters and the two cookies. The Salesforce query is one
  \<open>fetch\<close>; the model keeps how it ends and not the text of the SOQL query sent:
  the \<open>fetch\<close> rejects, the response is not \<open>ok\<close> (with its text), its body is not
  JSON, or it is the query result, whose \<open>records\<close> may be missing.
\<close>

record listing_request =
  q_dealTypes :: "string option"
  q_markets :: "string option"
  q_limit :: "string option"
  q_offset :: "string option"
  sf_access_token :: "string option"
  sf_instance_url :: "string option"

record query_response =
  qr_totalSize :: nat
  qr_done :: bool
  qr_nextRecordsUrl :: "string option"
  qr_records :: "Transactions_record list option"

datatype fetch_outcome =
    Fetch_rejects string
  | Fetch_not_ok string
  | Fetch_body_invalid string
  | Fetch_json query_response

record listing_world =
  listing_auth :: "string + string option"
  fetch_query :: fetch_outcome

record listing_data =
  d_properties :: "listing_property list"
  d_totalCount :: nat
  d_hasMore :: bool
  d_nextCursor :: "string option"
  d_message :: "string option"
  d_error :: "string option"

datatype listing_response = Listing_success listing_data | Listing_failed string

fun listing_status :: "listing_response \<Rightarrow> nat" where
  "listing_status (Listing_success d) = 200"
| "listing_status (Listing_failed msg) = 500"

text \<open>The two fallbacks: no Salesforce tokens, and the \<open>catch\<close> around the query.\<close>

definition no_tokens_data :: listing_data where
  "no_tokens_data = \<lparr>
     d_properties = [], d_totalCount = 0, d_hasMore = False, d_nextCursor = None,
     d_message = Some ''Please authenticate with Salesforce to view properties'',
     d_error = None \<rparr>"

definition query_failed_data :: listing_data where
  "query_failed_data = \<lparr>
     d_properties = [], d_totalCount = 0, d_hasMore = False, d_nextCursor = None,
     d_message = None,
     d_error = Some ''Unable to fetch properties from Salesforce'' \<rparr>"

text \<open>\<open>searchParams.get(name)?.split(',') || []\<close>.\<close>

definition list_param :: "string option \<Rightarrow> string list" where
  "list_param v = (case v of None \<Rightarrow> [] | Some s \<Rightarrow> split_comma s)"

text \<open>The body of the inner \<open>try\<close> after the \<open>fetch\<close>; \<open>None\<close> when it throws.\<close>

definition query_success ::
  "builtins \<Rightarrow> string \<Rightarrow> string list \<Rightarrow> query_response \<Rightarrow> listing_data option" where
  "query_success env now dealTypes salesforceData =
     (case qr_records salesforceData of
        None \<Rightarrow> None
      | Some recs \<Rightarrow>
          (case those (map (transformSalesforceRecord env now) recs) of
             None \<Rightarrow> None
           | Some transformed \<Rightarrow>
               (let properties =
                      (if length dealTypes > 0
                       then filter (\<lambda>property. l_dealType property \<in> set dealTypes) transformed
                       else transformed)
                in Some \<lparr>
                     d_properties = properties,
                     d_totalCount = length properties,
                     d_hasMore = (\<not> qr_done salesforceData),
                     d_nextCursor =
                       map_option (\<lambda>url. last (split_on (CHR ''/'') url))
                         (qr_nextRecordsUrl salesforceData),
                     d_message = None,
                     d_error = None \<rparr>)))"

text \<open>\<open>GET\<close>: the response and the external calls awaited.\<close>

definition listing_GET ::
  "builtins \<Rightarrow> string \<Rightarrow> listing_world \<Rightarrow> listing_request \<Rightarrow> listing_response \<times> ext_call list" where
  "listing_GET env now w request =
     (case listing_auth w of
        Inl msg \<Rightarrow> (Listing_failed msg, [Clerk_auth])
      | Inr userId \<Rightarrow>
          (let dealTypes = list_param (q_dealTypes request);
               markets = list_param (q_markets request);
               limit = parseInt env (Text (or_str (q_limit request) ''20''));
               offset = parseInt env (Text (or_str (q_offset request) ''0''));
               accessTier = viewer_tier userId
           in if \<not> truthy_str (sf_access_token request) \<or> \<not> truthy_str (sf_instance_url request)
              then (Listing_success no_tokens_data, [Clerk_auth])
              else (case fetch_query w of
                      Fetch_json salesforceData \<Rightarrow>
                        (case query_success env now dealTypes salesforceData of
                           Some d \<Rightarrow> (Listing_success d, [Clerk_auth, SF_fetch_query])
                         | None \<Rightarrow> (Listing_success query_failed_data, [Clerk_auth, SF_fetch_query]))
                    | _ \<Rightarrow> (Listing_success query_failed_data, [Clerk_auth, SF_fetch_query]))))"

section \<open>\<open>src/app/api/properties-db/route.ts\<close> (database-backed listing)\<close>

text \<open>
  The request: the query parameters \<open>limit\<close>, \<open>offset\<close> and \<open>tier\<close>. \<open>clerk\<close> is how
  the dynamic import of Clerk and \<open>auth()\<close> end: \<open>Inl msg\<close> when either throws (the
  inner \<open>catch\<close> then keeps the public tier), else the \<open>userId\<close>.
\<close>

record db_listing_request =
  r_limit :: "string option"
  r_offset :: "string option"
  r_tier :: "string option"

record db_listing_data =
  b_properties :: "DbProperty list"
  b_totalCount :: nat
  b_hasMore :: bool
  b_tier :: string
  b_lastSyncedAt :: "string option"

datatype db_listing_response = Db_listing_success db_listing_data | Db_listing_failed thrown

fun db_listing_status :: "db_listing_response \<Rightarrow> nat" where
  "db_listing_status (Db_listing_success d) = 200"
| "db_listing_status (Db_listing_failed e) = 500"

text \<open>
  ``Use the more restrictive tier (user's actual tier vs requested tier)'': the nested
  conditional of lines 32 to 34.
\<close>

definition effectiveTier :: "string \<Rightarrow> string \<Rightarrow> string" where
  "effectiveTier userTier tier =
     (if userTier = ''vip'' then tier
      else if userTier = ''registered'' \<and> tier \<noteq> ''vip'' then tier
      else ''public'')"

definition userTier_of :: "string + string option \<Rightarrow> string" where
  "userTier_of clerk =
     (case clerk of
        Inl msg \<Rightarrow> ''public''
      | Inr userId \<Rightarrow> (if truthy_str userId then ''registered'' else ''public''))"

text \<open>
  The parsed \<open>limit\<close> as the query receives it. A limit that is not a natural number
  (NaN, negative, fractional, infinite) makes the query fail, which \<open>getProperties\<close>
  answers with the empty list; \<open>limit_query\<close> is \<open>None\<close> then.
\<close>

definition limit_query :: "jsnum \<Rightarrow> nat option" where
  "limit_query limit =
     (case limit of
        Fin x \<Rightarrow> (if 0 \<le> x \<and> x = of_int \<lfloor>x\<rfloor> then Some (nat \<lfloor>x\<rfloor>) else None)
      | _ \<Rightarrow> None)"

definition getProperties_limit :: "database \<Rightarrow> string option \<Rightarrow> jsnum \<Rightarrow> thrown + DbProperty list" where
  "getProperties_limit db tier limit =
     (case limit_query limit of
        Some n \<Rightarrow> getProperties db tier (Some n)
      | None \<Rightarrow> getProperties (db\<lparr>unavailable := Some ''invalid limit''\<rparr>) tier (Some 0))"

text \<open>\<open>GET\<close>: the response and the external calls awaited.\<close>

definition db_listing_GET ::
  "builtins \<Rightarrow> string + string option \<Rightarrow> database \<Rightarrow> db_listing_request
     \<Rightarrow> db_listing_response \<times> ext_call list" where
  "db_listing_GET env clerk db request =
     (let limit = parseInt env (Text (or_str (r_limit request) ''20''));
          offset = parseInt env (Text (or_str (r_offset request) ''0''));
          tier = or_str (r_tier request) ''public'';
          userTier = userTier_of clerk;
          effective = effectiveTier userTier tier
      in case getProperties_limit db (Some effective) limit of
           Inl e \<Rightarrow> (Db_listing_failed e, [Clerk_auth, DB_getProperties (Some effective)])
         | Inr props \<Rightarrow>
             (case getLastSyncTime db of
                Inl e \<Rightarrow>
                  (Db_listing_failed e,
                   [Clerk_auth, DB_getProperties (Some effective), DB_getLastSyncTime])
              | Inr lastSync \<Rightarrow>
                  (Db_listing_success \<lparr>
                     b_properties = props,
                     b_totalCount = length props,
                     b_hasMore = (Fin (real (length props)) = limit),
                     b_tier = effective,
                     b_lastSyncedAt = lastSync \<rparr>,
                   [Clerk_auth, DB_getProperties (Some effective), DB_getLastSyncTime])))"

section \<open>\<open>src/app/api/webhooks/clerk/route.ts\<close> (webhook receiver)\<close>

text \<open>The payload types of the handler. \<open>?.\<close> guards the two address lists.\<close>

record email_address =
  e_email_address :: string
  e_primary :: bool

record phone_number =
  ph_phone_number :: string
  ph_primary :: bool

datatype interests_field = Interests_array "string list" | Interests_other

record public_metadata =
  m_company :: "string option"
  m_investorType :: "string option"
  m_interests :: interests_field

record ClerkUser =
  cu_id :: string
  cu_email_addresses :: "email_address list option"
  cu_first_name :: "string option"
  cu_last_name :: "string option"
  cu_phone_numbers :: "phone_number list option"
  cu_public_metadata :: "public_metadata option"

record ClerkWebhookEvent =
  ev_type :: string
  ev_data :: ClerkUser

text \<open>
  The request and what the handler meets outside: the configured secret, the three
  \<open>svix\<close> headers, the body, the \<open>verify\<close> of the \<open>svix\<close> library (\<open>None\<close>: it throws)
  and \<open>salesforceClient.createLead\<close> (\<open>Inl msg\<close>: it throws; else the answer of
  Salesforce, with its \<open>success\<close> flag).
\<close>

record webhook_request =
  svix_id :: "string option"
  svix_timestamp :: "string option"
  svix_signature :: "string option"
  body_text :: string

record lead_response =
  lead_id :: string
  lead_success :: bool
  lead_errors :: "string list"

record webhook_world =
  WEBHOOK_SECRET :: "string option"
  verify :: "string \<Rightarrow> webhook_request \<Rightarrow> ClerkWebhookEvent option"
  createLead_result :: "SalesforceLeadPayload \<Rightarrow> string + lead_response"

datatype webhook_response =
    Secret_not_configured
  | Missing_required_headers
  | Invalid_webhook_signature
  | No_primary_email
  | Lead_created string
  | Lead_creation_failed "string list"
  | Lead_creation_threw string
  | User_update_processed
  | Webhook_received

fun webhook_status :: "webhook_response \<Rightarrow> nat" where
  "webhook_status Secret_not_configured = 500"
| "webhook_status Missing_required_headers = 400"
| "webhook_status Invalid_webhook_signature = 400"
| "webhook_status No_primary_email = 400"
| "webhook_status (Lead_created i) = 200"
| "webhook_status (Lead_creation_failed es) = 500"
| "webhook_status (Lead_creation_threw msg) = 500"
| "webhook_status User_update_processed = 200"
| "webhook_status Webhook_received = 200"

text \<open>\<open>user.email_addresses?.find(email => email.primary)?.email_address\<close>, and the phone.\<close>

definition primaryEmail :: "ClerkUser \<Rightarrow> string option" where
  "primaryEmail user =
     (case cu_email_addresses user of
        None \<Rightarrow> None
      | Some emails \<Rightarrow> map_option e_email_address (find e_primary emails))"

definition primaryPhone :: "ClerkUser \<Rightarrow> string option" where
  "primaryPhone user =
     (case cu_phone_numbers user of
        None \<Rightarrow> None
      | Some phones \<Rightarrow> map_option ph_phone_number (find ph_primary phones))"

text \<open>``Prepare Salesforce Lead data''.\<close>

definition leadData :: "ClerkUser \<Rightarrow> string \<Rightarrow> SalesforceLeadPayload" where
  "leadData user email = \<lparr>
     FirstName = or_str (cu_first_name user) ''Unknown'',
     LastName = or_str (cu_last_name user) ''Investor'',
     Email = email,
     Phone = primaryPhone user,
     Company =
       (case cu_public_metadata user of
          None \<Rightarrow> None | Some m \<Rightarrow> or_undefined (m_company m)),
     LeadSource = ''Website Registration'',
     Status = ''New'',
     Investor_Type__c =
       (case cu_public_metadata user of
          None \<Rightarrow> None | Some m \<Rightarrow> or_undefined (m_investorType m)),
     Interests__c =
       (case cu_public_metadata user of
          None \<Rightarrow> None
        | Some m \<Rightarrow>
            (case m_interests m of
               Interests_array xs \<Rightarrow> Some (join '';'' xs)
             | Interests_other \<Rightarrow> None)),
     Website_User_ID__c = cu_id user \<rparr>"

text \<open>\<open>POST\<close>: the response and the external calls awaited.\<close>

definition webhook_POST :: "webhook_world \<Rightarrow> webhook_request \<Rightarrow> webhook_response \<times> ext_call list" where
  "webhook_POST w req =
     (if \<not> truthy_str (WEBHOOK_SECRET w) then (Secret_not_configured, [])
      else if \<not> truthy_str (svix_id req) \<or> \<not> truthy_str (svix_timestamp req)
              \<or> \<not> truthy_str (svix_signature req)
      then (Missing_required_headers, [])
      else (case verify w (the (WEBHOOK_SECRET w)) req of
        None \<Rightarrow> (Invalid_webhook_signature, [])
      | Some evt \<Rightarrow>
          if ev_type evt = ''user.created''
          then (let user = ev_data evt
                in if \<not> truthy_str (primaryEmail user) then (No_primary_email, [])
                   else (let lead = leadData user (the (primaryEmail user))
                         in case createLead_result w lead of
                              Inl msg \<Rightarrow> (Lead_creation_threw msg, [SF_createLead lead])
                            | Inr salesforceResponse \<Rightarrow>
                                if lead_success salesforceResponse
                                then (Lead_created (lead_id salesforceResponse),
                                      [SF_createLead lead])
                                else (Lead_creation_failed (lead_errors salesforceResponse),
                                      [SF_createLead lead])))
          else if ev_type evt = ''user.updated'' then (User_update_processed, [])
          else (Webhook_received, [])))"

text \<open>
  A lead exists in Salesforce after the request when \<open>createLead\<close> was called and
  Salesforce answered with \<open>success\<close>.
\<close>

definition lead_created :: "webhook_world \<Rightarrow> webhook_request \<Rightarrow> bool" where
  "lead_created w req =
     list_ex (\<lambda>c. case c of
                  SF_createLead lead \<Rightarrow>
                    (case createLead_result w lead of
                       Inl msg \<Rightarrow> False
                     | Inr salesforceResponse \<Rightarrow> lead_success salesforceResponse)
                | _ \<Rightarrow> False)
       (snd (webhook_POST w req))"

definition lead_requested :: "webhook_world \<Rightarrow> webhook_request \<Rightarrow> bool" where
  "lead_requested w req =
     list_ex (\<lambda>c. case c of SF_createLead lead \<Rightarrow> True | _ \<Rightarrow> False) (snd (webhook_POST w req))"

section \<open>\<open>src/app/api/sync/salesforce/route.ts\<close> (manual sync)\<close>

datatype sync_response =
    Sync_unauthorized
  | Sync_ok nat
  | Sync_failed "thrown list"

fun sync_status_code :: "sync_response \<Rightarrow> nat" where
  "sync_status_code Sync_unauthorized = 401"
| "sync_status_code (Sync_ok n) = 200"
| "sync_status_code (Sync_failed es) = 500"

text \<open>\<open>POST\<close>: the response, the external calls awaited, and the store afterwards.\<close>

definition sync_POST ::
  "builtins \<Rightarrow> string \<Rightarrow> pg_session \<Rightarrow> string option \<Rightarrow> string option
     \<Rightarrow> bool \<Rightarrow> database \<Rightarrow> sync_response \<times> ext_call list \<times> database" where
  "sync_POST env now s apiKey authHeader credentials_set db =
     (if truthy_str apiKey \<and> authHeader \<noteq> Some (''Bearer '' @ the apiKey)
      then (Sync_unauthorized, [], db)
      else (case SalesforceSync_syncProperties env now s credentials_set db of
              (result, calls, db') \<Rightarrow>
                if success result then (Sync_ok (count result), calls, db')
                else (Sync_failed (errors result), calls, db')))"

section \<open>Rules in the words of the specification\<close>

text \<open>
  ``price >= 1000000 yields 'vip', 300000 <= price < 1000000 yields 'registered', and
  price < 300000 (or missing/unparsable price) yields 'public''', on the price as
  \<open>parseFloat\<close> reads it: \<open>NaN\<close> is the missing or unparsable price.
\<close>

fun spec_tier_of_price :: "jsnum \<Rightarrow> string" where
  "spec_tier_of_price NaN = ''public''"
| "spec_tier_of_price (Fin price) =
     (if price \<ge> 1000000 then ''vip''
      else if 300000 \<le> price \<and> price < 1000000 then ''registered''
      else ''public'')"
| "spec_tier_of_price PosInf = ''vip''"
| "spec_tier_of_price NegInf = ''public''"

text \<open>
  The tiers visible to a viewer: ``a 'public' (or absent) viewer tier returns only
  properties with tier 'public', a 'registered' viewer returns only properties with tier
  in {'public','registered'}, and a 'vip' viewer returns properties of all three tiers''.
\<close>

fun spec_visible_tiers :: "string option \<Rightarrow> string list" where
  "spec_visible_tiers None = [''public'']"
| "spec_visible_tiers (Some viewer) =
     (if viewer = ''vip'' then [''public'', ''registered'', ''vip'']
      else if viewer = ''registered'' then [''public'', ''registered'']
      else [''public''])"

section \<open>Notions used to state the properties\<close>

subsection \<open>The upsert\<close>

text \<open>
  \<open>written_as pl r\<close>: the row \<open>r\<close> holds the payload \<open>pl\<close> in every written column but
  perhaps \<open>updated_at\<close>. \<open>touch now keys\<close> sets \<open>updated_at\<close> to \<open>now\<close> in a row whose
  \<open>salesforce_id\<close> is among \<open>keys\<close>, as the update trigger does.
\<close>

definition written_as :: "payload \<Rightarrow> row \<Rightarrow> bool" where
  "written_as pl r = (payload.truncate (r\<lparr>c_updated_at := c_updated_at pl\<rparr>) = pl)"

definition touch :: "string \<Rightarrow> string option set \<Rightarrow> row \<Rightarrow> row" where
  "touch now keys r = (if c_salesforce_id r \<in> keys then r\<lparr>c_updated_at := Some now\<rparr> else r)"

subsection \<open>The tier enum\<close>

text \<open>The tier column holds a member of the enum (and is not NULL).\<close>

definition in_enum :: "string option \<Rightarrow> bool" where
  "in_enum t = (t \<in> set [Some ''public'', Some ''registered'', Some ''vip''])"

subsection \<open>The viewer tiers\<close>

text \<open>The viewer tiers the specification names: absent, or one of the three of the enum.\<close>

definition named_tier :: "string option \<Rightarrow> bool" where
  "named_tier tier = (tier \<in> set [None, Some ''public'', Some ''registered'', Some ''vip''])"

subsection \<open>The handlers\<close>

text \<open>
  The tiers with which a handler called \<open>getProperties\<close>, read off its calls; whether
  Clerk reports a signed-in user; whether the Salesforce query of the listing failed
  before a result could be read; and the property a response of the detail route
  carries.
\<close>

fun queried_tiers :: "ext_call list \<Rightarrow> string option list" where
  "queried_tiers [] = []"
| "queried_tiers (DB_getProperties t # cs) = t # queried_tiers cs"
| "queried_tiers (c # cs) = queried_tiers cs"

definition signed_in :: "string + string option \<Rightarrow> bool" where
  "signed_in clerk = (case clerk of Inl msg \<Rightarrow> False | Inr userId \<Rightarrow> truthy_str userId)"

definition query_fails :: "fetch_outcome \<Rightarrow> bool" where
  "query_fails outcome = (case outcome of Fetch_json d \<Rightarrow> False | _ \<Rightarrow> True)"

fun served :: "detail_response \<Rightarrow> Property option" where
  "served (Detail_ok p) = Some p"
| "served r = None"

text \<open>
  A webhook request verifies when the secret is configured, the three headers are
  present and \<open>verify\<close> returns the event; with the secret configured, a request is
  unverified when a header is missing or \<open>verify\<close> throws. \<open>createLead\<close> succeeds
  when it returns and Salesforce reports \<open>success\<close>.
\<close>

definition verified :: "webhook_world \<Rightarrow> webhook_request \<Rightarrow> ClerkWebhookEvent \<Rightarrow> bool" where
  "verified w req evt =
     (truthy_str (WEBHOOK_SECRET w) \<and> truthy_str (svix_id req) \<and> truthy_str (svix_timestamp req)
      \<and> truthy_str (svix_signature req) \<and> verify w (the (WEBHOOK_SECRET w)) req = Some evt)"

definition unverified :: "webhook_world \<Rightarrow> webhook_request \<Rightarrow> bool" where
  "unverified w req =
     (truthy_str (WEBHOOK_SECRET w) \<and>
      (\<not> truthy_str (svix_id req) \<or> \<not> truthy_str (svix_timestamp req)
       \<or> \<not> truthy_str (svix_signature req) \<or> verify w (the (WEBHOOK_SECRET w)) req = None))"

definition createLead_succeeds :: "webhook_world \<Rightarrow> SalesforceLeadPayload \<Rightarrow> bool" where
  "createLead_succeeds w lead =
     (case createLead_result w lead of Inl msg \<Rightarrow> False | Inr r \<Rightarrow> lead_success r)"

section \<open>Sample data\<close>

text \<open>A store with one active property of each tier, used to run the definitions.\<close>

definition sample_payload :: "string \<Rightarrow> string \<Rightarrow> string \<Rightarrow> payload" where
  "sample_payload sfid tier updated = \<lparr>
     c_name = Some ''Oak Street duplex'',
     c_address = Some ''12 Oak Street'',
     c_city = Some ''Lafayette'',
     c_state = Some ''LA'',
     c_zip_code = Some ''70501'',
     c_price = Some (Fin 250000),
     c_bedrooms = Some (Fin 3),
     c_bathrooms = Some (Fin 2),
     c_square_footage = Some (Fin 1400),
     c_lot_size = Some (Fin 0.25),
     c_year_built = Some (Fin 1990),
     c_property_type = Some ''Duplex'',
     c_description = Some [],
     c_status = Some ''Active'',
     c_images = Some [],
     c_tier = Some tier,
     c_salesforce_id = Some sfid,
     c_created_at = Some ''2024-01-01T00:00:00Z'',
     c_updated_at = Some updated,
     c_last_synced_at = Some ''2024-03-01T00:00:00Z'',
     c_lead_source = None,
     c_investment_path = None,
     c_actual_profit = None,
     c_projected_profit = None,
     c_sales_date = None,
     c_salesforce_status = None \<rparr>"

definition sample_db :: database where
  "sample_db = \<lparr>
     properties =
       [stored ''id-1'' (sample_payload ''a01'' ''public'' ''2024-01-05T00:00:00Z''),
        stored ''id-2'' (sample_payload ''a02'' ''vip'' ''2024-01-07T00:00:00Z''),
        stored ''id-3'' (sample_payload ''a03'' ''registered'' ''2024-01-06T00:00:00Z'')],
     sync_status = Some ''2024-03-01T00:00:00Z'',
     unavailable = None,
     anon_configured = True,
     admin_configured = True \<rparr>"

text \<open>
  A stand-in for the built-ins, enough to run the definitions on the sample inputs: a
  string of decimal digits is read as its value and any other string as NaN,
  \<open>parseInt\<close> of a finite number drops its fraction, no string is a JSON array, and
  every date is already in ISO notation.
\<close>

fun digits_value :: "nat \<Rightarrow> string \<Rightarrow> nat option" where
  "digits_value acc [] = Some acc"
| "digits_value acc (c # cs) =
     (case map_of (zip ''0123456789'' [0, 1, 2, 3, 4, 5, 6, 7, 8, 9]) c of
        None \<Rightarrow> None
      | Some d \<Rightarrow> digits_value (10 * acc + d) cs)"

definition read_digits :: "string \<Rightarrow> jsnum" where
  "read_digits s = (case digits_value 0 s of None \<Rightarrow> NaN | Some n \<Rightarrow> Fin (real n))"

definition sample_builtins :: builtins where
  "sample_builtins = \<lparr>
     parseFloat_string = read_digits,
     parseInt_string = read_digits,
     parseInt_number = (\<lambda>n. case n of Fin x \<Rightarrow> Fin (of_int \<lfloor>x\<rfloor>) | _ \<Rightarrow> NaN),
     JSON_parse = (\<lambda>s. None),
     Date_toISOString = (\<lambda>d. Some d) \<rparr>"

text \<open>A CRM record with the tier and price given, and a property of an upsert body.\<close>

definition sample_record :: "string \<Rightarrow> string option \<Rightarrow> jsfield \<Rightarrow> Property__c" where
  "sample_record sfid tier price = \<lparr>
     pr_Id = Some sfid,
     pr_Name = Some ''Oak Street duplex'',
     pr_Address__c = Some ''12 Oak Street'',
     pr_City__c = Some ''Lafayette'',
     pr_State__c = Some ''LA'',
     pr_Zip_Code__c = Some ''70501'',
     pr_Price__c = price,
     pr_Bedrooms__c = Number (Fin 3),
     pr_Bathrooms__c = Number (Fin 2),
     pr_Square_Footage__c = Number (Fin 1400),
     pr_Lot_Size__c = Absent,
     pr_Year_Built__c = Text ''1990'',
     pr_Property_Type__c = Some ''Duplex'',
     pr_Description__c = None,
     pr_Status__c = Some ''Active'',
     pr_Image_URLs__c = Some ''https://img.example/a.jpg, https://img.example/b.jpg'',
     pr_Tier__c = tier,
     pr_CreatedDate = Some ''2024-01-01T00:00:00Z'',
     pr_LastModifiedDate = Some ''2024-01-05T00:00:00Z'' \<rparr>"

definition sample_prop :: "string \<Rightarrow> string option \<Rightarrow> jsfield \<Rightarrow> upsert_prop" where
  "sample_prop sfid tier price = \<lparr>
     u_tier = tier,
     u_price = price,
     u_name = Some ''Oak Street duplex'',
     u_address = Some ''12 Oak Street'',
     u_city = Some ''Lafayette'',
     u_state = Some ''LA'',
     u_zip_code = Some ''70501'',
     u_zipCode = None,
     u_bedrooms = Number (Fin 3),
     u_bathrooms = Number (Fin 2),
     u_square_footage = Absent,
     u_squareFootage = Number (Fin 1400),
     u_lot_size = Absent,
     u_lotSize = Absent,
     u_year_built = Text ''1990'',
     u_yearBuilt = Absent,
     u_property_type = Some ''Duplex'',
     u_propertyType = None,
     u_description = None,
     u_status = None,
     u_images = Images_string ''https://img.example/a.jpg'',
     u_salesforce_id = Some sfid,
     u_id = None,
     u_created_at = None,
     u_created_date = None,
     u_createdAt = None,
     u_updated_at = None,
     u_last_modified_date = None,
     u_updatedAt = None,
     u_lead_source = None,
     u_investment_path = None,
     u_actual_profit = Absent,
     u_projected_profit = Absent,
     u_sales_date = None,
     u_salesforce_status = None \<rparr>"

definition sample_session :: pg_session where
  "sample_session = \<lparr>NOW = ''2024-06-01T12:00:00Z'', gen_random_uuid = (\<lambda>k. ''uuid-'' @ replicate k (CHR ''x''))\<rparr>"

definition empty_db :: database where
  "empty_db = \<lparr>properties = [], sync_status = None, unavailable = None,
                anon_configured = True, admin_configured = True\<rparr>"

text \<open>
  CRM records without a tier field and with the tier field \<open>'Gold'\<close>, the property the
  sync transform makes of the first, and a Salesforce service that answers the query
  with given records.
\<close>

definition priced_record :: Property__c where
  "priced_record = sample_record ''a10'' None (Number (Fin 450000))"

definition gold_record :: Property__c where
  "gold_record = sample_record ''a20'' (Some ''Gold'') (Number (Fin 450000))"

definition sample_property :: DbProperty where
  "sample_property = transformProperty sample_builtins ''2024-05-01T09:00:00Z'' priced_record"

text \<open>A request to the upsert endpoint that carries one property object.\<close>

definition sample_upsert_request :: "upsert_prop \<Rightarrow> upsert_request" where
  "sample_upsert_request prop =
     \<lparr>authorization = Some ''Bearer sync-key'', body = Body_value (Item_object prop)\<rparr>"

text \<open>Requests to the two listing endpoints.\<close>

definition sample_request :: "string option \<Rightarrow> db_listing_request" where
  "sample_request tier = \<lparr>r_limit = None, r_offset = None, r_tier = tier\<rparr>"

definition sample_listing_request :: "string option \<Rightarrow> string option \<Rightarrow> listing_request" where
  "sample_listing_request token url = \<lparr>
     q_dealTypes = None, q_markets = Some ''lafayette'', q_limit = None, q_offset = None,
     sf_access_token = token, sf_instance_url = url \<rparr>"

text \<open>
  A Salesforce transaction with the deal type, access tier and monthly rent given, two
  images, and a world for the detail route in which Clerk reports \<open>userId\<close> and
  Salesforce knows that one transaction.
\<close>

definition sample_transaction :: "string \<Rightarrow> string \<Rightarrow> real option \<Rightarrow> SalesforceTransaction" where
  "sample_transaction dealType accessTier monthlyRent = \<lparr>
     Id = ''a0X01'',
     Name = ''Oak Street duplex'',
     Description__c = None,
     Street_Address__c = ''12 Oak Street'',
     City__c = ''Lafayette'',
     State__c = ''LA'',
     Zip_Code__c = ''70501'',
     Parish__c = ''Lafayette'',
     Bedrooms__c = 3,
     Bathrooms__c = 2,
     Square_Feet__c = 1400,
     Lot_Size__c = None,
     Year_Built__c = Some 1990,
     Property_Type__c = ''Duplex'',
     Deal_Type__c = dealType,
     Market__c = ''Lafayette'',
     List_Price__c = 185000,
     Purchase_Price__c = Some 150000,
     Status__c = ''Available'',
     Access_Tier__c = accessTier,
     Is_Off_Market__c = False,
     ARV__c = Some 240000,
     Rehab_Estimate__c = None,
     Spread__c = Some 35000,
     ROI__c = None,
     Gross_Yield__c = Some 9,
     Cap_Rate__c = None,
     Monthly_Rent__c = monthlyRent,
     CreatedDate = ''2024-01-01T00:00:00Z'',
     LastModifiedDate = ''2024-01-05T00:00:00Z'',
     OwnerId = ''005X01'',
     Tags__c = Some ''duplex, off-market'',
     Notes__c = Some ''Seller motivated'',
     Showing_Instructions__c = Some ''Call before showing'' \<rparr>"

definition sample_image :: "string \<Rightarrow> PropertyImage" where
  "sample_image n = \<lparr>
     img_id = ''property/'' @ n,
     img_url = ''https://res.cloudinary.com/cedar/image/upload/property/'' @ n,
     img_altText = Some (''Image '' @ n),
     img_order = 1 \<rparr>"

definition sample_detail_world :: "string option \<Rightarrow> SalesforceTransaction \<Rightarrow> detail_world" where
  "sample_detail_world userId tx = \<lparr>
     auth_result = Inr userId,
     getTransaction_result = (\<lambda>propertyId. if propertyId = Id tx then Inr tx else Inl ''NOT_FOUND''),
     getPropertyImages_result = (\<lambda>propertyId. [sample_image ''1'', sample_image ''2'']) \<rparr>"

text \<open>
  A Clerk user whose second email address is the primary one, a webhook request with the
  three headers, a world in which \<open>verify\<close> and \<open>createLead\<close> answer as given, and the
  event of that user's signup.
\<close>

definition sample_user :: "email_address list \<Rightarrow> ClerkUser" where
  "sample_user emails = \<lparr>
     cu_id = ''user_2abc'',
     cu_email_addresses = Some emails,
     cu_first_name = Some ''Ada'',
     cu_last_name = None,
     cu_phone_numbers = None,
     cu_public_metadata =
       Some \<lparr>m_company = None, m_investorType = Some ''Experienced'',
             m_interests = Interests_array [''flips'', ''rentals'']\<rparr> \<rparr>"

definition sample_emails :: "email_address list" where
  "sample_emails =
     [\<lparr>e_email_address = ''old@example.com'', e_primary = False\<rparr>,
      \<lparr>e_email_address = ''ada@example.com'', e_primary = True\<rparr>]"

definition sample_hook_request :: webhook_request where
  "sample_hook_request = \<lparr>
     svix_id = Some ''msg_1'', svix_timestamp = Some ''1717243200'',
     svix_signature = Some ''v1,abc'', body_text = ''{}'' \<rparr>"

definition sample_hook_world ::
  "ClerkWebhookEvent option \<Rightarrow> (string + lead_response) \<Rightarrow> webhook_world" where
  "sample_hook_world evt answer = \<lparr>
     WEBHOOK_SECRET = Some ''whsec_test'',
     verify = (\<lambda>secret req. evt),
     createLead_result = (\<lambda>lead. answer) \<rparr>"

definition signup_event :: ClerkWebhookEvent where
  "signup_event = \<lparr>ev_type = ''user.created'', ev_data = sample_user sample_emails\<rparr>"

section \<open>Verified properties\<close>

subsection \<open>Tier filtering of \<open>getProperties\<close>\<close>

lemma set_insert_desc: "set (insert_desc r xs) = insert r (set xs)"
  by (induction xs) auto

lemma set_order_updated_at_desc: "set (order_updated_at_desc rs) = set rs"
  unfolding order_updated_at_desc_def
  by (induction rs) (simp_all add: set_insert_desc)

text \<open>Every property returned comes from a stored row that passed both filters.\<close>

lemma getProperties_rows:
  assumes "getProperties db tier limit = Inr ps" and "p \<in> set ps"
  shows "\<exists>r \<in> set (properties db). p = row_to_property r \<and> base_filter r \<and> tier_filter tier r"
proof -
  from assms obtain n rs where
    sel: "select_properties db tier n = Inr rs" and ps: "ps = map row_to_property rs"
    by (auto simp: getProperties_def Let_def split: if_splits sum.splits)
  from sel have
    rs: "rs = take n (order_updated_at_desc
                (filter (\<lambda>r. base_filter r \<and> tier_filter tier r) (properties db)))"
    by (auto simp: select_properties_def split: option.splits)
  from assms(2) ps obtain r where r: "r \<in> set rs" and p: "p = row_to_property r"
    by auto
  from r rs have "r \<in> set (order_updated_at_desc
                (filter (\<lambda>r. base_filter r \<and> tier_filter tier r) (properties db)))"
    by (auto dest: in_set_takeD)
  then have "r \<in> set (properties db) \<and> base_filter r \<and> tier_filter tier r"
    by (simp add: set_order_updated_at_desc)
  with p show ?thesis by blast
qed

lemma p_tier_row_to_property: "p_tier (row_to_property r) = c_tier r"
  by (simp add: row_to_property_def)

lemmas sample_eval =
  getProperties_def select_properties_def sample_db_def sample_payload_def stored_def
  payload.defs row.defs base_filter_def tier_filter_def pg_eq_def pg_neq_def pg_in_def
  pg_is_null_def allowedTiers_def order_updated_at_desc_def sorts_before_def
  row_to_property_def

lemma length_insert_desc: "length (insert_desc r xs) = Suc (length xs)"
  by (induction xs) auto

lemma length_order_updated_at_desc: "length (order_updated_at_desc rs) = length rs"
  unfolding order_updated_at_desc_def
  by (induction rs) (simp_all add: length_insert_desc)

lemma tier_filter_spec:
  "named_tier tier \<Longrightarrow> tier_filter tier r = pg_in (c_tier r) (spec_visible_tiers tier)"
  by (auto simp: named_tier_def tier_filter_def allowedTiers_def pg_in_def pg_eq_def
      split: option.splits)

lemma getProperties_all:
  assumes "anon_configured db" and "unavailable db = None"
    and "length (properties db) \<le> (case limit of None \<Rightarrow> 50 | Some n \<Rightarrow> n)"
  shows "getProperties db tier limit =
     Inr (map row_to_property
            (order_updated_at_desc
               (filter (\<lambda>r. base_filter r \<and> tier_filter tier r) (properties db))))"
proof -
  let ?n = "case limit of None \<Rightarrow> 50 | Some n \<Rightarrow> n"
  let ?rs = "order_updated_at_desc
               (filter (\<lambda>r. base_filter r \<and> tier_filter tier r) (properties db))"
  have "length ?rs \<le> length (properties db)"
    by (simp add: length_order_updated_at_desc)
  with assms(3) have "take ?n ?rs = ?rs"
    by simp
  with assms(1,2) show ?thesis
    by (simp add: getProperties_def select_properties_def Let_def)
qed

text \<open>
  C1. Whatever the stored rows and the limit, when \<open>getProperties\<close> returns a list: a
  viewer tier that is absent or \<open>'public'\<close> gets only properties of tier \<open>'public'\<close>,
  \<open>'registered'\<close> gets only tiers \<open>'public'\<close> and \<open>'registered'\<close>, and \<open>'vip'\<close> gets only
  the three tiers of the enum. Nothing visible is withheld: when the database answers
  and the limit does not cut the result, the properties returned are exactly the active
  rows whose tier is visible to the viewer.
\<close>

theorem getProperties_tier_visible:
  "(getProperties db None limit = Inr ps \<longrightarrow> (\<forall>p \<in> set ps. p_tier p = Some ''public'')) \<and>
   (getProperties db (Some ''public'') limit = Inr ps \<longrightarrow>
      (\<forall>p \<in> set ps. p_tier p = Some ''public'')) \<and>
   (getProperties db (Some ''registered'') limit = Inr ps \<longrightarrow>
      (\<forall>p \<in> set ps. p_tier p = Some ''public'' \<or> p_tier p = Some ''registered'')) \<and>
   (getProperties db (Some ''vip'') limit = Inr ps \<longrightarrow>
      (\<forall>p \<in> set ps.
         p_tier p = Some ''public'' \<or> p_tier p = Some ''registered'' \<or> p_tier p = Some ''vip'')) \<and>
   (named_tier tier \<and> anon_configured db \<and> unavailable db = None \<and>
    length (properties db) \<le> (case limit of None \<Rightarrow> 50 | Some n \<Rightarrow> n) \<longrightarrow>
      (\<exists>qs. getProperties db tier limit = Inr qs \<and>
            set qs = row_to_property `
              {r \<in> set (properties db).
                 base_filter r \<and> pg_in (c_tier r) (spec_visible_tiers tier)}))"
proof (intro conjI impI ballI)
  fix p assume "getProperties db None limit = Inr ps" "p \<in> set ps"
  from getProperties_rows [OF this] show "p_tier p = Some ''public''"
    by (auto simp: p_tier_row_to_property tier_filter_def pg_eq_def split: option.splits)
next
  fix p assume "getProperties db (Some ''public'') limit = Inr ps" "p \<in> set ps"
  from getProperties_rows [OF this] show "p_tier p = Some ''public''"
    by (auto simp: p_tier_row_to_property tier_filter_def pg_eq_def split: option.splits)
next
  fix p assume "getProperties db (Some ''registered'') limit = Inr ps" "p \<in> set ps"
  from getProperties_rows [OF this]
  show "p_tier p = Some ''public'' \<or> p_tier p = Some ''registered''"
    by (auto simp: p_tier_row_to_property tier_filter_def pg_in_def allowedTiers_def
        split: option.splits)
next
  fix p assume "getProperties db (Some ''vip'') limit = Inr ps" "p \<in> set ps"
  from getProperties_rows [OF this]
  show "p_tier p = Some ''public'' \<or> p_tier p = Some ''registered'' \<or> p_tier p = Some ''vip''"
    by (auto simp: p_tier_row_to_property tier_filter_def pg_in_def allowedTiers_def
        split: option.splits)
next
  assume a: "named_tier tier \<and> anon_configured db \<and> unavailable db = None \<and>
    length (properties db) \<le> (case limit of None \<Rightarrow> 50 | Some n \<Rightarrow> n)"
  then have run: "getProperties db tier limit =
     Inr (map row_to_property
            (order_updated_at_desc
               (filter (\<lambda>r. base_filter r \<and> tier_filter tier r) (properties db))))"
    by (simp add: getProperties_all)
  from a have "\<And>r. tier_filter tier r = pg_in (c_tier r) (spec_visible_tiers tier)"
    by (simp add: tier_filter_spec)
  then have "set (map row_to_property
            (order_updated_at_desc
               (filter (\<lambda>r. base_filter r \<and> tier_filter tier r) (properties db))))
      = row_to_property `
              {r \<in> set (properties db).
                 base_filter r \<and> pg_in (c_tier r) (spec_visible_tiers tier)}"
    by (simp add: set_order_updated_at_desc)
  with run show "\<exists>qs. getProperties db tier limit = Inr qs \<and>
            set qs = row_to_property `
              {r \<in> set (properties db).
                 base_filter r \<and> pg_in (c_tier r) (spec_visible_tiers tier)}"
    by blast
qed

text \<open>
  On the sample store a registered viewer is served two properties, the later update
  first, each with a tier the theorem allows, and the \<open>'vip'\<close> property is withheld;
  a \<open>'vip'\<close> viewer is served the \<open>'vip'\<close> property.
\<close>

theorem getProperties_tier_visible_witness:
  "map p_salesforceId (projr (getProperties sample_db (Some ''registered'') None))
     = [Some ''a03'', Some ''a01'']
   \<and> list_all (\<lambda>p. p_tier p = Some ''public'' \<or> p_tier p = Some ''registered'')
        (projr (getProperties sample_db (Some ''registered'') None))
   \<and> row_to_property (stored ''id-2'' (sample_payload ''a02'' ''vip'' ''2024-01-07T00:00:00Z''))
        \<in> set (projr (getProperties sample_db (Some ''vip'') None))"
proof -
  let ?vip = "stored ''id-2'' (sample_payload ''a02'' ''vip'' ''2024-01-07T00:00:00Z'')"
  have run: "getProperties sample_db (Some ''registered'') None
      = Inr (projr (getProperties sample_db (Some ''registered'') None))"
    by (simp add: sample_eval)
  have ids: "map p_salesforceId (projr (getProperties sample_db (Some ''registered'') None))
             = [Some ''a03'', Some ''a01'']"
    by (simp add: sample_eval)
  from getProperties_tier_visible
         [of sample_db None "projr (getProperties sample_db (Some ''registered'') None)"] run
  have sound: "\<forall>p \<in> set (projr (getProperties sample_db (Some ''registered'') None)).
          p_tier p = Some ''public'' \<or> p_tier p = Some ''registered''"
    by blast
  have hyp: "named_tier (Some ''vip'') \<and> anon_configured sample_db \<and> unavailable sample_db = None \<and>
    length (properties sample_db) \<le> (case None of None \<Rightarrow> 50 | Some n \<Rightarrow> n)"
    by (simp add: named_tier_def sample_db_def)
  have row: "?vip \<in> set (properties sample_db)" "base_filter ?vip"
    "pg_in (c_tier ?vip) (spec_visible_tiers (Some ''vip''))"
    by (simp_all add: sample_db_def sample_payload_def stored_def payload.defs row.defs
        base_filter_def pg_eq_def pg_neq_def pg_is_null_def pg_in_def)
  from getProperties_tier_visible [of sample_db None _ "Some ''vip''"] hyp
  obtain qs where qs: "getProperties sample_db (Some ''vip'') None = Inr qs"
    "set qs = row_to_property `
              {r \<in> set (properties sample_db).
                 base_filter r \<and> pg_in (c_tier r) (spec_visible_tiers (Some ''vip''))}"
    by blast
  from row qs(2) have "row_to_property ?vip \<in> set qs"
    by blast
  with qs(1) have "row_to_property ?vip \<in> set (projr (getProperties sample_db (Some ''vip'') None))"
    by simp
  with ids sound show ?thesis
    by (simp only: list_all_iff simp_thms)
qed

subsection \<open>Tier assignment during sync and upsert\<close>

text \<open>The inline threshold chain of both transforms is the rule of the specification.\<close>

lemma or_zero_cases:
  "or_zero x = (case x of NaN \<Rightarrow> Fin 0 | Fin v \<Rightarrow> Fin v | NegInf \<Rightarrow> NegInf | PosInf \<Rightarrow> PosInf)"
  by (cases x) (simp_all add: or_zero_def)

lemma threshold_chain:
  "(let price = or_zero x
    in if num_ge price 1000000 then ''vip''
       else if num_ge price 300000 then ''registered'' else ''public'')
   = spec_tier_of_price x"
  by (cases x) (simp_all add: or_zero_def)

lemma parseFloat_falsy: "\<not> truthy_field f \<Longrightarrow> spec_tier_of_price (parseFloat env f) = ''public''"
  by (cases f) (auto elim: truthy_num.elims)

text \<open>
  C3. In the sync transform a tier field that the CRM supplies (a non-empty string) is
  used, lowercased; without it the tier follows the price thresholds, and a missing or
  unparsable price gives \<open>'public'\<close>. The upsert endpoint applies the same threshold
  rule when the body gives no tier.
\<close>

theorem tier_assignment:
  "(truthy_str (pr_Tier__c r) \<longrightarrow>
      p_tier (transformProperty env now r) = Some (toLowerCase (the (pr_Tier__c r)))) \<and>
   (\<not> truthy_str (pr_Tier__c r) \<longrightarrow>
      p_tier (transformProperty env now r)
        = Some (spec_tier_of_price (parseFloat env (pr_Price__c r)))) \<and>
   (\<not> truthy_str (u_tier prop) \<longrightarrow>
      p_tier (upsert_transform env now prop)
        = Some (spec_tier_of_price (parseFloat env (u_price prop))))"
proof (intro conjI impI)
  assume "truthy_str (pr_Tier__c r)"
  then show "p_tier (transformProperty env now r) = Some (toLowerCase (the (pr_Tier__c r)))"
    by (simp add: transformProperty_def Let_def)
next
  assume "\<not> truthy_str (pr_Tier__c r)"
  then have "p_tier (transformProperty env now r)
      = Some (let price = or_zero (parseFloat env (pr_Price__c r))
              in if num_ge price 1000000 then ''vip''
                 else if num_ge price 300000 then ''registered'' else ''public'')"
    by (simp add: transformProperty_def Let_def)
  then show "p_tier (transformProperty env now r)
        = Some (spec_tier_of_price (parseFloat env (pr_Price__c r)))"
    by (simp only: threshold_chain)
next
  assume no_tier: "\<not> truthy_str (u_tier prop)"
  show "p_tier (upsert_transform env now prop)
        = Some (spec_tier_of_price (parseFloat env (u_price prop)))"
  proof (cases "truthy_field (u_price prop)")
    case True
    with no_tier have "p_tier (upsert_transform env now prop)
      = Some (let price = or_zero (parseFloat env (u_price prop))
              in if num_ge price 1000000 then ''vip''
                 else if num_ge price 300000 then ''registered'' else ''public'')"
      by (simp add: upsert_transform_def Let_def)
    then show ?thesis by (simp only: threshold_chain)
  next
    case False
    with no_tier have "p_tier (upsert_transform env now prop) = Some ''public''"
      by (simp add: upsert_transform_def Let_def or_str_def)
    with False show ?thesis by (simp add: parseFloat_falsy)
  qed
qed

lemma toLowerCase_VIP: "toLowerCase ''VIP'' = ''vip''"
  by (simp add: toLowerCase_def lower_char_def)

text \<open>
  A record with tier \<open>'VIP'\<close>, a record without tier priced 450000 (as a string), and
  an upsert property without tier priced 1200000.
\<close>

theorem tier_assignment_witness:
  "p_tier (transformProperty sample_builtins ''2024-06-01T12:00:00Z''
             (sample_record ''a10'' (Some ''VIP'') (Number (Fin 120000)))) = Some ''vip'' \<and>
   p_tier (transformProperty sample_builtins ''2024-06-01T12:00:00Z''
             (sample_record ''a11'' None (Text ''450000''))) = Some ''registered'' \<and>
   p_tier (upsert_transform sample_builtins ''2024-06-01T12:00:00Z''
             (sample_prop ''a12'' None (Number (Fin 1200000)))) = Some ''vip''"
proof -
  have t1: "truthy_str (pr_Tier__c (sample_record ''a10'' (Some ''VIP'') (Number (Fin 120000))))"
    by (simp add: sample_record_def)
  have t2: "\<not> truthy_str (pr_Tier__c (sample_record ''a11'' None (Text ''450000'')))"
    by (simp add: sample_record_def)
  have t3: "\<not> truthy_str (u_tier (sample_prop ''a12'' None (Number (Fin 1200000))))"
    by (simp add: sample_prop_def)
  have p2: "parseFloat sample_builtins (pr_Price__c (sample_record ''a11'' None (Text ''450000'')))
            = Fin 450000"
    by (simp add: sample_record_def sample_builtins_def read_digits_def)
  have p3: "parseFloat sample_builtins (u_price (sample_prop ''a12'' None (Number (Fin 1200000))))
            = Fin 1200000"
    by (simp add: sample_prop_def)
  from tier_assignment [of "sample_record ''a10'' (Some ''VIP'') (Number (Fin 120000))"
          sample_builtins "''2024-06-01T12:00:00Z''"] t1
  have a: "p_tier (transformProperty sample_builtins ''2024-06-01T12:00:00Z''
             (sample_record ''a10'' (Some ''VIP'') (Number (Fin 120000)))) = Some ''vip''"
    by (simp add: sample_record_def toLowerCase_VIP)
  from tier_assignment [of "sample_record ''a11'' None (Text ''450000'')"
          sample_builtins "''2024-06-01T12:00:00Z''"] t2 p2
  have b: "p_tier (transformProperty sample_builtins ''2024-06-01T12:00:00Z''
             (sample_record ''a11'' None (Text ''450000''))) = Some ''registered''"
    by simp
  from tier_assignment [of _ sample_builtins "''2024-06-01T12:00:00Z''"
          "sample_prop ''a12'' None (Number (Fin 1200000))"] t3 p3
  have c: "p_tier (upsert_transform sample_builtins ''2024-06-01T12:00:00Z''
             (sample_prop ''a12'' None (Number (Fin 1200000)))) = Some ''vip''"
    by simp
  from a b c show ?thesis by simp
qed

subsection \<open>The upsert keyed by \<open>salesforce_id\<close>\<close>


lemma stored_key [simp]: "c_salesforce_id (stored u pl) = c_salesforce_id pl"
  by (simp add: stored_def payload.defs row.defs)

lemma stored_id [simp]: "c_id (stored u pl) = u"
  by (simp add: stored_def payload.defs row.defs)

lemma stored_tier [simp]: "c_tier (stored u pl) = c_tier pl"
  by (simp add: stored_def payload.defs row.defs)

lemma written_as_stored: "written_as pl ((stored u pl)\<lparr>c_updated_at := t\<rparr>)"
  by (simp add: written_as_def stored_def payload.defs row.defs)

lemma written_as_stored0: "written_as pl (stored u pl)"
  by (simp add: written_as_def stored_def payload.defs row.defs)

lemma written_as_update:
  "written_as pl r \<Longrightarrow> (stored (c_id r) pl)\<lparr>c_updated_at := t\<rparr> = r\<lparr>c_updated_at := t\<rparr>"
  by (cases r, cases pl) (simp add: written_as_def stored_def payload.defs row.defs)


text \<open>An upsert keeps the keys of the table distinct.\<close>

lemma keys_upsert_row:
  "map c_salesforce_id (upsert_row now u pl rs) =
     (if c_salesforce_id pl \<in> set (map c_salesforce_id rs) then map c_salesforce_id rs
      else map c_salesforce_id rs @ [c_salesforce_id pl])"
  by (induction rs) auto

lemma distinct_upsert_row:
  "distinct (map c_salesforce_id rs) \<Longrightarrow> distinct (map c_salesforce_id (upsert_row now u pl rs))"
  by (simp add: keys_upsert_row)

lemma distinct_upsert_rows:
  "distinct (map c_salesforce_id rs) \<Longrightarrow> distinct (map c_salesforce_id (upsert_rows s k pls rs))"
  by (induction pls arbitrary: k rs) (simp_all add: distinct_upsert_row)

text \<open>After one upsert the payload has its row.\<close>

lemma upsert_row_written:
  "\<exists>r \<in> set (upsert_row now u pl rs). c_salesforce_id r = c_salesforce_id pl \<and> written_as pl r"
  by (induction rs) (auto simp: written_as_stored written_as_stored0)

text \<open>An upsert leaves the rows of other keys alone.\<close>

lemma upsert_row_other:
  "r \<in> set rs \<Longrightarrow> c_salesforce_id r \<noteq> c_salesforce_id pl \<Longrightarrow> r \<in> set (upsert_row now u pl rs)"
  by (induction rs) auto

lemma upsert_rows_other:
  "r \<in> set rs \<Longrightarrow> c_salesforce_id r \<notin> c_salesforce_id ` set pls
     \<Longrightarrow> r \<in> set (upsert_rows s k pls rs)"
  by (induction pls arbitrary: k rs) (auto simp: upsert_row_other)

lemma upsert_rows_written:
  "distinct (map c_salesforce_id pls) \<Longrightarrow>
     \<forall>pl \<in> set pls. \<exists>r \<in> set (upsert_rows s k pls rs).
        c_salesforce_id r = c_salesforce_id pl \<and> written_as pl r"
proof (induction pls arbitrary: k rs)
  case Nil
  then show ?case by simp
next
  case (Cons pl pls)
  let ?rs' = "upsert_row (NOW s) (gen_random_uuid s k) pl rs"
  from upsert_row_written obtain r where
    r: "r \<in> set ?rs'" "c_salesforce_id r = c_salesforce_id pl" "written_as pl r"
    by blast
  from Cons.prems r(2) have "c_salesforce_id r \<notin> c_salesforce_id ` set pls"
    by auto
  with r(1) have "r \<in> set (upsert_rows s (Suc k) pls ?rs')"
    by (rule upsert_rows_other)
  with r(2,3) have head: "\<exists>r \<in> set (upsert_rows s k (pl # pls) rs).
        c_salesforce_id r = c_salesforce_id pl \<and> written_as pl r"
    by auto
  from Cons.prems have "distinct (map c_salesforce_id pls)" by simp
  from Cons.IH [OF this, of "Suc k" ?rs'] head show ?case
    by simp
qed

text \<open>Upserting a payload that already has its row only sets \<open>updated_at\<close>.\<close>

lemma upsert_row_again:
  assumes "distinct (map c_salesforce_id rs)"
    and "r0 \<in> set rs" and "c_salesforce_id r0 = c_salesforce_id pl" and "written_as pl r0"
  shows "upsert_row now u pl rs = map (touch now {c_salesforce_id pl}) rs"
  using assms
proof (induction rs)
  case Nil
  then show ?case by simp
next
  case (Cons r rs)
  show ?case
  proof (cases "c_salesforce_id r = c_salesforce_id pl")
    case True
    with Cons.prems have "r0 = r"
      by (auto simp: image_iff)
    with Cons.prems have w: "written_as pl r" by simp
    from True Cons.prems have "\<forall>x \<in> set rs. c_salesforce_id x \<noteq> c_salesforce_id pl"
      by (auto simp: image_iff)
    then have rest: "map (touch now {c_salesforce_id pl}) rs = rs"
      by (induction rs) (auto simp: touch_def)
    from True w have "upsert_row now u pl (r # rs) = r\<lparr>c_updated_at := Some now\<rparr> # rs"
      by (simp add: written_as_update)
    moreover from True have "touch now {c_salesforce_id pl} r = r\<lparr>c_updated_at := Some now\<rparr>"
      by (simp add: touch_def)
    ultimately show ?thesis
      using rest by simp
  next
    case False
    with Cons.prems have "r0 \<in> set rs" by auto
    with Cons.prems Cons.IH False show ?thesis
      by (simp add: touch_def)
  qed
qed

lemma touch_key [simp]: "c_salesforce_id (touch now ks r) = c_salesforce_id r"
  by (simp add: touch_def)

lemma touch_touch:
  "touch now ks (touch now {k} r) = touch now (insert k ks) r"
  by (simp add: touch_def)

lemma upsert_rows_again:
  assumes "distinct (map c_salesforce_id rs)" and "distinct (map c_salesforce_id pls)"
    and "\<forall>pl \<in> set pls. \<exists>r \<in> set rs. c_salesforce_id r = c_salesforce_id pl \<and> written_as pl r"
  shows "upsert_rows s k pls rs = map (touch (NOW s) (c_salesforce_id ` set pls)) rs"
  using assms
proof (induction pls arbitrary: k rs)
  case Nil
  then show ?case by (simp add: touch_def)
next
  case (Cons pl pls)
  let ?t1 = "touch (NOW s) {c_salesforce_id pl}"
  from Cons.prems obtain r0 where
    r0: "r0 \<in> set rs" "c_salesforce_id r0 = c_salesforce_id pl" "written_as pl r0"
    by auto
  from upsert_row_again [OF Cons.prems(1) r0]
  have step: "upsert_row (NOW s) (gen_random_uuid s k) pl rs = map ?t1 rs" .
  have d: "distinct (map c_salesforce_id (map ?t1 rs))"
    using Cons.prems(1) by (simp add: comp_def)
  have d': "distinct (map c_salesforce_id pls)"
    using Cons.prems(2) by simp
  have w: "\<forall>pl' \<in> set pls. \<exists>r \<in> set (map ?t1 rs).
             c_salesforce_id r = c_salesforce_id pl' \<and> written_as pl' r"
  proof
    fix pl' assume pl': "pl' \<in> set pls"
    with Cons.prems(3) obtain r where
      r: "r \<in> set rs" "c_salesforce_id r = c_salesforce_id pl'" "written_as pl' r"
      by auto
    from pl' Cons.prems(2) have "c_salesforce_id pl' \<noteq> c_salesforce_id pl"
      by (auto simp: image_iff)
    with r(2) have "?t1 r = r" by (simp add: touch_def)
    with r show "\<exists>r \<in> set (map ?t1 rs). c_salesforce_id r = c_salesforce_id pl' \<and> written_as pl' r"
      by (metis image_eqI list.set_map)
  qed
  from Cons.IH [OF d d' w, of "Suc k"] step
  have "upsert_rows s k (pl # pls) rs
        = map (touch (NOW s) (c_salesforce_id ` set pls)) (map ?t1 rs)"
    by simp
  then show ?case
    by (simp add: touch_touch comp_def)
qed


lemma key_to_payload [simp]: "c_salesforce_id (to_payload p) = p_salesforceId p"
  by (simp add: to_payload_def)

lemma syncProperties_Inr:
  "syncProperties s db props = Inr db1 \<longleftrightarrow>
     admin_configured db \<and> unavailable db = None \<and>
     first_violation (map to_payload props) = None \<and>
     distinct (map p_salesforceId props) \<and>
     db1 = db\<lparr>properties := upsert_rows s 0 (map to_payload props) (properties db)\<rparr>"
  by (auto simp: syncProperties_def pg_upsert_def Let_def comp_def
      split: option.splits sum.splits if_splits)

lemma syncProperties_Inl_session:
  "syncProperties s1 db props = Inl e \<Longrightarrow> syncProperties s2 db props = Inl e"
  by (auto simp: syncProperties_def pg_upsert_def Let_def split: option.splits sum.splits if_splits)

text \<open>
  C4, as amended. On a store with at most one row per \<open>salesforce_id\<close>, a sync that
  succeeds leaves at most one row per \<open>salesforce_id\<close>, and syncing the same list again
  succeeds and changes nothing but \<open>updated_at\<close> in the rows of the list, which the
  update trigger sets to the time of the second statement. A sync that fails writes
  nothing and fails again in the same way.
\<close>

theorem syncProperties_resync:
  assumes "distinct (map c_salesforce_id (properties db))"
  shows "case syncProperties s1 db props of
           Inl e \<Rightarrow> syncProperties s2 db props = Inl e
         | Inr db1 \<Rightarrow>
             distinct (map c_salesforce_id (properties db1)) \<and>
             syncProperties s2 db1 props =
               Inr (db1\<lparr>properties :=
                      map (touch (NOW s2) (p_salesforceId ` set props)) (properties db1)\<rparr>)"
proof (cases "syncProperties s1 db props")
  case (Inl e)
  from syncProperties_Inl_session [OF this, of s2] show ?thesis
    by (simp only: Inl sum.case)
next
  case (Inr db1)
  let ?pls = "map to_payload props"
  from Inr have "admin_configured db \<and> unavailable db = None \<and>
     first_violation ?pls = None \<and> distinct (map p_salesforceId props) \<and>
     db1 = db\<lparr>properties := upsert_rows s1 0 ?pls (properties db)\<rparr>"
    by (rule iffD1 [OF syncProperties_Inr])
  then have ok: "admin_configured db" "unavailable db = None"
    "first_violation ?pls = None" "distinct (map p_salesforceId props)"
    and db1: "db1 = db\<lparr>properties := upsert_rows s1 0 ?pls (properties db)\<rparr>"
    by blast+
  from ok(4) have dp: "distinct (map c_salesforce_id ?pls)"
    by (simp add: comp_def)
  from assms db1 have d1: "distinct (map c_salesforce_id (properties db1))"
    by (simp add: distinct_upsert_rows)
  from db1 upsert_rows_written [OF dp, of s1 0 "properties db"]
  have w: "\<forall>pl \<in> set ?pls. \<exists>r \<in> set (properties db1).
             c_salesforce_id r = c_salesforce_id pl \<and> written_as pl r"
    by simp
  have keys: "c_salesforce_id ` set ?pls = p_salesforceId ` set props"
    by (auto simp: image_iff)
  from upsert_rows_again [OF d1 dp w, of s2 0] keys
  have "upsert_rows s2 0 ?pls (properties db1)
        = map (touch (NOW s2) (p_salesforceId ` set props)) (properties db1)"
    by simp
  then have again: "db1\<lparr>properties :=
             map (touch (NOW s2) (p_salesforceId ` set props)) (properties db1)\<rparr>
        = db1\<lparr>properties := upsert_rows s2 0 ?pls (properties db1)\<rparr>"
    by simp
  from ok(1,2) db1 have cfg: "admin_configured db1" "unavailable db1 = None"
    by simp_all
  have "syncProperties s2 db1 props =
      Inr (db1\<lparr>properties :=
             map (touch (NOW s2) (p_salesforceId ` set props)) (properties db1)\<rparr>)"
    by (rule iffD2 [OF syncProperties_Inr]) (intro conjI cfg ok(3) ok(4) again)
  with d1 show ?thesis
    by (simp only: Inr sum.case simp_thms)
qed

lemma tier_assignment_lemma:
  "\<not> truthy_str (pr_Tier__c r) \<Longrightarrow>
     p_tier (transformProperty env now r)
       = Some (spec_tier_of_price (parseFloat env (pr_Price__c r)))"
  by (simp add: transformProperty_def Let_def threshold_chain [unfolded Let_def])

lemma transformProperty_fields:
  "p_salesforceId (transformProperty env now r) = pr_Id r"
  "p_updatedAt (transformProperty env now r) = pr_LastModifiedDate r"
  "p_name (transformProperty env now r) = Some (or_str (pr_Name r) ''Unnamed Property'')"
  "p_address (transformProperty env now r) = Some (or_str (pr_Address__c r) [])"
  "p_city (transformProperty env now r) = Some (or_str (pr_City__c r) [])"
  "p_state (transformProperty env now r) = Some (or_str (pr_State__c r) [])"
  by (simp_all add: transformProperty_def Let_def)

lemma sample_property_tier: "p_tier sample_property = Some ''registered''"
proof -
  have "\<not> truthy_str (pr_Tier__c priced_record)"
    by (simp add: priced_record_def sample_record_def)
  moreover have "parseFloat sample_builtins (pr_Price__c priced_record) = Fin 450000"
    by (simp add: priced_record_def sample_record_def)
  ultimately show ?thesis
    unfolding sample_property_def
    using tier_assignment_lemma [of priced_record]
    by simp
qed

lemma sample_property_eval:
  "p_salesforceId sample_property = Some ''a10''"
  "p_updatedAt sample_property = Some ''2024-01-05T00:00:00Z''"
  "p_name sample_property \<noteq> None"
  "p_address sample_property \<noteq> None"
  "p_city sample_property \<noteq> None"
  "p_state sample_property \<noteq> None"
  by (simp_all add: sample_property_def transformProperty_fields priced_record_def
      sample_record_def)

lemma to_payload_fields:
  "c_name (to_payload p) = p_name p"
  "c_address (to_payload p) = p_address p"
  "c_city (to_payload p) = p_city p"
  "c_state (to_payload p) = p_state p"
  "c_tier (to_payload p) = p_tier p"
  "c_updated_at (to_payload p) = p_updatedAt p"
  by (simp_all add: to_payload_def)

lemma sync_once:
  "syncProperties sample_session empty_db [sample_property]
   = Inr (empty_db\<lparr>properties := [stored ''uuid-'' (to_payload sample_property)]\<rparr>)"
  by (simp add: syncProperties_Inr empty_db_def violation_def tier_check_def
      sample_property_eval sample_property_tier sample_session_def to_payload_fields)

lemma sync_twice:
  "syncProperties sample_session
     (empty_db\<lparr>properties := [stored ''uuid-'' (to_payload sample_property)]\<rparr>) [sample_property]
   = Inr (empty_db\<lparr>properties :=
       [(stored ''uuid-'' (to_payload sample_property))\<lparr>c_updated_at := Some ''2024-06-01T12:00:00Z''\<rparr>]\<rparr>)"
  by (simp add: syncProperties_Inr empty_db_def violation_def tier_check_def
      sample_property_eval sample_property_tier sample_session_def to_payload_fields)

text \<open>
  C4 as stated fails: into the empty store the first sync inserts the property with the
  \<open>updated_at\<close> it carries, the second sync updates that row and the trigger overwrites
  \<open>updated_at\<close>; the two stores differ.
\<close>

theorem syncProperties_twice_differs:
  "syncProperties sample_session
     (projr (syncProperties sample_session empty_db [sample_property])) [sample_property]
   \<noteq> syncProperties sample_session empty_db [sample_property]"
proof -
  let ?once = "stored ''uuid-'' (to_payload sample_property)"
  let ?twice = "?once\<lparr>c_updated_at := Some ''2024-06-01T12:00:00Z''\<rparr>"
  have one: "c_updated_at ?once = Some ''2024-01-05T00:00:00Z''"
    by (simp add: stored_def payload.defs row.defs to_payload_fields sample_property_eval)
  have two: "c_updated_at ?twice = Some ''2024-06-01T12:00:00Z''"
    by simp
  have "?twice \<noteq> ?once"
  proof
    assume "?twice = ?once"
    then have "c_updated_at ?twice = c_updated_at ?once"
      by (rule arg_cong)
    with one two show False
      by simp
  qed
  then have "empty_db\<lparr>properties := [?twice]\<rparr> \<noteq> empty_db\<lparr>properties := [?once]\<rparr>"
    by (simp add: empty_db_def)
  then show ?thesis
    by (simp only: sync_once sync_twice sum.sel sum.inject simp_thms)
qed


text \<open>The two syncs of the sample property into the empty store, as the theorem says.\<close>

theorem syncProperties_resync_witness:
  "distinct (map c_salesforce_id (properties empty_db)) \<and>
   syncProperties sample_session empty_db [sample_property]
     = Inr (empty_db\<lparr>properties := [stored ''uuid-'' (to_payload sample_property)]\<rparr>) \<and>
   syncProperties sample_session
       (empty_db\<lparr>properties := [stored ''uuid-'' (to_payload sample_property)]\<rparr>)
       [sample_property]
     = Inr (empty_db\<lparr>properties :=
         [(stored ''uuid-'' (to_payload sample_property))
            \<lparr>c_updated_at := Some ''2024-06-01T12:00:00Z''\<rparr>]\<rparr>)"
proof -
  have d: "distinct (map c_salesforce_id (properties empty_db))"
    by (simp add: empty_db_def)
  have t: "touch ''2024-06-01T12:00:00Z'' {Some ''a10''} (stored ''uuid-'' (to_payload sample_property))
           = (stored ''uuid-'' (to_payload sample_property))
               \<lparr>c_updated_at := Some ''2024-06-01T12:00:00Z''\<rparr>"
    by (simp add: touch_def sample_property_eval)
  from syncProperties_resync [OF d, of sample_session "[sample_property]" sample_session]
  have "syncProperties sample_session
       (empty_db\<lparr>properties := [stored ''uuid-'' (to_payload sample_property)]\<rparr>)
       [sample_property]
     = Inr (empty_db\<lparr>properties :=
         [touch (NOW sample_session) {Some ''a10''}
            (stored ''uuid-'' (to_payload sample_property))]\<rparr>)"
    by (simp only: sync_once sum.case) (simp add: sample_property_eval)
  with d sync_once t show ?thesis
    by (simp add: sample_session_def)
qed

subsection \<open>Enum membership of the tier\<close>

text \<open>
  Each row of the table after an upsert is an old row or comes from a payload of the
  statement, and a statement that succeeds has checked every payload.
\<close>

lemma upsert_row_rows:
  "r \<in> set (upsert_row now u pl rs) \<Longrightarrow> r \<in> set rs \<or> c_tier r = c_tier pl"
  by (induction rs) (auto split: if_splits)

lemma upsert_rows_rows:
  "r \<in> set (upsert_rows s k pls rs) \<Longrightarrow> r \<in> set rs \<or> c_tier r \<in> c_tier ` set pls"
proof (induction pls arbitrary: k rs)
  case Nil
  then show ?case by simp
next
  case (Cons pl pls)
  from Cons.prems have "r \<in> set (upsert_rows s (Suc k) pls (upsert_row (NOW s) (gen_random_uuid s k) pl rs))"
    by simp
  from Cons.IH [OF this] show ?case
    by (auto dest: upsert_row_rows)
qed

lemma first_violation_None:
  "first_violation pls = None \<Longrightarrow> pl \<in> set pls \<Longrightarrow> violation pl = None"
  by (induction pls) (auto split: option.splits)

lemma violation_None_tier: "violation pl = None \<Longrightarrow> tier_check (c_tier pl)"
  by (simp add: violation_def split: if_splits)

lemma written_rows_pass_check:
  assumes "syncProperties s db props = Inr db'" and "r \<in> set (properties db')"
  shows "r \<in> set (properties db) \<or> tier_check (c_tier r)"
proof -
  let ?pls = "map to_payload props"
  from assms(1) have "first_violation ?pls = None \<and>
      db' = db\<lparr>properties := upsert_rows s 0 ?pls (properties db)\<rparr>"
    using iffD1 [OF syncProperties_Inr] by blast
  then have fv: "first_violation ?pls = None"
    and db': "db' = db\<lparr>properties := upsert_rows s 0 ?pls (properties db)\<rparr>"
    by blast+
  from assms(2) db' have "r \<in> set (upsert_rows s 0 ?pls (properties db))"
    by simp
  from upsert_rows_rows [OF this] show ?thesis
  proof
    assume "r \<in> set (properties db)"
    then show ?thesis ..
  next
    assume "c_tier r \<in> c_tier ` set ?pls"
    then obtain pl where pl: "pl \<in> set ?pls" "c_tier r = c_tier pl"
      by auto
    from first_violation_None [OF fv pl(1)] have "tier_check (c_tier pl)"
      by (rule violation_None_tier)
    with pl(2) show ?thesis
      by simp
  qed
qed

text \<open>
  The sync transform does not validate a tier it is given: a record whose tier field,
  lowercased, is outside the enum fails the constraints of the table, so the upsert of
  a batch that holds such a record is refused as a whole.
\<close>

lemma transform_off_enum_violation:
  assumes "truthy_str (pr_Tier__c r)"
    and "toLowerCase (the (pr_Tier__c r)) \<notin> set [''public'', ''registered'', ''vip'']"
  shows "violation (to_payload (transformProperty env now r)) \<noteq> None"
proof -
  from assms have "\<not> tier_check (c_tier (to_payload (transformProperty env now r)))"
    by (simp add: to_payload_fields transformProperty_def Let_def tier_check_def)
  with violation_None_tier [of "to_payload (transformProperty env now r)"] show ?thesis
    by blast
qed

lemma first_violation_Some:
  "pl \<in> set pls \<Longrightarrow> violation pl \<noteq> None \<Longrightarrow> first_violation pls \<noteq> None"
  by (induction pls) (auto split: option.splits)

lemma toLowerCase_Gold: "toLowerCase ''Gold'' = ''gold''"
  by (simp add: toLowerCase_def lower_char_def)


lemma violation_transformed:
  "violation (to_payload (transformProperty env now r)) =
     (if pr_Id r = None then Some (Not_null_violation ''salesforce_id'')
      else if \<not> tier_check (p_tier (transformProperty env now r))
      then Some (Check_violation ''properties_tier_check'')
      else None)"
  by (simp add: violation_def to_payload_fields transformProperty_fields)

lemma gold_tier:
  "p_tier (transformProperty sample_builtins now gold_record) = Some ''gold''"
  by (simp add: transformProperty_def Let_def gold_record_def sample_record_def toLowerCase_Gold)

lemma priced_tier:
  "p_tier (transformProperty sample_builtins now priced_record) = Some ''registered''"
  using tier_assignment_lemma [of priced_record sample_builtins now]
  by (simp add: priced_record_def sample_record_def)

text \<open>
  Both transforms always set a tier, so a checked payload of theirs has a tier of the
  enum.
\<close>

lemma transformProperty_tier: "p_tier (transformProperty env now r) \<noteq> None"
  by (simp add: transformProperty_def Let_def)

lemma transformProperties_tier:
  assumes "p \<in> set (transformProperties env now recs)"
  shows "p_tier p \<noteq> None"
proof -
  from assms obtain r where "p = transformProperty env now r"
    by (auto simp: transformProperties_def)
  then show ?thesis
    by (simp only: transformProperty_tier not_False_eq_True)
qed

lemma upsert_transform_tier: "p_tier (upsert_transform env now prop) \<noteq> None"
  by (simp add: upsert_transform_def Let_def)

lemma transform_item_tier: "transform_item env now item = Inr p \<Longrightarrow> p_tier p \<noteq> None"
  using upsert_transform_tier by (cases item) auto

lemma transform_items_tier:
  "transform_items env now items = Inr ps \<Longrightarrow> p \<in> set ps \<Longrightarrow> p_tier p \<noteq> None"
proof (induction items arbitrary: ps)
  case Nil
  then show ?case by simp
next
  case (Cons item items)
  from Cons.prems(1) obtain q qs where q: "transform_item env now item = Inr q"
    and qs: "transform_items env now items = Inr qs" and ps: "ps = q # qs"
    by (auto split: sum.splits)
  from Cons.prems(2) ps have "p = q \<or> p \<in> set qs"
    by simp
  then show ?case
  proof
    assume "p = q"
    with q show ?thesis by (simp add: transform_item_tier)
  next
    assume "p \<in> set qs"
    with Cons.IH [OF qs] show ?thesis .
  qed
qed

lemma checked_tier_in_enum:
  assumes "first_violation pls = None" and "pl \<in> set pls" and "c_tier pl \<noteq> None"
  shows "in_enum (c_tier pl)"
proof -
  from first_violation_None [OF assms(1,2)] have "tier_check (c_tier pl)"
    by (rule violation_None_tier)
  with assms(3) show ?thesis
    by (auto simp: tier_check_def in_enum_def)
qed

text \<open>
  With distinct keys in the table, a row after the upsert is an old row whose key is not
  in the statement, or has the tier of a payload of the statement.
\<close>

lemma upsert_row_keyed:
  "distinct (map c_salesforce_id rs) \<Longrightarrow> r \<in> set (upsert_row now u pl rs) \<Longrightarrow>
     (c_salesforce_id r = c_salesforce_id pl \<and> c_tier r = c_tier pl) \<or>
     (c_salesforce_id r \<noteq> c_salesforce_id pl \<and> r \<in> set rs)"
proof (induction rs)
  case Nil
  then show ?case by simp
next
  case (Cons a rs)
  show ?case
  proof (cases "c_salesforce_id a = c_salesforce_id pl")
    case True
    with Cons.prems(2) have "r = (stored (c_id a) pl)\<lparr>c_updated_at := Some now\<rparr> \<or> r \<in> set rs"
      by simp
    then show ?thesis
    proof
      assume "r = (stored (c_id a) pl)\<lparr>c_updated_at := Some now\<rparr>"
      then show ?thesis by simp
    next
      assume r: "r \<in> set rs"
      from Cons.prems(1) have "c_salesforce_id a \<notin> c_salesforce_id ` set rs"
        by simp
      with r have "c_salesforce_id r \<noteq> c_salesforce_id a"
        by (metis imageI)
      with True r show ?thesis by simp
    qed
  next
    case False
    with Cons.prems(2) have "r = a \<or> r \<in> set (upsert_row now u pl rs)"
      by simp
    then show ?thesis
    proof
      assume "r = a"
      with False show ?thesis by simp
    next
      assume "r \<in> set (upsert_row now u pl rs)"
      with Cons.IH Cons.prems(1) show ?thesis by auto
    qed
  qed
qed

lemma upsert_rows_keyed:
  "distinct (map c_salesforce_id rs) \<Longrightarrow> r \<in> set (upsert_rows s k pls rs) \<Longrightarrow>
     (r \<in> set rs \<and> c_salesforce_id r \<notin> c_salesforce_id ` set pls) \<or>
     (\<exists>pl\<in>set pls. c_salesforce_id r = c_salesforce_id pl \<and> c_tier r = c_tier pl)"
proof (induction pls arbitrary: k rs)
  case Nil
  then show ?case by simp
next
  case (Cons pl pls)
  let ?rs = "upsert_row (NOW s) (gen_random_uuid s k) pl rs"
  from Cons.prems(1) have d: "distinct (map c_salesforce_id ?rs)"
    by (rule distinct_upsert_row)
  from Cons.prems(2) have "r \<in> set (upsert_rows s (Suc k) pls ?rs)"
    by simp
  from Cons.IH [OF d this]
  have "(r \<in> set ?rs \<and> c_salesforce_id r \<notin> c_salesforce_id ` set pls) \<or>
        (\<exists>pl\<in>set pls. c_salesforce_id r = c_salesforce_id pl \<and> c_tier r = c_tier pl)" .
  then show ?case
  proof
    assume a: "r \<in> set ?rs \<and> c_salesforce_id r \<notin> c_salesforce_id ` set pls"
    then have "r \<in> set ?rs"
      by blast
    from upsert_row_keyed [OF Cons.prems(1) this]
    have "(c_salesforce_id r = c_salesforce_id pl \<and> c_tier r = c_tier pl) \<or>
          (c_salesforce_id r \<noteq> c_salesforce_id pl \<and> r \<in> set rs)" .
    then show ?thesis
    proof
      assume "c_salesforce_id r = c_salesforce_id pl \<and> c_tier r = c_tier pl"
      then show ?thesis by simp
    next
      assume "c_salesforce_id r \<noteq> c_salesforce_id pl \<and> r \<in> set rs"
      with a have "r \<in> set rs \<and> c_salesforce_id r \<notin> c_salesforce_id ` set (pl # pls)"
        by simp
      then show ?thesis ..
    qed
  next
    assume "\<exists>pl\<in>set pls. c_salesforce_id r = c_salesforce_id pl \<and> c_tier r = c_tier pl"
    then show ?thesis by auto
  qed
qed

lemma c_tier_to_payload: "c_tier (to_payload p) = p_tier p"
  by (simp add: to_payload_fields)

lemma sync_rows_in_enum:
  assumes "syncProperties s db props = Inr db'" and "\<forall>p\<in>set props. p_tier p \<noteq> None"
    and "r \<in> set (properties db')"
  shows "r \<in> set (properties db) \<or> in_enum (c_tier r)"
proof -
  let ?pls = "map to_payload props"
  from assms(1) have "first_violation ?pls = None \<and>
      db' = db\<lparr>properties := upsert_rows s 0 ?pls (properties db)\<rparr>"
    using iffD1 [OF syncProperties_Inr] by blast
  then have fv: "first_violation ?pls = None"
    and db': "db' = db\<lparr>properties := upsert_rows s 0 ?pls (properties db)\<rparr>"
    by blast+
  from assms(3) db' have "r \<in> set (upsert_rows s 0 ?pls (properties db))"
    by simp
  from upsert_rows_rows [OF this] show ?thesis
  proof
    assume "r \<in> set (properties db)"
    then show ?thesis ..
  next
    assume "c_tier r \<in> c_tier ` set ?pls"
    then obtain p where p: "p \<in> set props" "c_tier r = c_tier (to_payload p)"
      by auto
    from p(1) assms(2) have "c_tier (to_payload p) \<noteq> None"
      by (simp add: c_tier_to_payload)
    with checked_tier_in_enum [OF fv, of "to_payload p"] p show ?thesis
      by simp
  qed
qed

lemma sync_rows_keyed:
  assumes "syncProperties s db props = Inr db'" and "\<forall>p\<in>set props. p_tier p \<noteq> None"
    and "distinct (map c_salesforce_id (properties db))" and "r \<in> set (properties db')"
  shows "(r \<in> set (properties db) \<and> c_salesforce_id r \<notin> p_salesforceId ` set props) \<or>
         (c_salesforce_id r \<in> p_salesforceId ` set props \<and> in_enum (c_tier r))"
proof -
  let ?pls = "map to_payload props"
  have keys: "c_salesforce_id ` set ?pls = p_salesforceId ` set props"
    by (simp add: image_image)
  from assms(1) have "first_violation ?pls = None \<and>
      db' = db\<lparr>properties := upsert_rows s 0 ?pls (properties db)\<rparr>"
    using iffD1 [OF syncProperties_Inr] by blast
  then have fv: "first_violation ?pls = None"
    and db': "db' = db\<lparr>properties := upsert_rows s 0 ?pls (properties db)\<rparr>"
    by blast+
  from assms(4) db' have "r \<in> set (upsert_rows s 0 ?pls (properties db))"
    by simp
  from upsert_rows_keyed [OF assms(3) this]
  have "(r \<in> set (properties db) \<and> c_salesforce_id r \<notin> c_salesforce_id ` set ?pls) \<or>
        (\<exists>pl\<in>set ?pls. c_salesforce_id r = c_salesforce_id pl \<and> c_tier r = c_tier pl)" .
  then show ?thesis
  proof
    assume "r \<in> set (properties db) \<and> c_salesforce_id r \<notin> c_salesforce_id ` set ?pls"
    then have "r \<in> set (properties db) \<and> c_salesforce_id r \<notin> p_salesforceId ` set props"
      by (simp only: keys simp_thms)
    then show ?thesis ..
  next
    assume "\<exists>pl\<in>set ?pls. c_salesforce_id r = c_salesforce_id pl \<and> c_tier r = c_tier pl"
    then obtain p where p: "p \<in> set props" "c_salesforce_id r = p_salesforceId p"
      "c_tier r = c_tier (to_payload p)"
      by auto
    from p(1) assms(2) have "c_tier (to_payload p) \<noteq> None"
      by (simp add: c_tier_to_payload)
    with checked_tier_in_enum [OF fv, of "to_payload p"] p
    have "in_enum (c_tier r)"
      by simp
    moreover from p(1,2) have "c_salesforce_id r \<in> p_salesforceId ` set props"
      by (metis imageI)
    ultimately show ?thesis by blast
  qed
qed

text \<open>The two handlers that write properties, and what they leave in the table.\<close>

lemma updateSyncStatus_properties:
  "updateSyncStatus now db = Inr db' \<Longrightarrow> properties db' = properties db"
  by (auto simp: updateSyncStatus_def split: if_splits option.splits)

lemma upsert_POST_store:
  "snd (snd (upsert_POST env now s apiKey request db)) = db \<or>
   (\<exists>items props db1. transform_items env now items = Inr props \<and>
       syncProperties s db props = Inr db1 \<and>
       properties (snd (snd (upsert_POST env now s apiKey request db))) = properties db1)"
proof (cases "truthy_str apiKey \<and> authorization request \<noteq> Some (''Bearer '' @ the apiKey)")
  case True
  then show ?thesis by (simp add: upsert_POST_def)
next
  case False
  show ?thesis
  proof (cases "read_body (body request)")
    case (Inl e)
    with False show ?thesis by (simp add: upsert_POST_def)
  next
    case items: (Inr items)
    show ?thesis
    proof (cases "transform_items env now items")
      case (Inl e)
      with False items show ?thesis by (simp add: upsert_POST_def)
    next
      case props: (Inr props)
      show ?thesis
      proof (cases "syncProperties s db props")
        case (Inl e)
        with False items props show ?thesis by (simp add: upsert_POST_def)
      next
        case db1: (Inr db1)
        have "properties (snd (snd (upsert_POST env now s apiKey request db))) = properties db1"
        proof (cases "updateSyncStatus now db1")
          case (Inl e)
          with False items props db1 show ?thesis by (auto simp: upsert_POST_def)
        next
          case (Inr db2)
          with False items props db1 updateSyncStatus_properties [OF Inr] show ?thesis
            by (auto simp: upsert_POST_def)
        qed
        with props db1 show ?thesis by blast
      qed
    qed
  qed
qed

lemma upsert_POST_rows:
  assumes "r \<in> set (properties (snd (snd (upsert_POST env now s apiKey request db))))"
  shows "r \<in> set (properties db) \<or> in_enum (c_tier r)"
proof -
  from upsert_POST_store [of env now s apiKey request db] show ?thesis
  proof
    assume "snd (snd (upsert_POST env now s apiKey request db)) = db"
    with assms show ?thesis by simp
  next
    assume "\<exists>items props db1. transform_items env now items = Inr props \<and>
       syncProperties s db props = Inr db1 \<and>
       properties (snd (snd (upsert_POST env now s apiKey request db))) = properties db1"
    then obtain items props db1 where t: "transform_items env now items = Inr props"
      and w: "syncProperties s db props = Inr db1"
      and e: "properties (snd (snd (upsert_POST env now s apiKey request db))) = properties db1"
      by blast
    from t have "\<forall>p\<in>set props. p_tier p \<noteq> None"
      by (blast dest: transform_items_tier)
    from sync_rows_in_enum [OF w this] assms e show ?thesis
      by simp
  qed
qed

text \<open>
  \<open>SalesforceSync.syncProperties\<close> as it stands: the call of
  \<open>authenticateWithCredentials\<close> throws, so every run reports a failure, after no
  external call and with the store as it was. The manual sync route therefore answers
  401 or 500.
\<close>

lemma SalesforceSync_syncProperties_fails:
  "SalesforceSync_syncProperties env now s credentials_set db =
     (sync_failed
        (if credentials_set
         then not_a_function ''this.salesforceClient.authenticateWithCredentials''
         else Error ''SALESFORCE_USERNAME and SALESFORCE_PASSWORD must be set for sync operations''),
      [], db)"
  by (simp add: SalesforceSync_syncProperties_def authenticateService_def)

lemma sync_POST_fails:
  "snd (sync_POST env now s apiKey authHeader credentials_set db) = ([], db) \<and>
   sync_status_code (fst (sync_POST env now s apiKey authHeader credentials_set db)) \<in> {401, 500}"
  by (simp add: sync_POST_def SalesforceSync_syncProperties_fails sync_failed_def)

text \<open>
  Neither transform validates a tier it is given: a record whose tier field is
  \<open>'Gold'\<close> becomes a property of tier \<open>'gold'\<close>, and the upsert endpoint passes a
  tier \<open>'gold'\<close> through. It is the CHECK constraint of the table that keeps such a
  property out: the statement that carries it is refused as a whole.
\<close>

lemma gold_batch_refused:
  "p_tier (transformProperty sample_builtins ''2024-05-01T09:00:00Z'' gold_record) = Some ''gold'' \<and>
   p_tier (upsert_transform sample_builtins ''2024-05-01T09:00:00Z''
             (sample_prop ''a21'' (Some ''gold'') Absent)) = Some ''gold'' \<and>
   syncProperties sample_session sample_db
       (transformProperties sample_builtins ''2024-05-01T09:00:00Z'' [priced_record, gold_record])
     = Inl (Postgrest (Check_violation ''properties_tier_check''))"
proof -
  have ids: "pr_Id priced_record \<noteq> None" "pr_Id gold_record \<noteq> None"
    by (simp_all add: priced_record_def gold_record_def sample_record_def)
  have "pg_upsert sample_session
          (map to_payload (transformProperties sample_builtins ''2024-05-01T09:00:00Z''
                             [priced_record, gold_record])) sample_db
        = Inl (Check_violation ''properties_tier_check'')"
    by (simp add: pg_upsert_def transformProperties_def violation_transformed ids gold_tier
        priced_tier tier_check_def sample_db_def)
  moreover have "admin_configured sample_db"
    by (simp add: sample_db_def)
  ultimately have "syncProperties sample_session sample_db
          (transformProperties sample_builtins ''2024-05-01T09:00:00Z'' [priced_record, gold_record])
        = Inl (Postgrest (Check_violation ''properties_tier_check''))"
    by (simp add: syncProperties_def)
  moreover have "p_tier (upsert_transform sample_builtins ''2024-05-01T09:00:00Z''
             (sample_prop ''a21'' (Some ''gold'') Absent)) = Some ''gold''"
    by (simp add: upsert_transform_def Let_def sample_prop_def or_str_def)
  ultimately show ?thesis
    by (simp add: gold_tier)
qed

text \<open>
  C5. Every row that a sync of transformed CRM records, the upsert endpoint or
  \<open>SalesforceSync.syncProperties\<close> leaves in the table is a row that was there before
  or has a tier of the enum, whatever the CRM records and the request hold. When the
  keys of the table are distinct, as its UNIQUE constraint has it, every row keyed by a
  property of the batch has a tier of the enum, and the other rows are the old ones. So
  a table whose tiers are all in the enum stays so.
\<close>

theorem written_tier_in_enum:
  "(syncProperties s db (transformProperties env now recs) = Inr db1 \<longrightarrow>
      (\<forall>r\<in>set (properties db1). r \<in> set (properties db) \<or> in_enum (c_tier r))) \<and>
   (\<forall>r\<in>set (properties (snd (snd (upsert_POST env now s apiKey request db)))).
      r \<in> set (properties db) \<or> in_enum (c_tier r)) \<and>
   (\<forall>r\<in>set (properties (snd (snd (SalesforceSync_syncProperties env now s credentials_set db)))).
      r \<in> set (properties db) \<or> in_enum (c_tier r)) \<and>
   (distinct (map c_salesforce_id (properties db)) \<and>
    (props = transformProperties env now recs \<or> transform_items env now items = Inr props) \<and>
    syncProperties s db props = Inr db2 \<longrightarrow>
      (\<forall>r\<in>set (properties db2).
         (c_salesforce_id r \<in> p_salesforceId ` set props \<longrightarrow> in_enum (c_tier r)) \<and>
         (c_salesforce_id r \<notin> p_salesforceId ` set props \<longrightarrow> r \<in> set (properties db)))) \<and>
   ((\<forall>r\<in>set (properties db). in_enum (c_tier r)) \<longrightarrow>
      (\<forall>r\<in>set (properties (snd (snd (upsert_POST env now s apiKey request db)))).
         in_enum (c_tier r)) \<and>
      (syncProperties s db (transformProperties env now recs) = Inr db1 \<longrightarrow>
         (\<forall>r\<in>set (properties db1). in_enum (c_tier r))))"
proof -
  have a: "syncProperties s db (transformProperties env now recs) = Inr db1 \<longrightarrow>
      (\<forall>r\<in>set (properties db1). r \<in> set (properties db) \<or> in_enum (c_tier r))"
  proof (intro impI ballI)
    fix r
    assume w: "syncProperties s db (transformProperties env now recs) = Inr db1"
      and r: "r \<in> set (properties db1)"
    have "\<forall>p\<in>set (transformProperties env now recs). p_tier p \<noteq> None"
      by (blast dest: transformProperties_tier)
    from sync_rows_in_enum [OF w this r]
    show "r \<in> set (properties db) \<or> in_enum (c_tier r)" .
  qed
  have b: "\<forall>r\<in>set (properties (snd (snd (upsert_POST env now s apiKey request db)))).
      r \<in> set (properties db) \<or> in_enum (c_tier r)"
    by (blast dest: upsert_POST_rows)
  have c: "\<forall>r\<in>set (properties (snd (snd (SalesforceSync_syncProperties env now s credentials_set db)))).
      r \<in> set (properties db) \<or> in_enum (c_tier r)"
    by (simp add: SalesforceSync_syncProperties_fails)
  have d: "distinct (map c_salesforce_id (properties db)) \<and>
    (props = transformProperties env now recs \<or> transform_items env now items = Inr props) \<and>
    syncProperties s db props = Inr db2 \<longrightarrow>
      (\<forall>r\<in>set (properties db2).
         (c_salesforce_id r \<in> p_salesforceId ` set props \<longrightarrow> in_enum (c_tier r)) \<and>
         (c_salesforce_id r \<notin> p_salesforceId ` set props \<longrightarrow> r \<in> set (properties db)))"
  proof (intro impI ballI)
    fix r
    assume h: "distinct (map c_salesforce_id (properties db)) \<and>
      (props = transformProperties env now recs \<or> transform_items env now items = Inr props) \<and>
      syncProperties s db props = Inr db2"
      and r: "r \<in> set (properties db2)"
    from h have t: "\<forall>p\<in>set props. p_tier p \<noteq> None"
      by (blast dest: transformProperties_tier transform_items_tier)
    from h have w: "syncProperties s db props = Inr db2"
      and k: "distinct (map c_salesforce_id (properties db))"
      by blast+
    from sync_rows_keyed [OF w t k r]
    show "(c_salesforce_id r \<in> p_salesforceId ` set props \<longrightarrow> in_enum (c_tier r)) \<and>
          (c_salesforce_id r \<notin> p_salesforceId ` set props \<longrightarrow> r \<in> set (properties db))"
      by blast
  qed
  have e: "(\<forall>r\<in>set (properties db). in_enum (c_tier r)) \<longrightarrow>
      (\<forall>r\<in>set (properties (snd (snd (upsert_POST env now s apiKey request db)))).
         in_enum (c_tier r)) \<and>
      (syncProperties s db (transformProperties env now recs) = Inr db1 \<longrightarrow>
         (\<forall>r\<in>set (properties db1). in_enum (c_tier r)))"
    using a b by blast
  from a b c d e show ?thesis
    by (intro conjI)
qed

text \<open>
  The priced sample record, synced into the empty table, and the same property sent to
  the upsert endpoint: the row written has tier \<open>'registered'\<close>.
\<close>

theorem written_tier_in_enum_witness:
  "syncProperties sample_session empty_db
       (transformProperties sample_builtins ''2024-05-01T09:00:00Z'' [priced_record])
     = Inr (empty_db\<lparr>properties := [stored ''uuid-'' (to_payload sample_property)]\<rparr>) \<and>
   c_tier (stored ''uuid-'' (to_payload sample_property)) = Some ''registered'' \<and>
   in_enum (c_tier (stored ''uuid-'' (to_payload sample_property)))"
proof -
  let ?db1 = "empty_db\<lparr>properties := [stored ''uuid-'' (to_payload sample_property)]\<rparr>"
  have once: "syncProperties sample_session empty_db
                (transformProperties sample_builtins ''2024-05-01T09:00:00Z'' [priced_record])
              = Inr ?db1"
    using sync_once by (simp add: transformProperties_def sample_property_def)
  have mem: "stored ''uuid-'' (to_payload sample_property) \<in> set (properties ?db1)"
    by simp
  have old: "stored ''uuid-'' (to_payload sample_property) \<notin> set (properties empty_db)"
    by (simp add: empty_db_def)
  from written_tier_in_enum
         [where s = sample_session and db = empty_db and env = sample_builtins
            and now = "''2024-05-01T09:00:00Z''" and recs = "[priced_record]" and ?db1.0 = ?db1]
       once mem old
  have "in_enum (c_tier (stored ''uuid-'' (to_payload sample_property)))"
    by blast
  moreover have "c_tier (stored ''uuid-'' (to_payload sample_property)) = Some ''registered''"
    by (simp add: c_tier_to_payload sample_property_tier)
  ultimately show ?thesis
    using once by blast
qed

subsection \<open>The requested tier and the authenticated tier\<close>

lemma userTier_of_signed_in:
  "userTier_of clerk = (if signed_in clerk then ''registered'' else ''public'')"
  by (simp add: userTier_of_def signed_in_def split: sum.splits)

lemma db_listing_calls:
  "queried_tiers (snd (db_listing_GET env clerk db request))
     = [Some (effectiveTier (userTier_of clerk) (or_str (r_tier request) ''public''))]"
  by (simp add: db_listing_GET_def Let_def split: sum.splits)

lemma db_listing_anonymous:
  "\<not> signed_in clerk \<Longrightarrow>
     db_listing_GET env clerk db (request\<lparr>r_tier := t\<rparr>) = db_listing_GET env clerk db (request\<lparr>r_tier := None\<rparr>)"
  by (simp add: db_listing_GET_def Let_def userTier_of_signed_in effectiveTier_def)

lemma getProperties_limit_rows:
  assumes "getProperties_limit db tier limit = Inr ps" and "p \<in> set ps"
  shows "\<exists>r \<in> set (properties db). p = row_to_property r \<and> base_filter r \<and> tier_filter tier r"
proof (cases "limit_query limit")
  case None
  with assms(1) have "getProperties (db\<lparr>unavailable := Some ''invalid limit''\<rparr>) tier (Some 0) = Inr ps"
    by (simp add: getProperties_limit_def)
  from getProperties_rows [OF this assms(2)] show ?thesis
    by simp
next
  case (Some n)
  with assms(1) have "getProperties db tier (Some n) = Inr ps"
    by (simp add: getProperties_limit_def)
  from getProperties_rows [OF this assms(2)] show ?thesis .
qed

lemma tier_filter_not_vip:
  "tier_filter (Some t) r \<Longrightarrow> t \<noteq> ''vip'' \<Longrightarrow>
     c_tier r = Some ''public'' \<or> c_tier r = Some ''registered''"
  by (auto simp: tier_filter_def pg_in_def pg_eq_def allowedTiers_def split: option.splits if_splits)

lemma tier_filter_public: "tier_filter (Some ''public'') r \<Longrightarrow> c_tier r = Some ''public''"
  by (auto simp: tier_filter_def pg_eq_def split: option.splits)

lemma effectiveTier_not_signed_in: "\<not> signed_in clerk \<Longrightarrow> effectiveTier (userTier_of clerk) t = ''public''"
  by (simp add: userTier_of_signed_in effectiveTier_def)

lemma effectiveTier_never_vip: "effectiveTier (userTier_of clerk) t \<noteq> ''vip''"
  by (simp add: userTier_of_signed_in effectiveTier_def)

lemma db_listing_success:
  assumes "fst (db_listing_GET env clerk db request) = Db_listing_success d"
  shows "getProperties_limit db
           (Some (effectiveTier (userTier_of clerk) (or_str (r_tier request) ''public'')))
           (parseInt env (Text (or_str (r_limit request) ''20''))) = Inr (b_properties d)"
  using assms
  by (auto simp: db_listing_GET_def Let_def split: sum.splits)

lemma db_listing_served_tiers:
  assumes "fst (db_listing_GET env clerk db request) = Db_listing_success d"
    and "p \<in> set (b_properties d)"
  shows "p_tier p = Some ''public'' \<or> (signed_in clerk \<and> p_tier p = Some ''registered'')"
proof -
  let ?eff = "effectiveTier (userTier_of clerk) (or_str (r_tier request) ''public'')"
  from getProperties_limit_rows [OF db_listing_success [OF assms(1)] assms(2)]
  obtain r where r: "p = row_to_property r" "tier_filter (Some ?eff) r"
    by blast
  show ?thesis
  proof (cases "signed_in clerk")
    case True
    from tier_filter_not_vip [OF r(2) effectiveTier_never_vip] r(1) True show ?thesis
      by (simp add: p_tier_row_to_property)
  next
    case False
    with r(2) have "tier_filter (Some ''public'') r"
      by (simp add: effectiveTier_not_signed_in)
    from tier_filter_public [OF this] r(1) show ?thesis
      by (simp add: p_tier_row_to_property)
  qed
qed

text \<open>
  C10. Without an authenticated user the tier given to \<open>getProperties\<close> is \<open>'public'\<close>
  whatever the \<open>tier\<close> parameter, and two requests that differ only in that parameter
  get the same response and make the same calls; for an authenticated user, who is never
  VIP, a requested \<open>'vip'\<close> is replaced by \<open>'public'\<close>; \<open>'vip'\<close> never reaches
  \<open>getProperties\<close>; and no property served is above the tier of the user: only public
  ones without a user, public and registered ones with a user.
\<close>

theorem requested_tier_capped:
  "(\<not> signed_in clerk \<longrightarrow>
      queried_tiers (snd (db_listing_GET env clerk db request)) = [Some ''public''] \<and>
      db_listing_GET env clerk db (request\<lparr>r_tier := t1\<rparr>)
        = db_listing_GET env clerk db (request\<lparr>r_tier := t2\<rparr>)) \<and>
   (signed_in clerk \<and> r_tier request = Some ''vip'' \<longrightarrow>
      queried_tiers (snd (db_listing_GET env clerk db request)) = [Some ''public'']) \<and>
   Some ''vip'' \<notin> set (queried_tiers (snd (db_listing_GET env clerk db request))) \<and>
   (fst (db_listing_GET env clerk db request) = Db_listing_success d \<longrightarrow>
      (\<forall>p \<in> set (b_properties d).
         p_tier p = Some ''public'' \<or> (signed_in clerk \<and> p_tier p = Some ''registered'')))"
proof (intro conjI impI ballI)
  assume anon: "\<not> signed_in clerk"
  then show "queried_tiers (snd (db_listing_GET env clerk db request)) = [Some ''public'']"
    by (simp add: db_listing_calls userTier_of_signed_in effectiveTier_def)
  from anon db_listing_anonymous [where t = t1] db_listing_anonymous [where t = t2]
  show "db_listing_GET env clerk db (request\<lparr>r_tier := t1\<rparr>)
        = db_listing_GET env clerk db (request\<lparr>r_tier := t2\<rparr>)"
    by simp
next
  assume "signed_in clerk \<and> r_tier request = Some ''vip''"
  then show "queried_tiers (snd (db_listing_GET env clerk db request)) = [Some ''public'']"
    by (simp add: db_listing_calls userTier_of_signed_in effectiveTier_def or_str_def)
next
  show "Some ''vip'' \<notin> set (queried_tiers (snd (db_listing_GET env clerk db request)))"
    by (simp add: db_listing_calls userTier_of_signed_in effectiveTier_def)
next
  fix p
  assume "fst (db_listing_GET env clerk db request) = Db_listing_success d"
    and "p \<in> set (b_properties d)"
  then show "p_tier p = Some ''public'' \<or> (signed_in clerk \<and> p_tier p = Some ''registered'')"
    by (rule db_listing_served_tiers)
qed

text \<open>
  On the sample store an anonymous request for \<open>tier=vip\<close> is served the public
  property only, and a signed-in request for \<open>tier=vip\<close> queries the public tier too.
\<close>

lemma parse_20: "parseInt_string sample_builtins ''20'' = Fin 20"
  by (simp add: sample_builtins_def read_digits_def)

lemma limit_20: "limit_query (Fin 20) = Some 20"
  by (simp add: limit_query_def)

lemma sample_public:
  "getProperties sample_db (Some ''public'') (Some 20)
   = Inr [row_to_property (stored ''id-1'' (sample_payload ''a01'' ''public'' ''2024-01-05T00:00:00Z''))]"
  by (simp add: sample_eval)

theorem requested_tier_capped_witness:
  "\<not> signed_in (Inr None) \<and> signed_in (Inr (Some ''user_1'')) \<and>
   r_tier (sample_request (Some ''vip'')) = Some ''vip'' \<and>
   snd (db_listing_GET sample_builtins (Inr None) sample_db (sample_request (Some ''vip'')))
     = [Clerk_auth, DB_getProperties (Some ''public''), DB_getLastSyncTime] \<and>
   snd (db_listing_GET sample_builtins (Inr (Some ''user_1'')) sample_db (sample_request (Some ''vip'')))
     = [Clerk_auth, DB_getProperties (Some ''public''), DB_getLastSyncTime] \<and>
   map p_salesforceId
     (case fst (db_listing_GET sample_builtins (Inr None) sample_db (sample_request (Some ''vip''))) of
        Db_listing_success d \<Rightarrow> b_properties d | Db_listing_failed e \<Rightarrow> [])
     = [Some ''a01''] \<and>
   list_all (\<lambda>p. p_tier p = Some ''public'')
     (case fst (db_listing_GET sample_builtins (Inr None) sample_db (sample_request (Some ''vip''))) of
        Db_listing_success d \<Rightarrow> b_properties d | Db_listing_failed e \<Rightarrow> [])"
proof -
  have a: "\<not> signed_in (Inr None)" and s: "signed_in (Inr (Some ''user_1''))"
    and v: "r_tier (sample_request (Some ''vip'')) = Some ''vip''"
    by (simp_all add: signed_in_def sample_request_def)
  from requested_tier_capped [of "Inr None" sample_builtins sample_db "sample_request (Some ''vip'')"] a
  have qa: "queried_tiers (snd (db_listing_GET sample_builtins (Inr None) sample_db
              (sample_request (Some ''vip'')))) = [Some ''public'']"
    by blast
  from requested_tier_capped [of "Inr (Some ''user_1'')" sample_builtins sample_db
         "sample_request (Some ''vip'')"] s v
  have qs: "queried_tiers (snd (db_listing_GET sample_builtins (Inr (Some ''user_1'')) sample_db
              (sample_request (Some ''vip'')))) = [Some ''public'']"
    by blast
  have sync: "getLastSyncTime sample_db = Inr (Some ''2024-03-01T00:00:00Z'')"
    by (simp add: getLastSyncTime_def sample_db_def)
  have ra: "db_listing_GET sample_builtins (Inr None) sample_db (sample_request (Some ''vip''))
      = (Db_listing_success \<lparr>
           b_properties = [row_to_property (stored ''id-1''
               (sample_payload ''a01'' ''public'' ''2024-01-05T00:00:00Z''))],
           b_totalCount = 1, b_hasMore = False, b_tier = ''public'',
           b_lastSyncedAt = Some ''2024-03-01T00:00:00Z''\<rparr>,
         [Clerk_auth, DB_getProperties (Some ''public''), DB_getLastSyncTime])"
    by (simp add: db_listing_GET_def Let_def sample_request_def userTier_of_def effectiveTier_def
        getProperties_limit_def sample_public sync or_str_def parse_20 limit_20)
  have rs: "snd (db_listing_GET sample_builtins (Inr (Some ''user_1'')) sample_db
              (sample_request (Some ''vip'')))
      = [Clerk_auth, DB_getProperties (Some ''public''), DB_getLastSyncTime]"
    by (simp add: db_listing_GET_def Let_def sample_request_def userTier_of_def effectiveTier_def
        getProperties_limit_def sample_public sync or_str_def parse_20 limit_20)
  have "p_salesforceId (row_to_property (stored ''id-1''
               (sample_payload ''a01'' ''public'' ''2024-01-05T00:00:00Z''))) = Some ''a01''"
    by (simp add: row_to_property_def sample_payload_def stored_def payload.defs row.defs)
  moreover
  from requested_tier_capped [of "Inr None" sample_builtins sample_db "sample_request (Some ''vip'')"]
    a ra
  have "\<forall>p \<in> set [row_to_property (stored ''id-1''
               (sample_payload ''a01'' ''public'' ''2024-01-05T00:00:00Z''))].
          p_tier p = Some ''public''"
    by simp
  ultimately show ?thesis
    using a s v qa qs ra rs by (simp add: list_all_iff)
qed

subsection \<open>Best-effort error handling of the read operations\<close>

lemma listing_fetch_once:
  "length (filter (\<lambda>c. c = SF_fetch_query) (snd (listing_GET env now w request))) \<le> 1"
  by (simp add: listing_GET_def Let_def split: sum.splits fetch_outcome.splits option.splits)

text \<open>
  C6 as stated fails: the Salesforce-backed listing awaits Clerk's \<open>auth()\<close> before it
  looks for the Salesforce tokens, and when \<open>auth()\<close> throws, the outer \<open>catch\<close> of
  the handler answers 500 with \<open>success: false\<close>, also for a request without tokens.
\<close>

theorem listing_auth_throws:
  "sf_access_token (sample_listing_request None None) = None \<and>
   sf_instance_url (sample_listing_request None None) = None \<and>
   listing_GET sample_builtins ''2024-06-01T12:00:00Z''
       \<lparr>listing_auth = Inl ''auth() was called without clerkMiddleware()'',
        fetch_query = Fetch_rejects ''unreachable''\<rparr>
       (sample_listing_request None None)
     = (Listing_failed ''auth() was called without clerkMiddleware()'', [Clerk_auth]) \<and>
   listing_status (Listing_failed ''auth() was called without clerkMiddleware()'') = 500"
  by (simp add: listing_GET_def sample_listing_request_def)

text \<open>
  C6, as amended. With the Supabase configuration present, a query error makes
  \<open>getProperties\<close> return the empty list (without the configuration it throws before
  any query). When Clerk's \<open>auth()\<close> has returned, the Salesforce-backed listing
  answers with success, an empty property list and \<open>totalCount\<close> 0 both when a
  Salesforce token is missing (no query is sent) and when the query fails (the
  \<open>fetch\<close> rejects, the response is not \<open>ok\<close>, or its body is not JSON); when
  \<open>auth()\<close> throws it answers 500 with the message thrown, and no query is sent. The
  query is never sent twice.
\<close>

theorem read_failures_give_empty:
  "(anon_configured db \<and> unavailable db = Some err \<longrightarrow> getProperties db tier limit = Inr []) \<and>
   (\<not> anon_configured db \<longrightarrow>
      getProperties db tier limit = Inl (Error ''Supabase environment variables not configured'')) \<and>
   (listing_auth w = Inr userId \<and>
    (\<not> truthy_str (sf_access_token request) \<or> \<not> truthy_str (sf_instance_url request)) \<longrightarrow>
      listing_GET env now w request = (Listing_success no_tokens_data, [Clerk_auth])) \<and>
   (listing_auth w = Inr userId \<and> truthy_str (sf_access_token request) \<and>
    truthy_str (sf_instance_url request) \<and> query_fails (fetch_query w) \<longrightarrow>
      listing_GET env now w request
        = (Listing_success query_failed_data, [Clerk_auth, SF_fetch_query])) \<and>
   (listing_auth w = Inl msg \<longrightarrow>
      listing_GET env now w request = (Listing_failed msg, [Clerk_auth]) \<and>
      listing_status (Listing_failed msg) = 500) \<and>
   d_properties no_tokens_data = [] \<and> d_totalCount no_tokens_data = 0 \<and>
   d_properties query_failed_data = [] \<and> d_totalCount query_failed_data = 0 \<and>
   length (filter (\<lambda>c. c = SF_fetch_query) (snd (listing_GET env now w request))) \<le> 1"
proof (intro conjI impI)
  assume "anon_configured db \<and> unavailable db = Some err"
  then show "getProperties db tier limit = Inr []"
    by (simp add: getProperties_def select_properties_def Let_def)
next
  assume "\<not> anon_configured db"
  then show "getProperties db tier limit
      = Inl (Error ''Supabase environment variables not configured'')"
    by (simp add: getProperties_def)
next
  assume "listing_auth w = Inr userId \<and>
    (\<not> truthy_str (sf_access_token request) \<or> \<not> truthy_str (sf_instance_url request))"
  then show "listing_GET env now w request = (Listing_success no_tokens_data, [Clerk_auth])"
    by (auto simp: listing_GET_def Let_def)
next
  assume "listing_auth w = Inr userId \<and> truthy_str (sf_access_token request) \<and>
    truthy_str (sf_instance_url request) \<and> query_fails (fetch_query w)"
  then show "listing_GET env now w request
        = (Listing_success query_failed_data, [Clerk_auth, SF_fetch_query])"
    by (auto simp: listing_GET_def Let_def query_fails_def split: fetch_outcome.splits)
next
  assume "listing_auth w = Inl msg"
  then show "listing_GET env now w request = (Listing_failed msg, [Clerk_auth])"
    by (simp add: listing_GET_def)
next
  show "length (filter (\<lambda>c. c = SF_fetch_query) (snd (listing_GET env now w request))) \<le> 1"
    by (rule listing_fetch_once)
qed (simp_all add: no_tokens_data_def query_failed_data_def)

text \<open>
  The sample store when the database is down; a request without cookies; a request with
  both cookies whose query is answered with an error status; and a request with both
  cookies when \<open>auth()\<close> throws.
\<close>

theorem read_failures_give_empty_witness:
  "getProperties (sample_db\<lparr>unavailable := Some ''connection refused''\<rparr>) (Some ''vip'') None = Inr [] \<and>
   listing_GET sample_builtins ''2024-06-01T12:00:00Z''
       \<lparr>listing_auth = Inr None, fetch_query = Fetch_rejects ''unreachable''\<rparr>
       (sample_listing_request None None)
     = (Listing_success no_tokens_data, [Clerk_auth]) \<and>
   listing_GET sample_builtins ''2024-06-01T12:00:00Z''
       \<lparr>listing_auth = Inr (Some ''user_1''), fetch_query = Fetch_not_ok ''INVALID_SESSION_ID''\<rparr>
       (sample_listing_request (Some ''token'') (Some ''https://example.my.salesforce.com''))
     = (Listing_success query_failed_data, [Clerk_auth, SF_fetch_query]) \<and>
   listing_GET sample_builtins ''2024-06-01T12:00:00Z''
       \<lparr>listing_auth = Inl ''session unavailable'', fetch_query = Fetch_not_ok ''INVALID_SESSION_ID''\<rparr>
       (sample_listing_request (Some ''token'') (Some ''https://example.my.salesforce.com''))
     = (Listing_failed ''session unavailable'', [Clerk_auth])"
proof -
  have a: "anon_configured (sample_db\<lparr>unavailable := Some ''connection refused''\<rparr>) \<and>
           unavailable (sample_db\<lparr>unavailable := Some ''connection refused''\<rparr>)
             = Some ''connection refused''"
    by (simp add: sample_db_def)
  have b: "listing_auth \<lparr>listing_auth = Inr None, fetch_query = Fetch_rejects ''unreachable''\<rparr>
             = Inr None \<and>
           (\<not> truthy_str (sf_access_token (sample_listing_request None None)) \<or>
            \<not> truthy_str (sf_instance_url (sample_listing_request None None)))"
    by (simp add: sample_listing_request_def)
  have c: "listing_auth \<lparr>listing_auth = Inr (Some ''user_1''),
                         fetch_query = Fetch_not_ok ''INVALID_SESSION_ID''\<rparr>
             = Inr (Some ''user_1'') \<and>
           truthy_str (sf_access_token (sample_listing_request (Some ''token'')
                         (Some ''https://example.my.salesforce.com''))) \<and>
           truthy_str (sf_instance_url (sample_listing_request (Some ''token'')
                         (Some ''https://example.my.salesforce.com''))) \<and>
           query_fails (fetch_query \<lparr>listing_auth = Inr (Some ''user_1''),
                         fetch_query = Fetch_not_ok ''INVALID_SESSION_ID''\<rparr>)"
    by (simp add: sample_listing_request_def query_fails_def)
  from a read_failures_give_empty
         [where db = "sample_db\<lparr>unavailable := Some ''connection refused''\<rparr>"
            and err = "''connection refused''" and tier = "Some ''vip''" and limit = None]
  have 1: "getProperties (sample_db\<lparr>unavailable := Some ''connection refused''\<rparr>)
             (Some ''vip'') None = Inr []"
    by blast
  from b read_failures_give_empty
         [where w = "\<lparr>listing_auth = Inr None, fetch_query = Fetch_rejects ''unreachable''\<rparr>"
            and userId = None and request = "sample_listing_request None None"
            and env = sample_builtins and now = "''2024-06-01T12:00:00Z''"]
  have 2: "listing_GET sample_builtins ''2024-06-01T12:00:00Z''
       \<lparr>listing_auth = Inr None, fetch_query = Fetch_rejects ''unreachable''\<rparr>
       (sample_listing_request None None)
     = (Listing_success no_tokens_data, [Clerk_auth])"
    by blast
  from c read_failures_give_empty
         [where w = "\<lparr>listing_auth = Inr (Some ''user_1''),
                       fetch_query = Fetch_not_ok ''INVALID_SESSION_ID''\<rparr>"
            and userId = "Some ''user_1''"
            and request = "sample_listing_request (Some ''token'')
                             (Some ''https://example.my.salesforce.com'')"
            and env = sample_builtins and now = "''2024-06-01T12:00:00Z''"]
  have 3: "listing_GET sample_builtins ''2024-06-01T12:00:00Z''
       \<lparr>listing_auth = Inr (Some ''user_1''), fetch_query = Fetch_not_ok ''INVALID_SESSION_ID''\<rparr>
       (sample_listing_request (Some ''token'') (Some ''https://example.my.salesforce.com''))
     = (Listing_success query_failed_data, [Clerk_auth, SF_fetch_query])"
    by blast
  have d: "listing_auth \<lparr>listing_auth = Inl ''session unavailable'',
                         fetch_query = Fetch_not_ok ''INVALID_SESSION_ID''\<rparr>
             = Inl ''session unavailable''"
    by simp
  from d read_failures_give_empty
         [where w = "\<lparr>listing_auth = Inl ''session unavailable'',
                       fetch_query = Fetch_not_ok ''INVALID_SESSION_ID''\<rparr>"
            and msg = "''session unavailable''"
            and request = "sample_listing_request (Some ''token'')
                             (Some ''https://example.my.salesforce.com'')"
            and env = sample_builtins and now = "''2024-06-01T12:00:00Z''"]
  have 4: "listing_GET sample_builtins ''2024-06-01T12:00:00Z''
       \<lparr>listing_auth = Inl ''session unavailable'', fetch_query = Fetch_not_ok ''INVALID_SESSION_ID''\<rparr>
       (sample_listing_request (Some ''token'') (Some ''https://example.my.salesforce.com''))
     = (Listing_failed ''session unavailable'', [Clerk_auth])"
    by blast
  from 1 2 3 4 show ?thesis by blast
qed


subsection \<open>Field mapping of \<open>transformSalesforceTransaction\<close>\<close>

text \<open>
  C7, as amended. Every field of the CRM record is copied to its field of the property
  (a missing description becomes the empty string); \<open>flipMetrics\<close> is defined exactly
  for the deal type \<open>'Fix & Flip'\<close> and \<open>rentalMetrics\<close> exactly for \<open>'Rental'\<close>; the
  missing values of \<open>arv\<close>, \<open>rehabEstimate\<close>, \<open>spread\<close>, \<open>roi\<close>, \<open>grossYield\<close> and
  \<open>capRate\<close> default to 0, while \<open>monthlyRent\<close> is copied as it is and stays undefined
  when missing; \<open>thumbnailUrl\<close> is the url of the first image, or the placeholder when
  there is no image; \<open>tags\<close> is the comma-split, trimmed \<open>Tags__c\<close> when that is a
  non-empty string and undefined otherwise.
\<close>

theorem transformSalesforceTransaction_fields:
  fixes tx :: SalesforceTransaction and imgs :: "PropertyImage list"
  defines "p \<equiv> transformSalesforceTransaction tx (Some imgs)"
  shows
  "t_id p = Id tx \<and> t_title p = Name tx \<and>
   t_description p = (case Description__c tx of None \<Rightarrow> [] | Some d \<Rightarrow> d) \<and>
   a_street (t_address p) = Street_Address__c tx \<and> a_city (t_address p) = City__c tx \<and>
   a_state (t_address p) = State__c tx \<and> a_zipCode (t_address p) = Zip_Code__c tx \<and>
   a_parish (t_address p) = Parish__c tx \<and>
   t_bedrooms p = Bedrooms__c tx \<and> t_bathrooms p = Bathrooms__c tx \<and>
   t_squareFeet p = Square_Feet__c tx \<and> t_lotSize p = Lot_Size__c tx \<and>
   t_yearBuilt p = Year_Built__c tx \<and> t_propertyType p = Property_Type__c tx \<and>
   t_dealType p = Deal_Type__c tx \<and> t_market p = Market__c tx \<and>
   t_listPrice p = List_Price__c tx \<and> t_purchasePrice p = Purchase_Price__c tx \<and>
   t_status p = Status__c tx \<and> t_accessTier p = Access_Tier__c tx \<and>
   t_isOffMarket p = Is_Off_Market__c tx \<and> t_images p = imgs \<and>
   t_createdDate p = CreatedDate tx \<and> t_updatedDate p = LastModifiedDate tx \<and>
   t_ownerId p = OwnerId tx \<and> t_notes p = Notes__c tx \<and>
   t_showingInstructions p = Showing_Instructions__c tx \<and>
   ((t_flipMetrics p \<noteq> None) = (Deal_Type__c tx = ''Fix & Flip'')) \<and>
   ((t_rentalMetrics p \<noteq> None) = (Deal_Type__c tx = ''Rental'')) \<and>
   (Deal_Type__c tx = ''Fix & Flip'' \<longrightarrow>
      t_flipMetrics p = Some \<lparr>
        fm_arv = (case ARV__c tx of None \<Rightarrow> 0 | Some v \<Rightarrow> v),
        fm_rehabEstimate = (case Rehab_Estimate__c tx of None \<Rightarrow> 0 | Some v \<Rightarrow> v),
        fm_spread = (case Spread__c tx of None \<Rightarrow> 0 | Some v \<Rightarrow> v),
        fm_roi = (case ROI__c tx of None \<Rightarrow> 0 | Some v \<Rightarrow> v) \<rparr>) \<and>
   (Deal_Type__c tx = ''Rental'' \<longrightarrow>
      t_rentalMetrics p = Some \<lparr>
        rm_grossYield = (case Gross_Yield__c tx of None \<Rightarrow> 0 | Some v \<Rightarrow> v),
        rm_capRate = (case Cap_Rate__c tx of None \<Rightarrow> 0 | Some v \<Rightarrow> v),
        rm_monthlyRent = Monthly_Rent__c tx \<rparr>) \<and>
   (imgs \<noteq> [] \<longrightarrow> t_thumbnailUrl p = img_url (hd imgs)) \<and>
   (imgs = [] \<longrightarrow> t_thumbnailUrl p = ''/placeholder-house.jpg'') \<and>
   (t_thumbnailUrl (transformSalesforceTransaction tx None) = ''/placeholder-house.jpg'') \<and>
   (truthy_str (Tags__c tx) \<longrightarrow> t_tags p = Some (map trim (split_on (CHR '','') (the (Tags__c tx))))) \<and>
   (\<not> truthy_str (Tags__c tx) \<longrightarrow> t_tags p = None)"
  unfolding p_def
  by (cases imgs)
     (simp_all add: transformSalesforceTransaction_def Let_def or_str_def num_or_zero_def
       split_comma_def split: option.splits)

text \<open>
  C7 as stated fails for \<open>monthlyRent\<close>: a rental whose \<open>Monthly_Rent__c\<close> is missing
  gets rental metrics whose \<open>monthlyRent\<close> is undefined, not 0.
\<close>

theorem monthlyRent_not_defaulted:
  "Deal_Type__c (sample_transaction ''Rental'' ''public'' None) = ''Rental'' \<and>
   Monthly_Rent__c (sample_transaction ''Rental'' ''public'' None) = None \<and>
   map_option rm_monthlyRent
     (t_rentalMetrics (transformSalesforceTransaction (sample_transaction ''Rental'' ''public'' None) None))
     = Some None \<and>
   map_option rm_monthlyRent
     (t_rentalMetrics (transformSalesforceTransaction (sample_transaction ''Rental'' ''public'' None) None))
     \<noteq> Some (Some 0)"
  by (simp add: transformSalesforceTransaction_def Let_def sample_transaction_def)

text \<open>A fix-and-flip record with two images, and a rental with no image list.\<close>

lemma sample_tags:
  "map trim (split_on (CHR '','') ''duplex, off-market'') = [''duplex'', ''off-market'']"
  by (simp add: trim_def is_space_def)

theorem transformSalesforceTransaction_fields_witness:
  "t_flipMetrics (transformSalesforceTransaction (sample_transaction ''Fix & Flip'' ''public'' None)
       (Some [sample_image ''1'', sample_image ''2'']))
     = Some \<lparr>fm_arv = 240000, fm_rehabEstimate = 0, fm_spread = 35000, fm_roi = 0\<rparr> \<and>
   t_rentalMetrics (transformSalesforceTransaction (sample_transaction ''Rental'' ''public'' (Some 1200))
       (Some []))
     = Some \<lparr>rm_grossYield = 9, rm_capRate = 0, rm_monthlyRent = Some 1200\<rparr> \<and>
   t_thumbnailUrl (transformSalesforceTransaction (sample_transaction ''Fix & Flip'' ''public'' None)
       (Some [sample_image ''1'', sample_image ''2'']))
     = ''https://res.cloudinary.com/cedar/image/upload/property/1'' \<and>
   t_thumbnailUrl (transformSalesforceTransaction (sample_transaction ''Rental'' ''public'' (Some 1200))
       (Some []))
     = ''/placeholder-house.jpg'' \<and>
   t_tags (transformSalesforceTransaction (sample_transaction ''Fix & Flip'' ''public'' None)
       (Some [sample_image ''1'', sample_image ''2'']))
     = Some [''duplex'', ''off-market'']"
proof -
  let ?flip = "sample_transaction ''Fix & Flip'' ''public'' None"
  let ?rental = "sample_transaction ''Rental'' ''public'' (Some 1200)"
  have f: "Deal_Type__c ?flip = ''Fix & Flip''" "truthy_str (Tags__c ?flip)"
    "the (Tags__c ?flip) = ''duplex, off-market''"
    "ARV__c ?flip = Some 240000" "Rehab_Estimate__c ?flip = None"
    "Spread__c ?flip = Some 35000" "ROI__c ?flip = None"
    by (simp_all add: sample_transaction_def)
  have r: "Deal_Type__c ?rental = ''Rental''" "Gross_Yield__c ?rental = Some 9"
    "Cap_Rate__c ?rental = None" "Monthly_Rent__c ?rental = Some 1200"
    by (simp_all add: sample_transaction_def)
  have i: "[sample_image ''1'', sample_image ''2''] \<noteq> []"
    "img_url (hd [sample_image ''1'', sample_image ''2''])
       = ''https://res.cloudinary.com/cedar/image/upload/property/1''"
    by (simp_all add: sample_image_def)
  from transformSalesforceTransaction_fields [of ?flip "[sample_image ''1'', sample_image ''2'']"]
    f i sample_tags
  have 1: "t_flipMetrics (transformSalesforceTransaction ?flip
               (Some [sample_image ''1'', sample_image ''2'']))
            = Some \<lparr>fm_arv = 240000, fm_rehabEstimate = 0, fm_spread = 35000, fm_roi = 0\<rparr>"
    and 2: "t_thumbnailUrl (transformSalesforceTransaction ?flip
               (Some [sample_image ''1'', sample_image ''2'']))
            = ''https://res.cloudinary.com/cedar/image/upload/property/1''"
    and 3: "t_tags (transformSalesforceTransaction ?flip
               (Some [sample_image ''1'', sample_image ''2'']))
            = Some [''duplex'', ''off-market'']"
    by simp_all
  from transformSalesforceTransaction_fields [of ?rental "[]"] r
  have 4: "t_rentalMetrics (transformSalesforceTransaction ?rental (Some []))
            = Some \<lparr>rm_grossYield = 9, rm_capRate = 0, rm_monthlyRent = Some 1200\<rparr>"
    and 5: "t_thumbnailUrl (transformSalesforceTransaction ?rental (Some []))
            = ''/placeholder-house.jpg''"
    by simp_all
  from 1 2 3 4 5 show ?thesis by simp
qed

subsection \<open>Redaction in the property detail route\<close>

lemma viewer_tier_cases:
  "viewer_tier userId = (if truthy_str userId then ''registered'' else ''public'')"
  by (simp add: viewer_tier_def)

lemma detail_GET_ok:
  assumes "detail_GET w pid = (Detail_ok p, calls)"
  obtains userId tx where "auth_result w = Inr userId" "getTransaction_result w pid = Inr tx"
    "Access_Tier__c tx \<noteq> ''vip''" "Access_Tier__c tx = ''registered'' \<longrightarrow> truthy_str userId"
    "p = redact (viewer_tier userId)
           (transformSalesforceTransaction tx (Some (getPropertyImages_result w pid)))"
    "calls = [Clerk_auth, SF_getTransaction pid, Cloudinary_getPropertyImages pid]"
  using assms
  by (auto simp: detail_GET_def Let_def detail_catch_def viewer_tier_cases
      split: sum.splits if_splits)

text \<open>
  C2. When the detail route serves a property, it is the transformed property, and for a
  public viewer (nobody signed in) with exactly these changes: \<open>address.street\<close> is
  the literal, \<open>showingInstructions\<close> and \<open>notes\<close> are removed, \<open>flipMetrics.spread\<close>
  is 0 when \<open>flipMetrics\<close> exists and \<open>rentalMetrics.monthlyRent\<close> is removed when
  \<open>rentalMetrics\<close> exists. A signed-in viewer gets the transformed property unchanged,
  and the redaction changes nothing for the tiers \<open>'registered'\<close> and \<open>'vip'\<close>.
\<close>

theorem detail_redaction:
  assumes "detail_GET w pid = (Detail_ok p, calls)"
    and "auth_result w = Inr userId" and "getTransaction_result w pid = Inr tx"
  defines "t \<equiv> transformSalesforceTransaction tx (Some (getPropertyImages_result w pid))"
  shows
  "(\<not> truthy_str userId \<longrightarrow>
      p = t\<lparr>
        t_address := (t_address t)\<lparr>a_street := ''Address available after registration''\<rparr>,
        t_showingInstructions := None,
        t_notes := None,
        t_flipMetrics := map_option (\<lambda>fm. fm\<lparr>fm_spread := 0\<rparr>) (t_flipMetrics t),
        t_rentalMetrics := map_option (\<lambda>rm. rm\<lparr>rm_monthlyRent := None\<rparr>) (t_rentalMetrics t) \<rparr>) \<and>
   (truthy_str userId \<longrightarrow> p = t) \<and>
   redact ''registered'' t = t \<and> redact ''vip'' t = t"
proof -
  from assms(1) obtain userId' tx' where
    "auth_result w = Inr userId'" "getTransaction_result w pid = Inr tx'"
    "p = redact (viewer_tier userId')
           (transformSalesforceTransaction tx' (Some (getPropertyImages_result w pid)))"
    by (rule detail_GET_ok)
  with assms(2,3) have p: "p = redact (viewer_tier userId) t"
    by (simp add: t_def)
  show ?thesis
  proof (intro conjI impI)
    assume "\<not> truthy_str userId"
    with p show "p = t\<lparr>
        t_address := (t_address t)\<lparr>a_street := ''Address available after registration''\<rparr>,
        t_showingInstructions := None,
        t_notes := None,
        t_flipMetrics := map_option (\<lambda>fm. fm\<lparr>fm_spread := 0\<rparr>) (t_flipMetrics t),
        t_rentalMetrics := map_option (\<lambda>rm. rm\<lparr>rm_monthlyRent := None\<rparr>) (t_rentalMetrics t) \<rparr>"
      by (simp add: viewer_tier_cases redact_def map_option_case)
  next
    assume "truthy_str userId"
    with p show "p = t"
      by (simp add: viewer_tier_cases redact_def)
  qed (simp_all add: redact_def)
qed

text \<open>
  Nobody is signed in and the record is a public fix-and-flip deal: the property is
  served with the street, the notes, the showing instructions and the spread redacted,
  and with its title and city as they are.
\<close>

theorem detail_redaction_witness:
  "snd (detail_GET (sample_detail_world None (sample_transaction ''Fix & Flip'' ''public'' None)) ''a0X01'')
     = [Clerk_auth, SF_getTransaction ''a0X01'', Cloudinary_getPropertyImages ''a0X01''] \<and>
   map_option (\<lambda>p. a_street (t_address p))
     (served (fst (detail_GET (sample_detail_world None
        (sample_transaction ''Fix & Flip'' ''public'' None)) ''a0X01'')))
     = Some ''Address available after registration'' \<and>
   map_option t_notes
     (served (fst (detail_GET (sample_detail_world None
        (sample_transaction ''Fix & Flip'' ''public'' None)) ''a0X01'')))
     = Some None \<and>
   map_option t_showingInstructions
     (served (fst (detail_GET (sample_detail_world None
        (sample_transaction ''Fix & Flip'' ''public'' None)) ''a0X01'')))
     = Some None \<and>
   map_option (\<lambda>p. map_option fm_spread (t_flipMetrics p))
     (served (fst (detail_GET (sample_detail_world None
        (sample_transaction ''Fix & Flip'' ''public'' None)) ''a0X01'')))
     = Some (Some 0) \<and>
   map_option (\<lambda>p. map_option fm_arv (t_flipMetrics p))
     (served (fst (detail_GET (sample_detail_world None
        (sample_transaction ''Fix & Flip'' ''public'' None)) ''a0X01'')))
     = Some (Some 240000) \<and>
   map_option t_title
     (served (fst (detail_GET (sample_detail_world None
        (sample_transaction ''Fix & Flip'' ''public'' None)) ''a0X01'')))
     = Some ''Oak Street duplex''"
proof -
  let ?tx = "sample_transaction ''Fix & Flip'' ''public'' None"
  let ?w = "sample_detail_world None ?tx"
  let ?t = "transformSalesforceTransaction ?tx (Some (getPropertyImages_result ?w ''a0X01''))"
  have auth: "auth_result ?w = Inr None"
    by (simp add: sample_detail_world_def)
  have tx: "getTransaction_result ?w ''a0X01'' = Inr ?tx"
    by (simp add: sample_detail_world_def sample_transaction_def)
  have tier: "Access_Tier__c ?tx = ''public''"
    by (simp add: sample_transaction_def)
  have run: "detail_GET ?w ''a0X01''
      = (Detail_ok (redact ''public'' ?t),
         [Clerk_auth, SF_getTransaction ''a0X01'', Cloudinary_getPropertyImages ''a0X01''])"
    by (simp add: detail_GET_def Let_def auth tx tier viewer_tier_def)
  have fields: "t_title ?t = ''Oak Street duplex''"
    "t_flipMetrics ?t
       = Some \<lparr>fm_arv = 240000, fm_rehabEstimate = 0, fm_spread = 35000, fm_roi = 0\<rparr>"
    by (simp_all add: transformSalesforceTransaction_def Let_def sample_transaction_def
        num_or_zero_def)
  from detail_redaction [OF run auth tx]
  have "redact ''public'' ?t = ?t\<lparr>
        t_address := (t_address ?t)\<lparr>a_street := ''Address available after registration''\<rparr>,
        t_showingInstructions := None,
        t_notes := None,
        t_flipMetrics := map_option (\<lambda>fm. fm\<lparr>fm_spread := 0\<rparr>) (t_flipMetrics ?t),
        t_rentalMetrics := map_option (\<lambda>rm. rm\<lparr>rm_monthlyRent := None\<rparr>) (t_rentalMetrics ?t) \<rparr>"
    by simp
  then have "a_street (t_address (redact ''public'' ?t)) = ''Address available after registration''"
    "t_notes (redact ''public'' ?t) = None"
    "t_showingInstructions (redact ''public'' ?t) = None"
    "map_option fm_spread (t_flipMetrics (redact ''public'' ?t)) = Some 0"
    "map_option fm_arv (t_flipMetrics (redact ''public'' ?t)) = Some 240000"
    "t_title (redact ''public'' ?t) = ''Oak Street duplex''"
    by (simp_all add: fields)
  then show ?thesis
    by (simp add: run)
qed

subsection \<open>The webhook receiver\<close>

lemma webhook_verified:
  assumes "verified w req evt"
  shows "webhook_POST w req =
     (if ev_type evt = ''user.created''
      then (if \<not> truthy_str (primaryEmail (ev_data evt)) then (No_primary_email, [])
            else (let lead = leadData (ev_data evt) (the (primaryEmail (ev_data evt)))
                  in (case createLead_result w lead of
                        Inl msg \<Rightarrow> Lead_creation_threw msg
                      | Inr r \<Rightarrow> if lead_success r then Lead_created (lead_id r)
                                else Lead_creation_failed (lead_errors r),
                      [SF_createLead lead])))
      else if ev_type evt = ''user.updated'' then (User_update_processed, [])
      else (Webhook_received, []))"
  using assms
  by (simp add: webhook_POST_def verified_def Let_def split: sum.splits)

lemma webhook_unverified:
  assumes "unverified w req"
  shows "snd (webhook_POST w req) = [] \<and> webhook_status (fst (webhook_POST w req)) = 400"
  using assms
  by (auto simp: webhook_POST_def unverified_def split: option.splits)

text \<open>
  C8, as amended. For a request whose signature verifies, the handler asks Salesforce to
  create a lead, once and with the lead data of the user, exactly when the event type is
  \<open>'user.created'\<close> and the user has a primary email address, and the lead is created
  exactly when, in addition, that call succeeds; if it throws or Salesforce answers
  without success the response is 500. A verified \<open>'user.created'\<close> event without a
  primary email yields 400 and no call, a request that does not verify yields 400 and
  no call, and every other event type is acknowledged with 200 and no call.
\<close>

theorem webhook_lead_on_signup:
  "(verified w req evt \<longrightarrow>
      (lead_requested w req \<longleftrightarrow>
         ev_type evt = ''user.created'' \<and> truthy_str (primaryEmail (ev_data evt))) \<and>
      (lead_created w req \<longleftrightarrow>
         ev_type evt = ''user.created'' \<and> truthy_str (primaryEmail (ev_data evt)) \<and>
         createLead_succeeds w (leadData (ev_data evt) (the (primaryEmail (ev_data evt))))) \<and>
      (ev_type evt = ''user.created'' \<and> truthy_str (primaryEmail (ev_data evt)) \<longrightarrow>
         snd (webhook_POST w req)
           = [SF_createLead (leadData (ev_data evt) (the (primaryEmail (ev_data evt))))] \<and>
         webhook_status (fst (webhook_POST w req))
           = (if createLead_succeeds w (leadData (ev_data evt) (the (primaryEmail (ev_data evt))))
              then 200 else 500)) \<and>
      (ev_type evt = ''user.created'' \<and> \<not> truthy_str (primaryEmail (ev_data evt)) \<longrightarrow>
         webhook_POST w req = (No_primary_email, []) \<and> webhook_status No_primary_email = 400) \<and>
      (ev_type evt \<noteq> ''user.created'' \<longrightarrow>
         snd (webhook_POST w req) = [] \<and> webhook_status (fst (webhook_POST w req)) = 200)) \<and>
   (unverified w req \<longrightarrow>
      snd (webhook_POST w req) = [] \<and> webhook_status (fst (webhook_POST w req)) = 400 \<and>
      \<not> lead_requested w req \<and> \<not> lead_created w req)"
proof (intro conjI impI)
  assume v: "verified w req evt"
  note eq = webhook_verified [OF v]
  show "lead_requested w req \<longleftrightarrow>
         ev_type evt = ''user.created'' \<and> truthy_str (primaryEmail (ev_data evt))"
    by (simp add: lead_requested_def eq Let_def)
  show "lead_created w req \<longleftrightarrow>
         ev_type evt = ''user.created'' \<and> truthy_str (primaryEmail (ev_data evt)) \<and>
         createLead_succeeds w (leadData (ev_data evt) (the (primaryEmail (ev_data evt))))"
    by (simp add: lead_created_def eq Let_def createLead_succeeds_def)
  {
    assume c: "ev_type evt = ''user.created'' \<and> truthy_str (primaryEmail (ev_data evt))"
    from c show "snd (webhook_POST w req)
           = [SF_createLead (leadData (ev_data evt) (the (primaryEmail (ev_data evt))))]"
      by (simp add: eq Let_def)
    from c show "webhook_status (fst (webhook_POST w req))
           = (if createLead_succeeds w (leadData (ev_data evt) (the (primaryEmail (ev_data evt))))
              then 200 else 500)"
      by (simp add: eq Let_def createLead_succeeds_def split: sum.splits)
  }
  {
    assume "ev_type evt = ''user.created'' \<and> \<not> truthy_str (primaryEmail (ev_data evt))"
    then show "webhook_POST w req = (No_primary_email, [])"
      by (simp add: eq)
  }
  show "webhook_status No_primary_email = 400" by simp
  {
    assume n: "ev_type evt \<noteq> ''user.created''"
    then show "snd (webhook_POST w req) = []"
      by (simp add: eq)
    from n show "webhook_status (fst (webhook_POST w req)) = 200"
      by (simp add: eq)
  }
next
  assume u: "unverified w req"
  from webhook_unverified [OF u]
  show "snd (webhook_POST w req) = []" "webhook_status (fst (webhook_POST w req)) = 400"
    by simp_all
  from webhook_unverified [OF u]
  show "\<not> lead_requested w req" "\<not> lead_created w req"
    by (simp_all add: lead_requested_def lead_created_def)
qed

lemma signup_email: "primaryEmail (ev_data signup_event) = Some ''ada@example.com''"
  by (simp add: signup_event_def sample_user_def sample_emails_def primaryEmail_def)

lemma signup_lead:
  "leadData (ev_data signup_event) ''ada@example.com'' = \<lparr>
     FirstName = ''Ada'', LastName = ''Investor'', Email = ''ada@example.com'', Phone = None,
     Company = None, LeadSource = ''Website Registration'', Status = ''New'',
     Investor_Type__c = Some ''Experienced'', Interests__c = Some ''flips;rentals'',
     Website_User_ID__c = ''user_2abc'' \<rparr>"
  by (simp add: leadData_def signup_event_def sample_user_def or_str_def or_undefined_def
      primaryPhone_def)

lemma sample_verified:
  "verified (sample_hook_world (Some evt) answer) sample_hook_request evt"
  by (simp add: verified_def sample_hook_world_def sample_hook_request_def)

text \<open>
  C8 as stated fails when Salesforce does not accept the lead: the signature verifies,
  the event is \<open>'user.created'\<close> and the user has a primary email, yet
  \<open>createLead\<close> throws, the response is 500 and no lead is created.
\<close>

theorem signup_without_lead:
  "verified (sample_hook_world (Some signup_event) (Inl ''Salesforce API error: unavailable''))
     sample_hook_request signup_event \<and>
   ev_type signup_event = ''user.created'' \<and>
   primaryEmail (ev_data signup_event) = Some ''ada@example.com'' \<and>
   fst (webhook_POST (sample_hook_world (Some signup_event) (Inl ''Salesforce API error: unavailable''))
          sample_hook_request)
     = Lead_creation_threw ''Salesforce API error: unavailable'' \<and>
   webhook_status (fst (webhook_POST (sample_hook_world (Some signup_event)
          (Inl ''Salesforce API error: unavailable'')) sample_hook_request)) = 500 \<and>
   \<not> lead_created (sample_hook_world (Some signup_event) (Inl ''Salesforce API error: unavailable''))
         sample_hook_request"
proof -
  let ?w = "sample_hook_world (Some signup_event) (Inl ''Salesforce API error: unavailable'')"
  have v: "verified ?w sample_hook_request signup_event"
    by (rule sample_verified)
  have t: "ev_type signup_event = ''user.created''"
    by (simp add: signup_event_def)
  have r: "createLead_result ?w (leadData (ev_data signup_event) ''ada@example.com'')
           = Inl ''Salesforce API error: unavailable''"
    by (simp add: sample_hook_world_def)
  have run: "webhook_POST ?w sample_hook_request
      = (Lead_creation_threw ''Salesforce API error: unavailable'',
         [SF_createLead (leadData (ev_data signup_event) ''ada@example.com'')])"
    by (simp add: webhook_verified [OF v] t signup_email Let_def r)
  then have "\<not> lead_created ?w sample_hook_request"
    by (simp add: lead_created_def r)
  with v t signup_email run show ?thesis
    by simp
qed

text \<open>
  The same signup when Salesforce accepts the lead; an event of another type; and a
  request whose signature does not verify.
\<close>

theorem webhook_lead_on_signup_witness:
  "webhook_POST (sample_hook_world (Some signup_event)
        (Inr \<lparr>lead_id = ''00Q01'', lead_success = True, lead_errors = []\<rparr>)) sample_hook_request
     = (Lead_created ''00Q01'',
        [SF_createLead \<lparr>
           FirstName = ''Ada'', LastName = ''Investor'', Email = ''ada@example.com'', Phone = None,
           Company = None, LeadSource = ''Website Registration'', Status = ''New'',
           Investor_Type__c = Some ''Experienced'', Interests__c = Some ''flips;rentals'',
           Website_User_ID__c = ''user_2abc'' \<rparr>]) \<and>
   lead_created (sample_hook_world (Some signup_event)
        (Inr \<lparr>lead_id = ''00Q01'', lead_success = True, lead_errors = []\<rparr>)) sample_hook_request \<and>
   snd (webhook_POST (sample_hook_world (Some (signup_event\<lparr>ev_type := ''user.deleted''\<rparr>))
        (Inr \<lparr>lead_id = ''00Q01'', lead_success = True, lead_errors = []\<rparr>)) sample_hook_request)
     = [] \<and>
   webhook_status (fst (webhook_POST (sample_hook_world None
        (Inr \<lparr>lead_id = ''00Q01'', lead_success = True, lead_errors = []\<rparr>)) sample_hook_request))
     = 400"
proof -
  let ?ok = "Inr \<lparr>lead_id = ''00Q01'', lead_success = True, lead_errors = []\<rparr>"
  let ?w = "sample_hook_world (Some signup_event) ?ok"
  let ?other = "signup_event\<lparr>ev_type := ''user.deleted''\<rparr>"
  have v: "verified ?w sample_hook_request signup_event"
    by (rule sample_verified)
  have t: "ev_type signup_event = ''user.created''"
    by (simp add: signup_event_def)
  have s: "createLead_succeeds ?w (leadData (ev_data signup_event) (the (primaryEmail (ev_data signup_event))))"
    by (simp add: createLead_succeeds_def sample_hook_world_def)
  from webhook_lead_on_signup [of ?w sample_hook_request signup_event] v t s signup_email
  have created: "lead_created ?w sample_hook_request"
    and calls: "snd (webhook_POST ?w sample_hook_request)
           = [SF_createLead (leadData (ev_data signup_event) ''ada@example.com'')]"
    by simp_all
  have r: "createLead_result ?w (leadData (ev_data signup_event) ''ada@example.com'') = ?ok"
    by (simp add: sample_hook_world_def)
  have resp: "fst (webhook_POST ?w sample_hook_request) = Lead_created ''00Q01''"
    by (simp add: webhook_verified [OF v] t signup_email Let_def r)
  have v2: "verified (sample_hook_world (Some ?other) ?ok) sample_hook_request ?other"
    by (rule sample_verified)
  have t2: "ev_type ?other \<noteq> ''user.created''"
    by simp
  from webhook_lead_on_signup [of "sample_hook_world (Some ?other) ?ok" sample_hook_request ?other]
    v2 t2
  have other: "snd (webhook_POST (sample_hook_world (Some ?other) ?ok) sample_hook_request) = []"
    by blast
  have u: "unverified (sample_hook_world None ?ok) sample_hook_request"
    by (simp add: unverified_def sample_hook_world_def sample_hook_request_def)
  from webhook_lead_on_signup [of "sample_hook_world None ?ok" sample_hook_request] u
  have bad: "webhook_status (fst (webhook_POST (sample_hook_world None ?ok) sample_hook_request)) = 400"
    by blast
  from created calls resp other bad show ?thesis
    by (simp add: signup_lead prod_eq_iff)
qed

subsection \<open>External calls per request\<close>

lemma detail_calls:
  "snd (detail_GET w pid) \<in>
     {[Clerk_auth], [Clerk_auth, SF_getTransaction pid],
      [Clerk_auth, SF_getTransaction pid, Cloudinary_getPropertyImages pid]}"
  by (simp add: detail_GET_def Let_def split: sum.splits)

lemma detail_served_calls:
  "served (fst (detail_GET w pid)) \<noteq> None \<Longrightarrow>
     snd (detail_GET w pid)
       = [Clerk_auth, SF_getTransaction pid, Cloudinary_getPropertyImages pid]"
  by (auto simp: detail_GET_def Let_def detail_catch_def split: sum.splits if_splits)

lemma listing_calls:
  "snd (listing_GET env now w request) \<in> {[Clerk_auth], [Clerk_auth, SF_fetch_query]}"
  by (simp add: listing_GET_def Let_def split: sum.splits fetch_outcome.splits option.splits)

lemma listing_no_tokens_calls:
  "\<not> truthy_str (sf_access_token request) \<or> \<not> truthy_str (sf_instance_url request) \<Longrightarrow>
     snd (listing_GET env now w request) = [Clerk_auth]"
  by (auto simp: listing_GET_def Let_def split: sum.splits)

lemma db_listing_call_list:
  "snd (db_listing_GET env clerk db request) \<in>
     {[Clerk_auth,
       DB_getProperties (Some (effectiveTier (userTier_of clerk) (or_str (r_tier request) ''public'')))],
      [Clerk_auth,
       DB_getProperties (Some (effectiveTier (userTier_of clerk) (or_str (r_tier request) ''public''))),
       DB_getLastSyncTime]}"
  by (simp add: db_listing_GET_def Let_def split: sum.splits)

lemma db_listing_one_call:
  "snd (db_listing_GET env clerk db request)
      = [Clerk_auth,
         DB_getProperties (Some (effectiveTier (userTier_of clerk) (or_str (r_tier request) ''public'')))]
    \<longleftrightarrow> \<not> anon_configured db"
  by (simp add: db_listing_GET_def Let_def getProperties_limit_def getProperties_def
      split: sum.splits option.splits)

lemma upsert_calls:
  "fst (snd (upsert_POST env now s apiKey request db)) \<in>
     {[], [DB_syncProperties], [DB_syncProperties, DB_updateSyncStatus]}"
  by (simp add: upsert_POST_def split: sum.splits)

lemma upsert_refused_calls:
  "truthy_str apiKey \<and> authorization request \<noteq> Some (''Bearer '' @ the apiKey) \<Longrightarrow>
     fst (snd (upsert_POST env now s apiKey request db)) = []"
  by (simp add: upsert_POST_def)

lemma webhook_calls:
  "snd (webhook_POST w req) = [] \<or> (\<exists>lead. snd (webhook_POST w req) = [SF_createLead lead])"
  by (simp add: webhook_POST_def Let_def split: option.splits sum.splits)

text \<open>
  C9 as stated fails: the property detail route, serving a public property to a viewer
  who is not signed in, has awaited \<open>getTransaction\<close> and then \<open>getPropertyImages\<close>
  (two external calls beside Clerk's) before it responds.
\<close>

theorem detail_route_two_calls:
  "served (fst (detail_GET (sample_detail_world None (sample_transaction ''Rental'' ''public'' None))
             ''a0X01'')) \<noteq> None \<and>
   filter (\<lambda>c. c \<noteq> Clerk_auth)
     (snd (detail_GET (sample_detail_world None (sample_transaction ''Rental'' ''public'' None))
             ''a0X01''))
     = [SF_getTransaction ''a0X01'', Cloudinary_getPropertyImages ''a0X01''] \<and>
   length (snd (detail_GET (sample_detail_world None (sample_transaction ''Rental'' ''public'' None))
             ''a0X01'')) \<noteq> 1"
proof -
  let ?tx = "sample_transaction ''Rental'' ''public'' None"
  let ?w = "sample_detail_world None ?tx"
  have auth: "auth_result ?w = Inr None"
    by (simp add: sample_detail_world_def)
  have tx: "getTransaction_result ?w ''a0X01'' = Inr ?tx"
    by (simp add: sample_detail_world_def sample_transaction_def)
  have tier: "Access_Tier__c ?tx = ''public''"
    by (simp add: sample_transaction_def)
  have run: "detail_GET ?w ''a0X01''
      = (Detail_ok (redact ''public''
           (transformSalesforceTransaction ?tx (Some (getPropertyImages_result ?w ''a0X01'')))),
         [Clerk_auth, SF_getTransaction ''a0X01'', Cloudinary_getPropertyImages ''a0X01''])"
    by (simp add: detail_GET_def Let_def auth tx tier viewer_tier_def)
  then show ?thesis
    by simp
qed

text \<open>
  C9, as amended, for five route handlers: the property detail route, the
  Salesforce-backed listing, the database-backed listing, the upsert endpoint and the
  Clerk webhook. Each awaits its external calls (Clerk's \<open>auth()\<close> among them) one
  after the other, in a fixed order and none twice, and then returns; how many depends
  on the route and on the request, and it is not always one.
  \<^item> The detail route awaits \<open>auth()\<close>, then \<open>getTransaction\<close>, then
    \<open>getPropertyImages\<close>; whenever it serves a property it has awaited all three.
  \<^item> The Salesforce-backed listing awaits \<open>auth()\<close> and then at most one query, and
    no query when a Salesforce token is missing.
  \<^item> The database-backed listing awaits \<open>auth()\<close>, \<open>getProperties\<close> with the
    effective tier, and then \<open>getLastSyncTime\<close> unless \<open>getProperties\<close> threw.
  \<^item> The upsert endpoint awaits nothing, or \<open>syncProperties\<close>, or \<open>syncProperties\<close>
    and then \<open>updateSyncStatus\<close>; a request with the wrong API key makes no call.
  \<^item> The webhook awaits nothing or one \<open>createLead\<close>; a request that does not
    verify makes no call.
\<close>

theorem external_calls_in_sequence:
  "snd (detail_GET dw pid) \<in>
     {[Clerk_auth], [Clerk_auth, SF_getTransaction pid],
      [Clerk_auth, SF_getTransaction pid, Cloudinary_getPropertyImages pid]} \<and>
   (served (fst (detail_GET dw pid)) \<noteq> None \<longrightarrow>
      snd (detail_GET dw pid)
        = [Clerk_auth, SF_getTransaction pid, Cloudinary_getPropertyImages pid]) \<and>
   snd (listing_GET env now lw lrequest) \<in> {[Clerk_auth], [Clerk_auth, SF_fetch_query]} \<and>
   (\<not> truthy_str (sf_access_token lrequest) \<or> \<not> truthy_str (sf_instance_url lrequest) \<longrightarrow>
      snd (listing_GET env now lw lrequest) = [Clerk_auth]) \<and>
   snd (db_listing_GET env clerk db drequest) \<in>
     {[Clerk_auth,
       DB_getProperties (Some (effectiveTier (userTier_of clerk) (or_str (r_tier drequest) ''public'')))],
      [Clerk_auth,
       DB_getProperties (Some (effectiveTier (userTier_of clerk) (or_str (r_tier drequest) ''public''))),
       DB_getLastSyncTime]} \<and>
   (snd (db_listing_GET env clerk db drequest)
      = [Clerk_auth,
         DB_getProperties (Some (effectiveTier (userTier_of clerk) (or_str (r_tier drequest) ''public'')))]
    \<longleftrightarrow> \<not> anon_configured db) \<and>
   fst (snd (upsert_POST env now s apiKey urequest db)) \<in>
     {[], [DB_syncProperties], [DB_syncProperties, DB_updateSyncStatus]} \<and>
   (truthy_str apiKey \<and> authorization urequest \<noteq> Some (''Bearer '' @ the apiKey) \<longrightarrow>
      fst (snd (upsert_POST env now s apiKey urequest db)) = []) \<and>
   (snd (webhook_POST ww wrequest) = [] \<or>
    (\<exists>lead. snd (webhook_POST ww wrequest) = [SF_createLead lead])) \<and>
   (unverified ww wrequest \<longrightarrow> snd (webhook_POST ww wrequest) = []) \<and>
   distinct (snd (detail_GET dw pid)) \<and>
   distinct (snd (listing_GET env now lw lrequest)) \<and>
   distinct (snd (db_listing_GET env clerk db drequest)) \<and>
   distinct (fst (snd (upsert_POST env now s apiKey urequest db))) \<and>
   distinct (snd (webhook_POST ww wrequest))"
proof -
  have d1: "distinct (snd (detail_GET dw pid))"
    using detail_calls [of dw pid] by auto
  have d4: "distinct (snd (listing_GET env now lw lrequest))"
    using listing_calls [of env now lw lrequest] by auto
  have d5: "distinct (snd (db_listing_GET env clerk db drequest))"
    using db_listing_call_list [of env clerk db drequest] by auto
  have d6: "distinct (fst (snd (upsert_POST env now s apiKey urequest db)))"
    using upsert_calls [of env now s apiKey urequest db] by auto
  have d7: "distinct (snd (webhook_POST ww wrequest))"
    using webhook_calls [of ww wrequest] by auto
  have served3: "served (fst (detail_GET dw pid)) \<noteq> None \<longrightarrow>
      snd (detail_GET dw pid)
        = [Clerk_auth, SF_getTransaction pid, Cloudinary_getPropertyImages pid]"
    using detail_served_calls [of dw pid] by blast
  have l0: "\<not> truthy_str (sf_access_token lrequest) \<or> \<not> truthy_str (sf_instance_url lrequest) \<longrightarrow>
      snd (listing_GET env now lw lrequest) = [Clerk_auth]"
    using listing_no_tokens_calls [of lrequest env now lw] by blast
  have b0: "snd (db_listing_GET env clerk db drequest)
      = [Clerk_auth,
         DB_getProperties (Some (effectiveTier (userTier_of clerk) (or_str (r_tier drequest) ''public'')))]
    \<longleftrightarrow> \<not> anon_configured db"
    by (rule db_listing_one_call)
  have u0: "truthy_str apiKey \<and> authorization urequest \<noteq> Some (''Bearer '' @ the apiKey) \<longrightarrow>
      fst (snd (upsert_POST env now s apiKey urequest db)) = []"
    using upsert_refused_calls [of apiKey urequest env now s db] by blast
  have w0: "unverified ww wrequest \<longrightarrow> snd (webhook_POST ww wrequest) = []"
    using webhook_unverified [of ww wrequest] by blast
  show ?thesis
    by (intro conjI;
        fact detail_calls served3 listing_calls l0 db_listing_call_list b0 upsert_calls u0
          webhook_calls w0 d1 d4 d5 d6 d7)
qed

text \<open>The same request, as the theorem describes it.\<close>

theorem external_calls_in_sequence_witness:
  "served (fst (detail_GET (sample_detail_world None (sample_transaction ''Rental'' ''public'' None))
             ''a0X01'')) \<noteq> None \<and>
   snd (detail_GET (sample_detail_world None (sample_transaction ''Rental'' ''public'' None)) ''a0X01'')
     = [Clerk_auth, SF_getTransaction ''a0X01'', Cloudinary_getPropertyImages ''a0X01'']"
proof -
  let ?tx = "sample_transaction ''Rental'' ''public'' None"
  let ?w = "sample_detail_world None ?tx"
  have auth: "auth_result ?w = Inr None"
    by (simp add: sample_detail_world_def)
  have tx: "getTransaction_result ?w ''a0X01'' = Inr ?tx"
    by (simp add: sample_detail_world_def sample_transaction_def)
  have tier: "Access_Tier__c ?tx = ''public''"
    by (simp add: sample_transaction_def)
  have s: "served (fst (detail_GET ?w ''a0X01'')) \<noteq> None"
    by (simp add: detail_GET_def Let_def auth tx tier viewer_tier_def)
  with external_calls_in_sequence [of ?w "''a0X01''"] show ?thesis
    by blast
qed

end
